(* ===== verification/Prelude.thy ===== *)
theory Prelude
  imports Main "HOL-Library.Word" "HOL-Library.Sublist"
begin

text \<open>
  Shared vocabulary of the LOA plugin model: the string operations the C++ code uses
  (\<open>tolower\<close>, \<open>EqualsIgnoreCase\<close>, \<open>_stricmp\<close>, \<open>std::string::compare\<close> and
  \<open>find\<close>, \<open>c_str\<close>), C's truncating division, the decimal printing of
  \<open>snprintf\<close>/\<open>std::to_string\<close>, the 16-byte tag buffer filled by \<open>snprintf\<close> and
  \<open>strncpy_s(\<dots>, _TRUNCATE)\<close>, and the 64-bit tick counter of \<open>GetTickCount64\<close>.
  The collection \<open>loa_defs\<close> gathers the definitions that concrete runs unfold.
\<close>

named_theorems loa_defs "definitions unfolded when a concrete run of the model is evaluated"

type_synonym tick = "64 word"
type_synonym callsign = string

subsection \<open>Characters and strings\<close>

text \<open>
  \<open>tolower\<close> in the C locale: only the ASCII letters A-Z (codes 65 to 90) change, to the
  code 32 higher, which sets bit 5 (lemma \<open>to_lower_char_code\<close>).
\<close>

definition to_lower_char :: "char \<Rightarrow> char" where
  "to_lower_char c =
     (if 65 \<le> (of_char c :: nat) \<and> (of_char c :: nat) \<le> 90
      then (case c of Char b0 b1 b2 b3 b4 b5 b6 b7 \<Rightarrow> Char b0 b1 b2 b3 b4 True b6 b7) else c)"

abbreviation lower :: "string \<Rightarrow> string" where
  "lower s \<equiv> map to_lower_char s"

text \<open>
  \<open>EqualsIgnoreCase\<close> (LoaMatcher.cpp): \<open>std::equal\<close> over both full ranges, so the
  lengths must agree and the characters agree after \<open>tolower\<close>.
\<close>

fun equals_ignore_case :: "string \<Rightarrow> string \<Rightarrow> bool" where
  "equals_ignore_case [] [] = True"
| "equals_ignore_case (a # as) (b # bs) =
     (to_lower_char a = to_lower_char b \<and> equals_ignore_case as bs)"
| "equals_ignore_case _ _ = False"

text \<open>\<open>s.c_str()\<close> seen as a C string: everything up to the first NUL byte.\<close>

definition c_str :: "string \<Rightarrow> string" where
  "c_str s = takeWhile (\<lambda>c. c \<noteq> CHR 0x00) s"

text \<open>\<open>_stricmp(a.c_str(), b.c_str()) == 0\<close>.\<close>

definition stricmp_eq :: "string \<Rightarrow> string \<Rightarrow> bool" where
  "stricmp_eq a b = equals_ignore_case (c_str a) (c_str b)"

text \<open>\<open>s.compare(0, p.length(), p) == 0\<close>: the first \<open>|p|\<close> characters of \<open>s\<close>
  (fewer if \<open>s\<close> is shorter) equal \<open>p\<close>.\<close>

definition starts_with :: "string \<Rightarrow> string \<Rightarrow> bool" where
  "starts_with s p = (take (length p) s = p)"

text \<open>\<open>s.find(n) != std::string::npos\<close>.\<close>

fun str_contains :: "string \<Rightarrow> string \<Rightarrow> bool" where
  "str_contains [] n = (n = [])"
| "str_contains (c # s) n = (starts_with (c # s) n \<or> str_contains s n)"

subsection \<open>Integers as C prints and divides them\<close>

text \<open>C's \<open>/\<close> on \<open>int\<close> truncates towards zero (HOL's \<open>div\<close> rounds down).\<close>

definition cdiv :: "int \<Rightarrow> int \<Rightarrow> int" where
  "cdiv a b = sgn a * sgn b * (\<bar>a\<bar> div \<bar>b\<bar>)"

fun nat_digits :: "nat \<Rightarrow> string" where
  "nat_digits n =
     (if n < 10 then [char_of (48 + n)] else nat_digits (n div 10) @ [char_of (48 + n mod 10)])"

declare nat_digits.simps [simp del]

text \<open>\<open>"%d"\<close> and \<open>std::to_string\<close>.\<close>

definition int_to_string :: "int \<Rightarrow> string" where
  "int_to_string i = (if i < 0 then CHR ''-'' # nat_digits (nat (- i)) else nat_digits (nat i))"

definition pad_zero :: "nat \<Rightarrow> string \<Rightarrow> string" where
  "pad_zero w s = replicate (w - length s) (CHR ''0'') @ s"

text \<open>\<open>"%03d"\<close>: width 3, zero padded after the sign.\<close>

definition fmt_03d :: "int \<Rightarrow> string" where
  "fmt_03d i =
     (if i < 0 then CHR ''-'' # pad_zero 2 (nat_digits (nat (- i))) else pad_zero 3 (nat_digits (nat i)))"

text \<open>Reading a decimal string back (the inverse used by the round-trip lemma).\<close>

fun digits_value :: "string \<Rightarrow> nat" where
  "digits_value [] = 0"
| "digits_value (c # cs) = (of_char c - 48) * 10 ^ length cs + digits_value cs"

subsection \<open>The tag buffer\<close>

text \<open>
  Both \<open>snprintf(sItemString, 16, \<dots>)\<close> and \<open>strncpy_s(sItemString, 16, s, _TRUNCATE)\<close>
  store at most 15 characters of the C string and a terminating NUL.
\<close>

definition tag_copy :: "string \<Rightarrow> string" where
  "tag_copy s = take 15 (c_str s)"

lemmas [loa_defs] = Let_def to_lower_char_def c_str_def stricmp_eq_def starts_with_def cdiv_def
  int_to_string_def pad_zero_def fmt_03d_def tag_copy_def

subsection \<open>First match in a list\<close>

text \<open>
  The index of the first element that satisfies a predicate: the shape of every
  \<open>for (const auto& entry : list) if (\<dots>) return\<close> scan of the plugin, stated once so that
  the scans of the match engine and of the tag resolvers share its lemmas.
\<close>

fun first_match :: "('a \<Rightarrow> bool) \<Rightarrow> 'a list \<Rightarrow> nat option" where
  "first_match P [] = None"
| "first_match P (x # xs) = (if P x then Some 0 else map_option Suc (first_match P xs))"

subsection \<open>Generic lemmas\<close>

lemma first_match_Some_iff:
  "first_match P xs = Some i \<longleftrightarrow> i < length xs \<and> P (xs ! i) \<and> (\<forall>j < i. \<not> P (xs ! j))"
proof (induction xs arbitrary: i)
  case Nil
  then show ?case by simp
next
  case (Cons x xs)
  show ?case
  proof (cases i)
    case 0
    then show ?thesis by auto
  next
    case (Suc k)
    have "(\<forall>j < Suc k. \<not> P ((x # xs) ! j)) \<longleftrightarrow> \<not> P x \<and> (\<forall>j < k. \<not> P (xs ! j))"
      by (auto simp: less_Suc_eq_0_disj)
    with Suc Cons.IH show ?thesis by auto
  qed
qed

lemma first_match_None_iff: "first_match P xs = None \<longleftrightarrow> \<not> list_ex P xs"
  by (induction xs) auto

lemma first_match_Some_nth: "first_match P xs = Some i \<Longrightarrow> i < length xs \<and> P (xs ! i)"
  by (simp add: first_match_Some_iff)

lemma first_match_cong:
  "(\<And>x. x \<in> set xs \<Longrightarrow> P x = Q x) \<Longrightarrow> first_match P xs = first_match Q xs"
  by (induction xs) auto

lemma first_match_append:
  "first_match P (xs @ ys) =
     (case first_match P xs of Some i \<Rightarrow> Some i | None \<Rightarrow> map_option (\<lambda>j. length xs + j) (first_match P ys))"
proof (induction xs)
  case Nil
  show ?case by (cases "first_match P ys") simp_all
next
  case (Cons x xs)
  then show ?case
    by (cases "first_match P xs"; cases "first_match P ys") (auto simp: option.map_comp comp_def)
qed

lemma to_lower_char_code:
  "(of_char (to_lower_char c) :: nat) =
     (if 65 \<le> (of_char c :: nat) \<and> (of_char c :: nat) \<le> 90 then of_char c + 32 else of_char c)"
proof (cases c)
  case (Char b0 b1 b2 b3 b4 b5 b6 b7)
  then show ?thesis
    by (cases b0; cases b1; cases b2; cases b3; cases b4; cases b5; cases b6; cases b7)
       (simp_all add: to_lower_char_def)
qed

lemma equals_ignore_case_iff: "equals_ignore_case a b \<longleftrightarrow> lower a = lower b"
proof (induction a b rule: equals_ignore_case.induct)
  case (2 a as b bs)
  then show ?case by simp
qed auto

lemma equals_ignore_case_refl [simp]: "equals_ignore_case a a"
  by (simp add: equals_ignore_case_iff)

lemma equals_ignore_case_sym: "equals_ignore_case a b = equals_ignore_case b a"
  by (auto simp: equals_ignore_case_iff)

lemma equals_ignore_case_length: "equals_ignore_case a b \<Longrightarrow> length a = length b"
  by (metis equals_ignore_case_iff length_map)

lemma c_str_no_nul [simp]: "CHR 0x00 \<notin> set s \<Longrightarrow> c_str s = s"
  by (induction s) (auto simp: c_str_def)

lemma c_str_length: "length (c_str s) \<le> length s"
  by (simp add: c_str_def length_takeWhile_le)

lemma stricmp_eq_no_nul:
  "CHR 0x00 \<notin> set a \<Longrightarrow> CHR 0x00 \<notin> set b \<Longrightarrow> stricmp_eq a b = equals_ignore_case a b"
  by (simp add: stricmp_eq_def)

lemma starts_with_iff_prefix: "starts_with s p \<longleftrightarrow> prefix p s"
proof
  assume "starts_with s p"
  then have "s = p @ drop (length p) s"
    by (metis append_take_drop_id starts_with_def)
  then show "prefix p s" by (metis prefixI)
next
  assume "prefix p s"
  then show "starts_with s p" by (auto simp: starts_with_def prefix_def)
qed

lemma str_contains_iff_sublist: "str_contains s n \<longleftrightarrow> sublist n s"
proof (induction s)
  case Nil
  then show ?case by simp
next
  case (Cons c s)
  then show ?case
    by (auto simp: starts_with_iff_prefix sublist_Cons_right)
qed

lemma tag_copy_length [simp]: "length (tag_copy s) \<le> 15"
  by (simp add: tag_copy_def)

lemma tag_copy_short: "CHR 0x00 \<notin> set s \<Longrightarrow> length s \<le> 15 \<Longrightarrow> tag_copy s = s"
  by (simp add: tag_copy_def)

lemma cdiv_nonneg: "0 \<le> a \<Longrightarrow> 0 < b \<Longrightarrow> cdiv a b = a div b"
  by (cases "a = 0") (auto simp: cdiv_def sgn_if)

lemma nat_digits_unfold:
  "nat_digits n = (if n < 10 then [char_of (48 + n)] else nat_digits (n div 10) @ [char_of (48 + n mod 10)])"
  by (rule nat_digits.simps)

lemma nat_digits_nonempty [simp]: "nat_digits n \<noteq> []"
  by (subst nat_digits_unfold) simp

lemma char_of_digit: "d < 10 \<Longrightarrow> (of_char (char_of (48 + d)) :: nat) = 48 + d"
  by (simp add: of_char_of)

lemma char_of_digit_not_nul: "(d::nat) < 10 \<Longrightarrow> CHR 0x00 \<noteq> char_of (48 + d)"
proof
  assume "d < 10" and "CHR 0x00 = char_of (48 + d)"
  then have eq: "char_of (48 + d) = CHR 0x00" by simp
  from eq have "(of_char (char_of (48 + d)) :: nat) = of_char (CHR 0x00)" by simp
  with \<open>d < 10\<close> show False by (simp add: char_of_digit)
qed

lemma nat_digits_no_nul: "CHR 0x00 \<notin> set (nat_digits n)"
proof (induction n rule: nat_digits.induct)
  case (1 n)
  note nz = char_of_digit_not_nul
  show ?case
  proof (cases "n < 10")
    case True
    then show ?thesis using nz by (subst nat_digits_unfold) auto
  next
    case False
    then show ?thesis using "1" nz by (subst nat_digits_unfold) auto
  qed
qed

lemma length_nat_digits: "length (nat_digits n) \<le> Suc k \<longleftrightarrow> n < 10 ^ Suc k"
proof (induction n arbitrary: k rule: nat_digits.induct)
  case (1 n)
  show ?case
  proof (cases "n < 10")
    case True
    have "(1::nat) \<le> 10 ^ k" by simp
    with True have "n < 10 * 10 ^ k" by linarith
    with True show ?thesis by (subst nat_digits_unfold) simp
  next
    case False
    show ?thesis
    proof (cases k)
      case 0
      with False show ?thesis by (subst nat_digits_unfold) simp
    next
      case (Suc j)
      have "length (nat_digits (n div 10)) \<le> Suc j \<longleftrightarrow> n div 10 < 10 ^ Suc j"
        using "1" False by blast
      moreover have "n div 10 < 10 ^ Suc j \<longleftrightarrow> n < 10 ^ Suc (Suc j)"
        by (simp add: div_less_iff_less_mult mult.commute)
      ultimately show ?thesis using False Suc by (subst nat_digits_unfold) simp
    qed
  qed
qed

lemma digits_value_snoc: "digits_value (cs @ [c]) = digits_value cs * 10 + (of_char c - 48)"
  by (induction cs) (simp_all add: algebra_simps)

lemma digits_value_nat_digits: "digits_value (nat_digits n) = n"
proof (induction n rule: nat_digits.induct)
  case (1 n)
  show ?case
  proof (cases "n < 10")
    case True
    then show ?thesis by (subst nat_digits_unfold) (simp add: char_of_digit)
  next
    case False
    then have "digits_value (nat_digits (n div 10)) = n div 10" using "1" by blast
    with False show ?thesis
      by (subst nat_digits_unfold) (simp add: digits_value_snoc char_of_digit)
  qed
qed


text \<open>
  A non-negative level below \<open>2^31\<close> survives \<open>std::to_string\<close> and the 16-byte
  \<open>strncpy_s\<close> of the tag: the digits the tag shows read back as that number.
\<close>

lemma int_to_string_roundtrip:
  assumes "0 \<le> i" "i < 2 ^ 31"
  shows "int (digits_value (tag_copy (int_to_string i))) = i"
proof -
  have s: "int_to_string i = nat_digits (nat i)" using assms(1) by (simp add: int_to_string_def)
  have "nat i < 10 ^ Suc 9" using assms by simp
  then have "length (nat_digits (nat i)) \<le> 15" using length_nat_digits [of "nat i" 9] by simp
  then have "tag_copy (int_to_string i) = nat_digits (nat i)"
    by (simp add: s tag_copy_short nat_digits_no_nul)
  with assms(1) show ?thesis by (simp add: digits_value_nat_digits)
qed

end
