(* ===== verification/LOA_Types.thy ===== *)
theory LOA_Types
  imports Prelude
begin

text \<open>
  The data model of \<open>src/LOAPlugin.h\<close>: the \<open>LOAEntry\<close> rule record with its derived
  airport index, the five global rule collections of \<open>LOAPlugin.cpp\<close>, the per-flight
  \<open>CoordinationInfo\<close> and \<open>CachedTagData\<close>, the members of the \<open>LOAPlugin\<close> class
  as one state record, and the host (EuroScope) values the code reads: flight-plan states,
  coordination states, tag colours, flight plans, radar targets and controllers. The
  EuroScope header is not part of the repository; its enumerations are modelled as
  datatypes with the constructors the code names.
\<close>

subsection \<open>Host enumerations (EuroScopePlugIn.h)\<close>

datatype fp_state =
    FpNotStarted | FpSimulated | FpTransferToMeInitiated | FpTransferFromMeInitiated
  | FpAssumed | FpNonConcerned | FpRedundant | FpNotified | FpCoordinated

datatype coord_state =
    CoordNone | RequestedByMe | RequestedByOther | CoordAccepted | CoordRefused | ManualAccepted

datatype tag_color =
    ColorRequestFromMe | ColorRequestToMe | ColorRequestRefused | ColorRequestAccepted

text \<open>The \<open>coordinationType\<close> argument of \<open>OnFlightPlanCoordinationStateChange\<close>.\<close>

datatype coord_type = CoordTypeAltitude | CoordTypePointName | CoordTypeOther

subsection \<open>Rules\<close>

text \<open>\<open>struct LOAEntry\<close>, with the default member initialisers.\<close>

record loa_entry =
  sectors :: "string list"
  waypoints :: "string list"
  origin_airports :: "string list"
  destination_airports :: "string list"
  next_sectors :: "string list"
  xfl :: int
  cop_text :: string
  require_next_sector_online :: bool
  min_altitude_ft :: int
  origin_airport_set :: "string set"
  origin_airport_prefixes :: "string list"
  destination_airport_set :: "string set"
  destination_airport_prefixes :: "string list"

definition default_loa_entry :: loa_entry where
  "default_loa_entry =
     \<lparr>sectors = [], waypoints = [], origin_airports = [], destination_airports = [],
      next_sectors = [], xfl = 0, cop_text = ''COPX'', require_next_sector_online = False,
      min_altitude_ft = 0, origin_airport_set = {}, origin_airport_prefixes = [],
      destination_airport_set = {}, destination_airport_prefixes = []\<rparr>"

text \<open>The five global collections \<open>destinationLoas\<close> \<dots> \<open>fallbackLoas\<close>.\<close>

datatype loa_category = DestinationLoas | DepartureLoas | LorArrivals | LorDepartures | FallbackLoas

record rule_set =
  destination_loas :: "loa_entry list"
  departure_loas :: "loa_entry list"
  lor_arrivals :: "loa_entry list"
  lor_departures :: "loa_entry list"
  fallback_loas :: "loa_entry list"

definition empty_rules :: rule_set where
  "empty_rules =
     \<lparr>destination_loas = [], departure_loas = [], lor_arrivals = [], lor_departures = [],
      fallback_loas = []\<rparr>"

fun category_list :: "rule_set \<Rightarrow> loa_category \<Rightarrow> loa_entry list" where
  "category_list r DestinationLoas = destination_loas r"
| "category_list r DepartureLoas = departure_loas r"
| "category_list r LorArrivals = lor_arrivals r"
| "category_list r LorDepartures = lor_departures r"
| "category_list r FallbackLoas = fallback_loas r"

text \<open>
  A \<open>const LOAEntry*\<close> into one of the collections is the category and the index of the
  element, together with the storage generation it was taken from: \<open>LoadLOAsFromJSON\<close>
  clears and reassigns the vectors, which destroys every element, so a pointer taken
  before a reload dangles. The generation is the model's record of which storage is
  alive; the plugin state below holds the current one.
\<close>

record loa_ref =
  ref_gen :: nat
  ref_cat :: loa_category
  ref_idx :: nat

definition deref :: "rule_set \<Rightarrow> nat \<Rightarrow> loa_ref \<Rightarrow> loa_entry option" where
  "deref r gen p =
     (if ref_gen p = gen \<and> ref_idx p < length (category_list r (ref_cat p))
      then Some (category_list r (ref_cat p) ! ref_idx p) else None)"

subsection \<open>Coordination and tag data\<close>

record coordination_info =
  exit_altitude :: int
  exit_altitude_state :: coord_state
  exit_point :: string
  exit_point_state :: coord_state

definition default_coordination_info :: coordination_info where
  "default_coordination_info =
     \<lparr>exit_altitude = 0, exit_altitude_state = CoordNone, exit_point = [],
      exit_point_state = CoordNone\<rparr>"

record cached_tag_data =
  ctd_callsign :: string
  ctd_cleared_altitude :: int
  ctd_final_altitude :: int
  ctd_origin :: string
  ctd_destination :: string

definition default_tag_data :: cached_tag_data where
  "default_tag_data =
     \<lparr>ctd_callsign = [], ctd_cleared_altitude = 0, ctd_final_altitude = 0, ctd_origin = [],
      ctd_destination = []\<rparr>"

subsection \<open>Host objects\<close>

text \<open>
  What the code reads of a \<open>CFlightPlan\<close> (its accessors), of a \<open>CRadarTarget\<close>
  and of a \<open>CController\<close> in the roster. The extracted route is the sequence of
  \<open>GetPointName(i)\<close> for \<open>i < GetPointsNumber()\<close>.
\<close>

record flight_plan =
  fp_valid :: bool
  fp_callsign :: string
  fp_state :: fp_state
  plan_type :: string
  fp_origin :: string
  fp_destination :: string
  cleared_altitude :: int
  final_altitude :: int
  extracted_route :: "string list"
  tracking_controller_id :: string
  exit_coord_altitude :: int
  exit_coord_altitude_state :: coord_state
  exit_coord_point_name :: string
  exit_coord_name_state :: coord_state

record radar_target =
  rt_valid :: bool
  rt_correlated_valid :: bool

record controller =
  ctrl_callsign :: string
  ctrl_position_id :: string

subsection \<open>The plugin object\<close>

text \<open>
  The members of \<open>class LOAPlugin\<close> and the globals it works on. The online-controller
  set is kept as the list of its elements in insertion order (one admissible iteration
  order of the \<open>unordered_set\<close>, which only the hash observes). Match timestamps hold
  the value of a \<open>DWORD\<close> widened back to 64 bits, as the code stores it.
\<close>

record plugin =
  loaded_sector :: string
  rules :: rule_set
  rules_gen :: nat
  cached_online :: "string list"
  last_online_fetch :: tick
  online_hash :: "64 word"
  last_tag_data :: cached_tag_data
  matched_cache :: "callsign \<rightharpoonup> loa_ref option"
  route_cache :: "callsign \<rightharpoonup> string list"
  route_cache_time :: "callsign \<rightharpoonup> tick"
  match_timestamps :: "callsign \<rightharpoonup> tick"
  frame_online :: "string list"
  frame_route :: "string list"
  frame_callsign :: string
  frame_timestamp :: tick
  frame_match :: "loa_ref option"
  coordination_states :: "callsign \<rightharpoonup> coordination_info"

text \<open>The object right after construction, before any sector has been loaded.\<close>

text \<open>The tag item codes of \<open>namespace ItemCodes\<close> (LOAPlugin.h).\<close>

definition custom_tag_id :: int where "custom_tag_id = 1996"

definition custom_tag_id_cop :: int where "custom_tag_id_cop = 1997"

definition custom_tag_xfl_detailed :: int where "custom_tag_xfl_detailed = 2000"

definition init_plugin :: plugin where
  "init_plugin =
     \<lparr>loaded_sector = [], rules = empty_rules, rules_gen = 0, cached_online = [],
      last_online_fetch = 0, online_hash = 0, last_tag_data = default_tag_data,
      matched_cache = Map.empty, route_cache = Map.empty, route_cache_time = Map.empty,
      match_timestamps = Map.empty, frame_online = [], frame_route = [], frame_callsign = [],
      frame_timestamp = 0, frame_match = None, coordination_states = Map.empty\<rparr>"

text \<open>\<open>IsLOARelevantState\<close> (LOAPlugin.cpp).\<close>

fun is_loa_relevant_state :: "fp_state \<Rightarrow> bool" where
  "is_loa_relevant_state FpNotified = True"
| "is_loa_relevant_state FpCoordinated = True"
| "is_loa_relevant_state FpTransferToMeInitiated = True"
| "is_loa_relevant_state FpTransferFromMeInitiated = True"
| "is_loa_relevant_state FpAssumed = True"
| "is_loa_relevant_state _ = False"

lemmas [loa_defs] = default_loa_entry_def empty_rules_def deref_def default_coordination_info_def
  default_tag_data_def init_plugin_def

end
