(* ===== verification/Airport_Match.thy ===== *)
theory Airport_Match
  imports LOA_Types
begin

text \<open>
  The airport matcher: \<open>processAirportList\<close> (the load-time lambda of
  \<open>LoadLOAsFromJSON\<close>, LOAPlugin.cpp) splits a raw airport list into a set of exact
  four-character codes and a list of prefixes, and \<open>LOAPlugin::MatchesAirport\<close> tests a
  code against them. The abstract contract \<open>airport_listed\<close> reads the raw list
  directly; the refinement lemma says the indexed test computes it.
\<close>

fun process_airport_list :: "string list \<Rightarrow> string set \<Rightarrow> string list \<Rightarrow> string set \<times> string list" where
  "process_airport_list [] exact prefs = (exact, prefs)"
| "process_airport_list (a # as) exact prefs =
     (if length a = 4 then process_airport_list as (insert a exact) prefs
      else process_airport_list as exact (prefs @ [a]))"

fun matches_prefixes :: "string list \<Rightarrow> string \<Rightarrow> bool" where
  "matches_prefixes [] airport = False"
| "matches_prefixes (p # ps) airport = (starts_with airport p \<or> matches_prefixes ps airport)"

definition matches_airport :: "string set \<Rightarrow> string list \<Rightarrow> string \<Rightarrow> bool" where
  "matches_airport exact prefs airport = (airport \<in> exact \<or> matches_prefixes prefs airport)"

text \<open>The contract: some listed code equals the airport (four characters) or starts it (any other length).\<close>

definition airport_listed :: "string list \<Rightarrow> string \<Rightarrow> bool" where
  "airport_listed raw code = list_ex (\<lambda>a. if length a = 4 then code = a else prefix a code) raw"

text \<open>The derived fields of an entry are the split of its raw lists (the load-time invariant).\<close>

definition entry_index_ok :: "loa_entry \<Rightarrow> bool" where
  "entry_index_ok e =
     ((origin_airport_set e, origin_airport_prefixes e) = process_airport_list (origin_airports e) {} [] \<and>
      (destination_airport_set e, destination_airport_prefixes e) =
        process_airport_list (destination_airports e) {} [])"

lemmas [loa_defs] = matches_airport_def airport_listed_def entry_index_ok_def

subsection \<open>The split\<close>

lemma process_airport_list_eq:
  "process_airport_list raw exact prefs =
     (exact \<union> {a \<in> set raw. length a = 4}, prefs @ filter (\<lambda>a. length a \<noteq> 4) raw)"
  by (induction raw arbitrary: exact prefs) auto

lemma matches_prefixes_iff: "matches_prefixes ps airport \<longleftrightarrow> list_ex (\<lambda>p. prefix p airport) ps"
  by (induction ps) (auto simp: starts_with_iff_prefix)

lemma airport_listed_Cons:
  "airport_listed (a # raw) code =
     ((if length a = 4 then code = a else prefix a code) \<or> airport_listed raw code)"
  by (simp add: airport_listed_def)

lemma airport_listed_Nil [simp]: "\<not> airport_listed [] code"
  by (simp add: airport_listed_def)

lemma entry_index_ok_default [simp]: "entry_index_ok default_loa_entry"
  by (simp add: entry_index_ok_def default_loa_entry_def)

text \<open>
  C8: The indexed airport test refines its contract: \<open>MatchesAirport\<close> on the exact set and
  prefix list that \<open>processAirportList\<close> builds from a raw list answers exactly whether some
  listed code equals the airport (four-character codes) or is a prefix of it (all other lengths).
\<close>

theorem matches_airport_refines:
  "matches_airport (fst (process_airport_list raw {} [])) (snd (process_airport_list raw {} [])) code =
   airport_listed raw code"
  by (auto simp: process_airport_list_eq matches_airport_def matches_prefixes_iff airport_listed_def
      list_ex_iff split: if_splits)

text \<open>
  C26: The load-time index is a lossless partition of the raw list: the exact set and the prefix
  list together hold every listed code and nothing else, they are disjoint, the exact set holds
  only four-character codes, and the prefix list is the raw list's other codes in their order.
\<close>

theorem airport_index_partition:
  "process_airport_list raw {} [] = (E, P) \<Longrightarrow>
   E \<union> set P = set raw \<and> E \<inter> set P = {} \<and> (\<forall>a \<in> E. length a = 4) \<and>
   P = filter (\<lambda>a. length a \<noteq> 4) raw"
  by (auto simp: process_airport_list_eq)

text \<open>
  C27: Every code whose length is not four goes to the prefix list, the empty string included:
  an entry that lists \<open>""\<close> among its airports matches every airport.
\<close>

theorem empty_code_matches_any_airport:
  "[] \<in> set raw \<Longrightarrow>
   matches_airport (fst (process_airport_list raw {} [])) (snd (process_airport_list raw {} [])) code"
proof -
  assume mem: "[] \<in> set raw"
  have "(\<lambda>a. if length a = 4 then code = a else prefix a code) []" by simp
  with mem have "\<exists>a \<in> set raw. (\<lambda>a. if length a = 4 then code = a else prefix a code) a"
    by (rule rev_bexI)
  then have "airport_listed raw code" by (simp only: airport_listed_def list_ex_iff)
  then show ?thesis by (simp add: matches_airport_refines)
qed

end
