(* ===== verification/Caches.thy ===== *)
theory Caches
  imports LOA_Types
begin

unbundle bit_operations_syntax

text \<open>
  The two time-windowed caches of \<open>LOAPlugin\<close> (LOAPlugin.cpp) and their cleanup:
  \<^item> \<open>GetCachedRoutePoints\<close>: per callsign, the extracted route, valid 3000 ticks;
  \<^item> \<open>GetOnlineControllersCached\<close>: the position ids of staffed \<open>_CTR\<close>/\<open>_APP\<close>
    sessions, valid 5000 ticks, with the content hash \<open>HashSetOfStrings\<close>;
  \<^item> \<open>CleanupCache\<close> and \<open>OnFlightPlanStateChange\<close>, which drop a callsign's entries.
  The host's roster (\<open>ControllerSelectFirst\<close> \<dots> \<open>ControllerSelectNext\<close>) is the
  list of its sessions. \<open>HashVectorOfStrings\<close> and \<open>IsControllerOnlineCached\<close>, which
  nothing calls, are here too.
  Each operation takes the plugin state and the tick of \<open>GetTickCount64\<close> and returns
  the new state with the value; tick arithmetic is on 64-bit words, as \<open>ULONGLONG\<close>.
\<close>

subsection \<open>Route cache\<close>

text \<open>
  \<open>routeCache.count(cs) && now - routeCacheTime[cs] < 3000\<close>: the \<open>operator[]\<close> read
  inserts a zero time when the key is missing, which the model writes out.
\<close>

definition refresh_route :: "plugin \<Rightarrow> flight_plan \<Rightarrow> tick \<Rightarrow> plugin \<times> string list" where
  "refresh_route p fp now =
     (let cs = fp_callsign fp; route = extracted_route fp in
      (p\<lparr>route_cache := (route_cache p)(cs \<mapsto> route),
         route_cache_time := (route_cache_time p)(cs \<mapsto> now)\<rparr>, route))"

definition get_cached_route_points :: "plugin \<Rightarrow> flight_plan \<Rightarrow> tick \<Rightarrow> plugin \<times> string list" where
  "get_cached_route_points p fp now =
     (let cs = fp_callsign fp in
      case route_cache p cs of
        None \<Rightarrow> refresh_route p fp now
      | Some r \<Rightarrow>
          (let t = (case route_cache_time p cs of None \<Rightarrow> 0 | Some t \<Rightarrow> t);
               p1 = p\<lparr>route_cache_time := (route_cache_time p)(cs \<mapsto> t)\<rparr>
           in if now - t < 3000 then (p1, r) else refresh_route p1 fp now))"

text \<open>\<open>CleanupCache\<close>: the match result, the route and the route time are erased; the
  match timestamp is not.\<close>

definition cleanup_cache :: "plugin \<Rightarrow> callsign \<Rightarrow> plugin" where
  "cleanup_cache p cs =
     p\<lparr>matched_cache := (matched_cache p)(cs := None),
       route_cache := (route_cache p)(cs := None),
       route_cache_time := (route_cache_time p)(cs := None)\<rparr>"

definition on_flight_plan_state_change :: "plugin \<Rightarrow> flight_plan \<Rightarrow> plugin" where
  "on_flight_plan_state_change p fp =
     (if \<not> fp_valid fp then p
      else if fp_state fp = FpNonConcerned \<or> fp_state fp = FpRedundant
      then cleanup_cache p (fp_callsign fp) else p)"

subsection \<open>Online controllers\<close>

text \<open>
  One step of \<open>HashSetOfStrings\<close>: \<open>seed ^= c + 0x9e3779b9 + (seed << 6) + (seed >> 2)\<close>.
  \<open>c\<close> is a signed \<open>char\<close>; \<open>c + 0x9e3779b9\<close> is computed in \<open>unsigned int\<close>
  (the literal does not fit an \<open>int\<close>), then widened to the 64-bit \<open>size_t\<close>.
\<close>

definition hash_step :: "64 word \<Rightarrow> char \<Rightarrow> 64 word" where
  "hash_step seed c =
     seed XOR (ucast ((scast (of_char c :: 8 word) :: 32 word) + 0x9e3779b9)
               + push_bit 6 seed + drop_bit 2 seed)"

text \<open>The inner loop \<open>for (char c : s)\<close> of both hash functions.\<close>

definition hash_chars :: "64 word \<Rightarrow> string \<Rightarrow> 64 word" where
  "hash_chars seed s = foldl hash_step seed s"

text \<open>\<open>HashVectorOfStrings\<close> and \<open>HashSetOfStrings\<close>: the seed is the element count
  (\<open>size_t\<close>), then the outer loop over the elements; the set is taken in its iteration
  order.\<close>

definition hash_vector_of_strings :: "string list \<Rightarrow> 64 word" where
  "hash_vector_of_strings vec = foldl hash_chars (of_nat (length vec)) vec"

definition hash_set_of_strings :: "string list \<Rightarrow> 64 word" where
  "hash_set_of_strings ss = foldl hash_chars (of_nat (length ss)) ss"

definition is_online_position :: "controller \<Rightarrow> bool" where
  "is_online_position c =
     (ctrl_callsign c \<noteq> [] \<and>
      (str_contains (ctrl_callsign c) ''_CTR'' \<or> str_contains (ctrl_callsign c) ''_APP''))"

text \<open>The roster loop \<open>ControllerSelectFirst\<close> \<dots> \<open>ControllerSelectNext\<close>, inserting into the set.\<close>

fun collect_online :: "controller list \<Rightarrow> string list \<Rightarrow> string list" where
  "collect_online [] acc = acc"
| "collect_online (c # cs) acc =
     collect_online cs (if is_online_position c then List.insert (ctrl_position_id c) acc else acc)"

definition get_online_controllers_cached :: "plugin \<Rightarrow> controller list \<Rightarrow> tick \<Rightarrow> plugin \<times> string list" where
  "get_online_controllers_cached p roster now =
     (if now - last_online_fetch p > 5000 \<or> cached_online p = []
      then (let s = collect_online roster [] in
            (p\<lparr>cached_online := s, last_online_fetch := now, online_hash := hash_set_of_strings s\<rparr>, s))
      else (p, cached_online p))"

text \<open>\<open>IsControllerOnlineCached\<close> (never called by the plugin).\<close>

definition is_controller_online_cached :: "string \<Rightarrow> string list \<Rightarrow> bool" where
  "is_controller_online_cached controller_id online = (controller_id \<in> set online)"

lemmas [loa_defs] = refresh_route_def get_cached_route_points_def cleanup_cache_def
  on_flight_plan_state_change_def hash_step_def hash_chars_def hash_vector_of_strings_def
  hash_set_of_strings_def is_online_position_def is_controller_online_cached_def
  get_online_controllers_cached_def

subsection \<open>Lemmas\<close>

text \<open>The route cache keeps a time for exactly the callsigns it holds a route for.\<close>

definition route_cache_ok :: "plugin \<Rightarrow> bool" where
  "route_cache_ok p = (dom (route_cache p) = dom (route_cache_time p))"

lemma get_cached_route_points_hit:
  "route_cache p (fp_callsign fp) = Some r \<Longrightarrow> route_cache_time p (fp_callsign fp) = Some t \<Longrightarrow>
   now - t < 3000 \<Longrightarrow> get_cached_route_points p fp now = (p, r)"
  by (simp add: get_cached_route_points_def Let_def map_upd_triv)

lemma get_cached_route_points_miss:
  "(case route_cache_time p (fp_callsign fp) of None \<Rightarrow> route_cache p (fp_callsign fp) = None
     | Some t \<Rightarrow> route_cache p (fp_callsign fp) = None \<or> \<not> now - t < 3000) \<Longrightarrow>
   get_cached_route_points p fp now = refresh_route p fp now"
  by (auto simp: get_cached_route_points_def Let_def map_upd_triv split: option.splits)

lemma get_cached_route_points_ok:
  "route_cache_ok p \<Longrightarrow> route_cache_ok (fst (get_cached_route_points p fp now))"
  by (auto simp: route_cache_ok_def get_cached_route_points_def refresh_route_def Let_def
      split: option.splits)

lemma cleanup_cache_ok: "route_cache_ok p \<Longrightarrow> route_cache_ok (cleanup_cache p cs)"
  by (simp add: route_cache_ok_def cleanup_cache_def)

lemma on_flight_plan_state_change_ok:
  "route_cache_ok p \<Longrightarrow> route_cache_ok (on_flight_plan_state_change p fp)"
  by (simp add: on_flight_plan_state_change_def cleanup_cache_ok)

lemma get_online_controllers_cached_ok:
  "route_cache_ok p \<Longrightarrow> route_cache_ok (fst (get_online_controllers_cached p roster now))"
  by (simp add: route_cache_ok_def get_online_controllers_cached_def Let_def)

lemma get_cached_route_points_rules [simp]:
  "rules (fst (get_cached_route_points p fp now)) = rules p"
  "rules_gen (fst (get_cached_route_points p fp now)) = rules_gen p"
  "matched_cache (fst (get_cached_route_points p fp now)) = matched_cache p"
  "match_timestamps (fst (get_cached_route_points p fp now)) = match_timestamps p"
  "coordination_states (fst (get_cached_route_points p fp now)) = coordination_states p"
  "frame_match (fst (get_cached_route_points p fp now)) = frame_match p"
  by (simp_all add: get_cached_route_points_def refresh_route_def Let_def split: option.splits)

lemma set_collect_online:
  "set (collect_online roster acc) = set acc \<union> ctrl_position_id ` {c \<in> set roster. is_online_position c}"
  by (induction roster arbitrary: acc) auto

lemma distinct_collect_online: "distinct acc \<Longrightarrow> distinct (collect_online roster acc)"
  by (induction roster arbitrary: acc) auto


lemma get_online_controllers_cached_coord [simp]:
  "coordination_states (fst (get_online_controllers_cached p roster now)) = coordination_states p"
  "last_tag_data (fst (get_online_controllers_cached p roster now)) = last_tag_data p"
  "rules (fst (get_online_controllers_cached p roster now)) = rules p"
  by (simp_all add: get_online_controllers_cached_def Let_def)

text \<open>
  C28: When the online-controller cache is older than 5000 ticks or empty, the call recomputes
  it: the result holds, without repetition, exactly the position ids of the roster sessions
  whose callsign is non-empty and contains \<open>_CTR\<close> or \<open>_APP\<close>, whatever their position
  id, the empty one included.
\<close>

theorem online_refresh_content:
  "now - last_online_fetch p > 5000 \<or> cached_online p = [] \<Longrightarrow>
   set (snd (get_online_controllers_cached p roster now)) =
     ctrl_position_id ` {c \<in> set roster. ctrl_callsign c \<noteq> [] \<and>
        (sublist ''_CTR'' (ctrl_callsign c) \<or> sublist ''_APP'' (ctrl_callsign c))} \<and>
   distinct (snd (get_online_controllers_cached p roster now))"
  by (simp add: get_online_controllers_cached_def Let_def set_collect_online distinct_collect_online
      is_online_position_def str_contains_iff_sublist)

end
