(* ===== verification/Match_Engine.thy ===== *)
theory Match_Engine
  imports Airport_Match Caches
begin

text \<open>
  The match engine \<open>MatchLoaEntry\<close> (src/LoaMatcher.cpp): the preconditions (valid,
  LOA-relevant, IFR), the per-callsign 5000-tick result cache, the \<open>matchIn\<close> scan of
  the four primary collections in priority order, the fallback scan, and the storing
  of the result (a negative one included). \<open>loa_scan\<close> is the pure part: the first
  category, in priority order, holding an entry that satisfies the category's predicate,
  and the first such entry in it. \<open>is_governing\<close> is its declarative specification.
\<close>

subsection \<open>Predicates\<close>

text \<open>All listed waypoints occur in the route, compared by \<open>eq\<close> (\<open>std::all_of\<close>
  over the waypoints of \<open>std::any_of\<close> over the route).\<close>

definition waypoints_match :: "(string \<Rightarrow> string \<Rightarrow> bool) \<Rightarrow> string list \<Rightarrow> string list \<Rightarrow> bool" where
  "waypoints_match eq wps route = list_all (\<lambda>wp. list_ex (\<lambda>r. eq r wp) route) wps"

text \<open>The body of the \<open>matchIn\<close> loop: the checks that \<open>continue\<close>, then
  \<open>wpMatch && nextSectorMatch\<close>.\<close>

definition loa_entry_matches ::
  "string list \<Rightarrow> string \<Rightarrow> string \<Rightarrow> string \<Rightarrow> string list \<Rightarrow> loa_entry \<Rightarrow> bool" where
  "loa_entry_matches online origin destination controller route e =
     ((origin_airports e = [] \<or>
        matches_airport (origin_airport_set e) (origin_airport_prefixes e) origin) \<and>
      (destination_airports e = [] \<or>
        matches_airport (destination_airport_set e) (destination_airport_prefixes e) destination) \<and>
      (if require_next_sector_online e \<and> next_sectors e \<noteq> []
       then list_ex (\<lambda>ns. ns \<in> set online) (next_sectors e) else True) \<and>
      waypoints_match equals_ignore_case (waypoints e) route \<and>
      (next_sectors e = [] \<or> list_ex (\<lambda>ns. equals_ignore_case ns controller) (next_sectors e)))"

text \<open>The body of the fallback loop.\<close>

definition fallback_matches :: "int \<Rightarrow> string \<Rightarrow> string list \<Rightarrow> loa_entry \<Rightarrow> bool" where
  "fallback_matches cleared destination route e =
     (\<not> cleared < min_altitude_ft e \<and>
      (destination_airports e = [] \<or>
        matches_airport (destination_airport_set e) (destination_airport_prefixes e) destination) \<and>
      waypoints_match equals_ignore_case (waypoints e) route)"

subsection \<open>The scan\<close>

definition mk_ref :: "nat \<Rightarrow> loa_category \<Rightarrow> nat \<Rightarrow> loa_ref" where
  "mk_ref g c i = \<lparr>ref_gen = g, ref_cat = c, ref_idx = i\<rparr>"

text \<open>\<open>matchIn(list)\<close>: the first entry of the list that matches.\<close>

definition match_in :: "(loa_entry \<Rightarrow> bool) \<Rightarrow> loa_entry list \<Rightarrow> nat option" where
  "match_in P entries = first_match P entries"

text \<open>\<open>(result = matchIn(destinationLoas)) || (result = matchIn(departureLoas)) || \<dots>\<close>\<close>

fun scan_categories :: "rule_set \<Rightarrow> nat \<Rightarrow> (loa_entry \<Rightarrow> bool) \<Rightarrow> loa_category list \<Rightarrow> loa_ref option" where
  "scan_categories r g P [] = None"
| "scan_categories r g P (c # cs) =
     (case match_in P (category_list r c) of
        Some i \<Rightarrow> Some (mk_ref g c i)
      | None \<Rightarrow> scan_categories r g P cs)"

definition primary_categories :: "loa_category list" where
  "primary_categories = [DestinationLoas, DepartureLoas, LorArrivals, LorDepartures]"

definition loa_scan :: "rule_set \<Rightarrow> nat \<Rightarrow> (loa_entry \<Rightarrow> bool) \<Rightarrow> (loa_entry \<Rightarrow> bool) \<Rightarrow> loa_ref option" where
  "loa_scan r g P F =
     (case scan_categories r g P primary_categories of
        Some ref \<Rightarrow> Some ref
      | None \<Rightarrow> map_option (mk_ref g FallbackLoas) (first_match F (fallback_loas r)))"

subsection \<open>MatchLoaEntry\<close>

text \<open>\<open>DWORD now = GetTickCount64()\<close>: the tick truncated to 32 bits; it is compared
  with, and stored into, the 64-bit \<open>matchTimestamps\<close>.\<close>

definition dword_tick :: "tick \<Rightarrow> 64 word" where
  "dword_tick now = ucast (ucast now :: 32 word)"

definition cached_match :: "plugin \<Rightarrow> callsign \<Rightarrow> 64 word \<Rightarrow> loa_ref option option" where
  "cached_match p cs now32 =
     (case match_timestamps p cs of
        Some ts \<Rightarrow> (if now32 - ts < 5000 then matched_cache p cs else None)
      | None \<Rightarrow> None)"

definition store_match :: "plugin \<Rightarrow> callsign \<Rightarrow> loa_ref option \<Rightarrow> 64 word \<Rightarrow> plugin" where
  "store_match p cs result now32 =
     p\<lparr>matched_cache := (matched_cache p)(cs \<mapsto> result),
       match_timestamps := (match_timestamps p)(cs \<mapsto> now32)\<rparr>"

definition is_ifr :: "flight_plan \<Rightarrow> bool" where
  "is_ifr fp = stricmp_eq (plan_type fp) ''I''"

definition match_loa_entry :: "plugin \<Rightarrow> flight_plan \<Rightarrow> string list \<Rightarrow> tick \<Rightarrow> plugin \<times> loa_ref option" where
  "match_loa_entry p fp online now =
     (if \<not> fp_valid fp \<or> \<not> is_loa_relevant_state (fp_state fp) then (p, None)
      else if \<not> is_ifr fp then (p, None)
      else
        (let cs = fp_callsign fp; now32 = dword_tick now in
         case cached_match p cs now32 of
           Some result \<Rightarrow> (p, result)
         | None \<Rightarrow>
             (let (p1, route) = get_cached_route_points p fp now;
                  result = loa_scan (rules p1) (rules_gen p1)
                    (loa_entry_matches online (fp_origin fp) (fp_destination fp)
                       (tracking_controller_id fp) route)
                    (fallback_matches (cleared_altitude fp) (fp_destination fp) route)
              in (store_match p1 cs result now32, result))))"

lemmas [loa_defs] = waypoints_match_def loa_entry_matches_def fallback_matches_def mk_ref_def
  match_in_def primary_categories_def loa_scan_def dword_tick_def cached_match_def store_match_def
  is_ifr_def match_loa_entry_def

subsection \<open>Specification of the scan\<close>

fun cat_rank :: "loa_category \<Rightarrow> nat" where
  "cat_rank DestinationLoas = 0"
| "cat_rank DepartureLoas = 1"
| "cat_rank LorArrivals = 2"
| "cat_rank LorDepartures = 3"
| "cat_rank FallbackLoas = 4"

definition cat_pred :: "(loa_entry \<Rightarrow> bool) \<Rightarrow> (loa_entry \<Rightarrow> bool) \<Rightarrow> loa_category \<Rightarrow> loa_entry \<Rightarrow> bool" where
  "cat_pred P F c = (if c = FallbackLoas then F else P)"

text \<open>Entry \<open>i\<close> of category \<open>c\<close> governs: it satisfies its category's predicate, no
  earlier entry of \<open>c\<close> does, and no category of higher priority holds one that does.\<close>

definition is_governing ::
  "rule_set \<Rightarrow> (loa_entry \<Rightarrow> bool) \<Rightarrow> (loa_entry \<Rightarrow> bool) \<Rightarrow> loa_category \<Rightarrow> nat \<Rightarrow> bool" where
  "is_governing r P F c i \<longleftrightarrow>
     i < length (category_list r c) \<and> cat_pred P F c (category_list r c ! i) \<and>
     (\<forall>j < i. \<not> cat_pred P F c (category_list r c ! j)) \<and>
     (\<forall>c'. cat_rank c' < cat_rank c \<longrightarrow> \<not> list_ex (cat_pred P F c') (category_list r c'))"

lemma all_loa_category: "(\<forall>c. Q c) \<longleftrightarrow>
  Q DestinationLoas \<and> Q DepartureLoas \<and> Q LorArrivals \<and> Q LorDepartures \<and> Q FallbackLoas"
  by (metis loa_category.exhaust)

lemma is_governing_iff:
  "is_governing r P F c i \<longleftrightarrow>
     first_match (cat_pred P F c) (category_list r c) = Some i \<and>
     (\<forall>c'. cat_rank c' < cat_rank c \<longrightarrow> first_match (cat_pred P F c') (category_list r c') = None)"
  by (simp add: is_governing_def first_match_Some_iff first_match_None_iff)

lemma loa_scan_None_iff:
  "loa_scan r g P F = None \<longleftrightarrow> (\<forall>c. \<not> list_ex (cat_pred P F c) (category_list r c))"
  by (simp add: loa_scan_def primary_categories_def match_in_def all_loa_category cat_pred_def
      first_match_None_iff [symmetric] split: option.splits)

lemma loa_scan_Some_idx:
  "loa_scan r g P F = Some ref \<Longrightarrow> ref_gen ref = g \<and> ref_idx ref < length (category_list r (ref_cat ref))"
  by (auto simp: loa_scan_def primary_categories_def match_in_def mk_ref_def first_match_Some_iff
      split: option.splits)

text \<open>
  C1: The scan implements the priority specification: it returns a reference exactly when
  that reference carries the current storage generation and names the governing entry
  (first matching entry of the first category, in the order destination, departure,
  LOR arrival, LOR departure, fallback, that has one).
\<close>

theorem loa_scan_governing:
  "loa_scan r g P F = Some ref \<longleftrightarrow> ref_gen ref = g \<and> is_governing r P F (ref_cat ref) (ref_idx ref)"
proof (cases ref)
  case (fields a c i)
  show ?thesis
    unfolding fields is_governing_iff all_loa_category
    by (cases c) (auto simp: loa_scan_def primary_categories_def match_in_def mk_ref_def cat_pred_def
        split: option.splits)
qed

subsection \<open>The cache\<close>

text \<open>
  C16: Waypoint matching requires every listed waypoint (none when the list is empty) to occur
  in the route, compared case-insensitively.
\<close>

theorem waypoints_match_iff:
  "waypoints_match equals_ignore_case wps route \<longleftrightarrow>
   (\<forall>wp \<in> set wps. \<exists>r \<in> set route. lower r = lower wp)"
  by (simp add: waypoints_match_def list_all_iff list_ex_iff equals_ignore_case_iff)

text \<open>
  C17: A fallback entry is selected without regard to its origin airports, its next sectors and
  its online requirement: changing any of them does not change whether it matches.
\<close>

theorem fallback_ignores_gates:
  "fallback_matches cleared destination route
     (e\<lparr>origin_airports := os, origin_airport_set := oset, origin_airport_prefixes := ops,
        next_sectors := ns, require_next_sector_online := b\<rparr>) =
   fallback_matches cleared destination route e"
  by (simp add: fallback_matches_def)

lemma unat_dword_tick: "unat (dword_tick t) = unat t mod 2 ^ 32"
proof -
  have "unat (dword_tick t) = take_bit 64 (take_bit 32 (unat t))"
    unfolding dword_tick_def
    by (simp only: unsigned_ucast_eq len_of_numeral_defs) (simp add: unsigned_take_bit_eq)
  then show ?thesis by (simp add: take_bit_eq_mod)
qed

text \<open>The truncated window in words: the truncated current tick is not below the truncated
  stored one and exceeds it by less than 5000.\<close>

lemma dword_window_iff:
  "dword_tick t2 - dword_tick t1 < 5000 \<longleftrightarrow>
   unat t1 mod 2 ^ 32 \<le> unat t2 mod 2 ^ 32 \<and> unat t2 mod 2 ^ 32 - unat t1 mod 2 ^ 32 < 5000"
proof -
  let ?a = "dword_tick t2" and ?b = "dword_tick t1"
  have a: "unat ?a < 2 ^ 32" and b: "unat ?b < 2 ^ 32" by (simp_all add: unat_dword_tick)
  show ?thesis
  proof (cases "?b \<le> ?a")
    case True
    then have "unat (?a - ?b) = unat ?a - unat ?b" by (simp add: unat_sub)
    moreover from True have "unat ?b \<le> unat ?a" by (simp add: word_le_nat_alt)
    ultimately show ?thesis by (simp add: word_less_nat_alt unat_dword_tick)
  next
    case False
    then have lt: "unat ?a < unat ?b" by (simp add: word_le_nat_alt)
    have "unat (?a - ?b) = 2 ^ 64 + unat ?a - unat ?b"
      using lt by (simp add: unat_sub_if' not_le word_less_nat_alt)
    with a b have "\<not> unat (?a - ?b) < 5000" by simp
    with lt show ?thesis by (simp add: word_less_nat_alt unat_dword_tick)
  qed
qed

lemma match_loa_entry_hit:
  "fp_valid fp \<Longrightarrow> is_loa_relevant_state (fp_state fp) \<Longrightarrow> is_ifr fp \<Longrightarrow>
   cached_match p (fp_callsign fp) (dword_tick now) = Some r \<Longrightarrow>
   match_loa_entry p fp online now = (p, r)"
  by (simp add: match_loa_entry_def)

lemma match_loa_entry_miss:
  "fp_valid fp \<Longrightarrow> is_loa_relevant_state (fp_state fp) \<Longrightarrow> is_ifr fp \<Longrightarrow>
   cached_match p (fp_callsign fp) (dword_tick now) = None \<Longrightarrow>
   get_cached_route_points p fp now = (p1, route) \<Longrightarrow>
   match_loa_entry p fp online now =
     (let result = loa_scan (rules p) (rules_gen p)
            (loa_entry_matches online (fp_origin fp) (fp_destination fp) (tracking_controller_id fp) route)
            (fallback_matches (cleared_altitude fp) (fp_destination fp) route)
      in (store_match p1 (fp_callsign fp) result (dword_tick now), result))"
  using get_cached_route_points_rules [of p fp now]
  by (simp add: match_loa_entry_def)

lemma match_loa_entry_stores:
  assumes "fp_valid fp" "is_loa_relevant_state (fp_state fp)" "is_ifr fp"
    and "match_loa_entry p fp online now = (p1, r)"
  shows "matched_cache p1 (fp_callsign fp) = Some r"
proof (cases "cached_match p (fp_callsign fp) (dword_tick now)")
  case None
  obtain p0 route where "get_cached_route_points p fp now = (p0, route)" by fastforce
  with assms None show ?thesis
    by (auto simp: match_loa_entry_miss store_match_def Let_def)
next
  case (Some r')
  with assms show ?thesis
    by (auto simp: match_loa_entry_hit cached_match_def split: option.splits if_splits)
qed

lemma match_loa_entry_rejected:
  "\<not> (fp_valid fp \<and> is_loa_relevant_state (fp_state fp) \<and> is_ifr fp) \<Longrightarrow>
   match_loa_entry p fp online now = (p, None)"
  by (auto simp: match_loa_entry_def)

text \<open>
  C3: Idempotence of the cache: once a call has stored its result for a callsign, any call
  for the same flight whose truncated tick is within 5000 of the stored timestamp returns
  the identical reference and leaves the state unchanged (no re-scan, whatever the online
  set passed).
\<close>

theorem match_loa_entry_idempotent:
  assumes first: "match_loa_entry p fp online now = (p1, r)"
    and ts: "match_timestamps p1 (fp_callsign fp) = Some t" and window: "dword_tick now' - t < 5000"
  shows "match_loa_entry p1 fp online' now' = (p1, r)"
proof (cases "fp_valid fp \<and> is_loa_relevant_state (fp_state fp) \<and> is_ifr fp")
  case True
  then have "matched_cache p1 (fp_callsign fp) = Some r"
    using first match_loa_entry_stores by blast
  with ts window have "cached_match p1 (fp_callsign fp) (dword_tick now') = Some r"
    by (simp add: cached_match_def)
  with True show ?thesis by (simp add: match_loa_entry_hit)
next
  case False
  with first have "p1 = p" "r = None" by (auto simp: match_loa_entry_def split: if_splits)
  with False show ?thesis by (simp add: match_loa_entry_rejected)
qed


text \<open>
  C18: With next sectors configured, \<open>MatchLoaEntry\<close> accepts an entry only if one of them
  names the tracking controller (case-insensitively), whatever the online set.
\<close>

theorem tracking_controller_gate:
  "next_sectors e \<noteq> [] \<Longrightarrow> \<not> list_ex (\<lambda>ns. equals_ignore_case ns controller) (next_sectors e) \<Longrightarrow>
   \<not> loa_entry_matches online origin destination controller route e"
  by (simp add: loa_entry_matches_def)

text \<open>
  C9: After the host reports a flight non-concerned or redundant, the next match for that
  callsign (in a relevant state again) is a fresh scan of the live rules over the flight's
  current extracted route, whatever was cached before.
\<close>

theorem cleanup_forces_rescan:
  assumes gone: "fp_valid fp" "fp_state fp = FpNonConcerned \<or> fp_state fp = FpRedundant"
    and fp': "fp_callsign fp' = fp_callsign fp" "fp_valid fp'" "is_loa_relevant_state (fp_state fp')" "is_ifr fp'"
  shows "snd (match_loa_entry (on_flight_plan_state_change p fp) fp' online now) =
           loa_scan (rules p) (rules_gen p)
             (loa_entry_matches online (fp_origin fp') (fp_destination fp') (tracking_controller_id fp')
                (extracted_route fp'))
             (fallback_matches (cleared_altitude fp') (fp_destination fp') (extracted_route fp'))"
proof -
  let ?q = "on_flight_plan_state_change p fp"
  have q: "?q = cleanup_cache p (fp_callsign fp)" using gone by (auto simp: on_flight_plan_state_change_def)
  have miss: "cached_match ?q (fp_callsign fp') (dword_tick now) = None"
    by (simp add: q fp'(1) cleanup_cache_def cached_match_def split: option.split)
  have route: "get_cached_route_points ?q fp' now = refresh_route ?q fp' now"
    by (rule get_cached_route_points_miss) (simp add: q fp'(1) cleanup_cache_def)
  show ?thesis
    using match_loa_entry_miss [OF fp'(2-4) miss route [unfolded refresh_route_def Let_def]]
    by (simp add: Let_def q cleanup_cache_def)
qed

text \<open>
  C31: Once a flight's match is 5000 truncated ticks old and its route 3000 ticks old,
  \<open>MatchLoaEntry\<close> scans the live rules again over the flight's current route: a changed
  route or rule set reaches the match at the latest when both windows have run out.
\<close>

theorem match_refreshes_after_windows:
  assumes fp: "fp_valid fp" "is_loa_relevant_state (fp_state fp)" "is_ifr fp"
    and ts: "match_timestamps p (fp_callsign fp) = Some t" "5000 \<le> dword_tick now - t"
    and rt: "route_cache_time p (fp_callsign fp) = Some t'" "3000 \<le> now - t'"
  shows "snd (match_loa_entry p fp online now) =
           loa_scan (rules p) (rules_gen p)
             (loa_entry_matches online (fp_origin fp) (fp_destination fp) (tracking_controller_id fp)
                (extracted_route fp))
             (fallback_matches (cleared_altitude fp) (fp_destination fp) (extracted_route fp))"
proof -
  have "\<not> dword_tick now - t < 5000" using ts(2) by (simp add: not_less)
  then have miss: "cached_match p (fp_callsign fp) (dword_tick now) = None"
    using ts(1) by (simp add: cached_match_def)
  have route: "get_cached_route_points p fp now = refresh_route p fp now"
    by (rule get_cached_route_points_miss) (simp add: rt not_less)
  show ?thesis
    using match_loa_entry_miss [OF fp miss route [unfolded refresh_route_def Let_def]]
    by (simp add: Let_def)
qed

text \<open>
  C14: The match cache serves a stored result exactly inside the window computed on the tick
  truncated to 32 bits and subtracted in 64 bits: for a result stored at the truncated tick of
  \<open>t1\<close>, a call at \<open>t2\<close> returns it without rescanning, state unchanged, if and only if
  \<open>t2 mod 2^32\<close> is not below \<open>t1 mod 2^32\<close> and exceeds it by less than 5000. Across a
  32-bit wrap (every 2^32 ms, about 49.7 days) a fresh result is rescanned, and a result stored
  2^32 ticks earlier is served.
\<close>

theorem match_cache_window_iff:
  assumes fp: "fp_valid fp" "is_loa_relevant_state (fp_state fp)" "is_ifr fp"
    and ts: "match_timestamps p (fp_callsign fp) = Some (dword_tick t1)"
    and m: "matched_cache p (fp_callsign fp) = Some r"
  shows "match_loa_entry p fp online t2 = (p, r) \<longleftrightarrow>
         unat t1 mod 2 ^ 32 \<le> unat t2 mod 2 ^ 32 \<and> unat t2 mod 2 ^ 32 - unat t1 mod 2 ^ 32 < 5000"
proof
  assume w: "unat t1 mod 2 ^ 32 \<le> unat t2 mod 2 ^ 32 \<and> unat t2 mod 2 ^ 32 - unat t1 mod 2 ^ 32 < 5000"
  then have "dword_tick t2 - dword_tick t1 < 5000" by (rule dword_window_iff [THEN iffD2])
  with ts m have "cached_match p (fp_callsign fp) (dword_tick t2) = Some r"
    by (simp add: cached_match_def)
  with fp show "match_loa_entry p fp online t2 = (p, r)" by (rule match_loa_entry_hit)
next
  assume eq: "match_loa_entry p fp online t2 = (p, r)"
  show "unat t1 mod 2 ^ 32 \<le> unat t2 mod 2 ^ 32 \<and> unat t2 mod 2 ^ 32 - unat t1 mod 2 ^ 32 < 5000"
  proof (rule ccontr)
    assume "\<not> (unat t1 mod 2 ^ 32 \<le> unat t2 mod 2 ^ 32 \<and> unat t2 mod 2 ^ 32 - unat t1 mod 2 ^ 32 < 5000)"
    then have out: "\<not> dword_tick t2 - dword_tick t1 < 5000" using dword_window_iff by blast
    with ts have miss: "cached_match p (fp_callsign fp) (dword_tick t2) = None"
      by (simp add: cached_match_def)
    obtain p1 route where gr: "get_cached_route_points p fp t2 = (p1, route)" by fastforce
    have "match_timestamps (fst (match_loa_entry p fp online t2)) (fp_callsign fp) = Some (dword_tick t2)"
      using match_loa_entry_miss [OF fp miss gr] by (simp add: Let_def store_match_def)
    with eq have "match_timestamps p (fp_callsign fp) = Some (dword_tick t2)" by simp
    with ts have "dword_tick t2 = dword_tick t1" by simp
    with out show False by simp
  qed
qed

end
