(* ===== verification/Coordination.thy ===== *)
theory Coordination
  imports LOA_Types
begin

text \<open>
  The per-callsign coordination tracker \<open>coordinationStates\<close>: the host callback
  \<open>OnFlightPlanCoordinationStateChange\<close> (LOAPlugin.cpp) and the updates the tag
  renderers make while drawing (TagXFL.cpp, TagCOP.cpp). \<open>coordinationStates[cs]\<close>
  (\<open>operator[]\<close>) creates a default entry when the callsign has none; \<open>find\<close> does not.
\<close>

definition coord_info :: "plugin \<Rightarrow> callsign \<Rightarrow> coordination_info" where
  "coord_info p cs = (case coordination_states p cs of None \<Rightarrow> default_coordination_info | Some i \<Rightarrow> i)"

definition update_coord :: "plugin \<Rightarrow> callsign \<Rightarrow> (coordination_info \<Rightarrow> coordination_info) \<Rightarrow> plugin" where
  "update_coord p cs f = p\<lparr>coordination_states := (coordination_states p)(cs \<mapsto> f (coord_info p cs))\<rparr>"

text \<open>\<open>OnFlightPlanCoordinationStateChange(fp, coordinationType, newState)\<close>.\<close>

definition on_coordination_state_change ::
  "plugin \<Rightarrow> flight_plan \<Rightarrow> coord_type \<Rightarrow> coord_state \<Rightarrow> plugin" where
  "on_coordination_state_change p fp ctype new_state =
     (if \<not> fp_valid fp then p
      else
        (let cs = fp_callsign fp;
             p1 = (if ctype = CoordTypeAltitude
                   then update_coord p cs (\<lambda>i. i\<lparr>exit_altitude := exit_coord_altitude fp,
                                                   exit_altitude_state := new_state\<rparr>)
                   else p)
         in if ctype = CoordTypePointName
            then update_coord p1 cs (\<lambda>i. i\<lparr>exit_point := exit_coord_point_name fp,
                                           exit_point_state := new_state\<rparr>)
            else p1))"

subsection \<open>Exit altitude (both XFL renderers)\<close>

text \<open>A live negotiation of at least 500 ft is recorded as requested-by-me, whoever asked.\<close>

definition track_altitude :: "plugin \<Rightarrow> callsign \<Rightarrow> int \<Rightarrow> coord_state \<Rightarrow> plugin" where
  "track_altitude p cs coord_xfl st =
     (if (st = RequestedByMe \<or> st = RequestedByOther) \<and> 500 \<le> coord_xfl
      then update_coord p cs (\<lambda>i. i\<lparr>exit_altitude := coord_xfl, exit_altitude_state := RequestedByMe\<rparr>)
      else p)"

text \<open>The negotiation is over (state none) and the tracker holds the reported level as requested.\<close>

definition altitude_accepted :: "plugin \<Rightarrow> callsign \<Rightarrow> int \<Rightarrow> coord_state \<Rightarrow> bool" where
  "altitude_accepted p cs coord_xfl st =
     (st = CoordNone \<and>
      (case coordination_states p cs of
         None \<Rightarrow> False
       | Some info \<Rightarrow> 500 \<le> exit_altitude info \<and> exit_altitude info = coord_xfl \<and>
                      exit_altitude_state info = RequestedByMe))"

subsection \<open>Exit point (COP renderer)\<close>

text \<open>
  A live negotiation with a point name is recorded as requested-by-me; when the state is none,
  \<open>coordinationStates[cs]\<close> is read with insertion and a held request for the same point is
  promoted to manually accepted.
\<close>

definition track_point :: "plugin \<Rightarrow> callsign \<Rightarrow> string \<Rightarrow> coord_state \<Rightarrow> plugin" where
  "track_point p cs cop st =
     (let p1 = (if (st = RequestedByMe \<or> st = RequestedByOther) \<and> cop \<noteq> []
                then update_coord p cs (\<lambda>i. i\<lparr>exit_point := cop, exit_point_state := RequestedByMe\<rparr>)
                else p)
      in if st = CoordNone
         then update_coord p1 cs
                (\<lambda>i. if exit_point i \<noteq> [] \<and> exit_point i = cop \<and>
                        (exit_point_state i = RequestedByMe \<or> exit_point_state i = RequestedByOther)
                     then i\<lparr>exit_point_state := ManualAccepted\<rparr> else i)
         else p1)"

definition point_accepted :: "plugin \<Rightarrow> callsign \<Rightarrow> string option" where
  "point_accepted p cs =
     (case coordination_states p cs of
        None \<Rightarrow> None
      | Some info \<Rightarrow>
          (if exit_point_state info = ManualAccepted \<and> exit_point info \<noteq> [] then Some (exit_point info)
           else None))"

lemmas [loa_defs] = coord_info_def update_coord_def on_coordination_state_change_def
  track_altitude_def altitude_accepted_def track_point_def point_accepted_def

subsection \<open>Lemmas\<close>

lemma coordination_states_update_coord [simp]:
  "coordination_states (update_coord p cs f) = (coordination_states p)(cs \<mapsto> f (coord_info p cs))"
  by (simp add: update_coord_def)

lemma update_coord_other [simp]:
  "rules (update_coord p cs f) = rules p" "rules_gen (update_coord p cs f) = rules_gen p"
  "route_cache (update_coord p cs f) = route_cache p"
  "route_cache_time (update_coord p cs f) = route_cache_time p"
  "matched_cache (update_coord p cs f) = matched_cache p"
  "match_timestamps (update_coord p cs f) = match_timestamps p"
  "last_tag_data (update_coord p cs f) = last_tag_data p"
  "frame_online (update_coord p cs f) = frame_online p"
  "frame_route (update_coord p cs f) = frame_route p"
  "frame_match (update_coord p cs f) = frame_match p"
  by (simp_all add: update_coord_def)

lemma coord_info_update_coord [simp]:
  "coord_info (update_coord p cs f) cs' = (if cs' = cs then f (coord_info p cs) else coord_info p cs')"
  by (simp add: coord_info_def)


lemma track_point_live:
  "st = RequestedByMe \<or> st = RequestedByOther \<Longrightarrow> cop \<noteq> [] \<Longrightarrow>
   track_point p cs cop st = update_coord p cs (\<lambda>i. i\<lparr>exit_point := cop, exit_point_state := RequestedByMe\<rparr>)"
  by (auto simp: track_point_def)

lemma track_point_over:
  "track_point p cs cop CoordNone = update_coord p cs
     (\<lambda>i. if exit_point i \<noteq> [] \<and> exit_point i = cop \<and>
             (exit_point_state i = RequestedByMe \<or> exit_point_state i = RequestedByOther)
          then i\<lparr>exit_point_state := ManualAccepted\<rparr> else i)"
  by (simp add: track_point_def)

lemma track_altitude_over [simp]: "track_altitude p cs v CoordNone = p"
  by (simp add: track_altitude_def)

lemma altitude_accepted_cong:
  "coordination_states q = coordination_states p \<Longrightarrow> altitude_accepted q = altitude_accepted p"
  by (simp add: altitude_accepted_def fun_eq_iff)

lemma on_coordination_state_change_altitude:
  "fp_valid fp \<Longrightarrow>
   coordination_states (on_coordination_state_change p fp CoordTypeAltitude s) (fp_callsign fp) =
     Some ((coord_info p (fp_callsign fp))\<lparr>exit_altitude := exit_coord_altitude fp, exit_altitude_state := s\<rparr>)"
  "last_tag_data (on_coordination_state_change p fp ct s) = last_tag_data p"
  by (simp_all add: on_coordination_state_change_def Let_def update_coord_def)


text \<open>The tracker neither reads nor writes the frame's match.\<close>

lemma update_coord_frame_match:
  "update_coord (p\<lparr>frame_match := m\<rparr>) cs f = (update_coord p cs f)\<lparr>frame_match := m\<rparr>"
  by (simp add: update_coord_def coord_info_def)

lemma tracker_frame_match [simp]:
  "track_altitude (p\<lparr>frame_match := m\<rparr>) cs v st = (track_altitude p cs v st)\<lparr>frame_match := m\<rparr>"
  "track_point (p\<lparr>frame_match := m\<rparr>) cs pt st = (track_point p cs pt st)\<lparr>frame_match := m\<rparr>"
  "altitude_accepted (p\<lparr>frame_match := m\<rparr>) = altitude_accepted p"
  "point_accepted (p\<lparr>frame_match := m\<rparr>) = point_accepted p"
  by (simp_all add: track_altitude_def track_point_def Let_def update_coord_frame_match
      altitude_accepted_def point_accepted_def fun_eq_iff)

end
