(* ===== verification/Tag_Common.thy ===== *)
theory Tag_Common
  imports Match_Engine Coordination
begin

text \<open>
  What the three tag renderers share: their output (the 16-byte \<open>sItemString\<close>, untouched
  when a renderer returns before writing, and the colour code \<open>*pColorCode\<close>, untouched
  unless set), and their own copy of the rule predicate, the \<open>matches\<close> lambda of
  TagXFL.cpp and TagCOP.cpp, which differs from \<open>MatchLoaEntry\<close>'s: it compares
  waypoints with \<open>_stricmp\<close>, has no tracking-controller check, and with
  \<open>requireNextSectorOnline\<close> set and no next sectors it rejects the entry.
\<close>

record tag_out =
  out_text :: "string option"
  out_color :: "tag_color option"

definition untouched :: tag_out where
  "untouched = \<lparr>out_text = None, out_color = None\<rparr>"

definition show_text :: "string \<Rightarrow> tag_out" where
  "show_text s = \<lparr>out_text = Some (tag_copy s), out_color = None\<rparr>"

definition show_colored :: "string \<Rightarrow> tag_color \<Rightarrow> tag_out" where
  "show_colored s c = \<lparr>out_text = Some (tag_copy s), out_color = Some c\<rparr>"

text \<open>The renderers' \<open>matches\<close> lambda (TagXFL.cpp twice, TagCOP.cpp once, identical).\<close>

definition tag_entry_matches :: "string list \<Rightarrow> string \<Rightarrow> string \<Rightarrow> string list \<Rightarrow> loa_entry \<Rightarrow> bool" where
  "tag_entry_matches online origin destination route e =
     ((if require_next_sector_online e then list_ex (\<lambda>s. s \<in> set online) (next_sectors e) else True) \<and>
      (origin_airports e = [] \<or>
        matches_airport (origin_airport_set e) (origin_airport_prefixes e) origin) \<and>
      (destination_airports e = [] \<or>
        matches_airport (destination_airport_set e) (destination_airport_prefixes e) destination) \<and>
      waypoints_match stricmp_eq (waypoints e) route)"

text \<open>The renderers' fallback loop condition.\<close>

definition tag_fallback_matches :: "int \<Rightarrow> string \<Rightarrow> string list \<Rightarrow> loa_entry \<Rightarrow> bool" where
  "tag_fallback_matches cleared destination route e =
     (\<not> cleared < min_altitude_ft e \<and>
      (destination_airports e = [] \<or>
        matches_airport (destination_airport_set e) (destination_airport_prefixes e) destination) \<and>
      waypoints_match stricmp_eq (waypoints e) route)"

text \<open>The text fits the 16-byte item buffer with its terminator.\<close>

definition text_fits :: "tag_out \<Rightarrow> bool" where
  "text_fits out \<longleftrightarrow> (case out_text out of None \<Rightarrow> True | Some t \<Rightarrow> length t \<le> 15)"

lemmas [loa_defs] = untouched_def show_text_def show_colored_def tag_entry_matches_def
  tag_fallback_matches_def

lemma out_text_length:
  "out_text (show_text s) = Some t \<Longrightarrow> length t \<le> 15"
  "out_text (show_colored s c) = Some t \<Longrightarrow> length t \<le> 15"
  by (auto simp: show_text_def show_colored_def)

lemma waypoints_match_stricmp:
  "(\<And>x. x \<in> set wps \<union> set route \<Longrightarrow> CHR 0x00 \<notin> set x) \<Longrightarrow>
   waypoints_match stricmp_eq wps route = waypoints_match equals_ignore_case wps route"
  by (auto simp: waypoints_match_def list_all_iff list_ex_iff stricmp_eq_no_nul)


lemma text_fits_basic [simp]:
  "text_fits untouched" "text_fits (show_text s)" "text_fits (show_colored s c)"
  by (simp_all add: text_fits_def untouched_def show_text_def show_colored_def)

lemma text_fits_tag_copy [simp]: "text_fits \<lparr>out_text = Some (tag_copy s), out_color = c\<rparr>"
  by (simp add: text_fits_def)

text \<open>
  C19: The renderers' rule predicate and \<open>MatchLoaEntry\<close>'s disagree on an entry that requires
  an online next sector but lists none: the renderers reject it, while the engine ignores
  the requirement.
\<close>

theorem renderer_gate_divergence:
  "require_next_sector_online e \<Longrightarrow> next_sectors e = [] \<Longrightarrow>
   \<not> tag_entry_matches online origin destination route e \<and>
   loa_entry_matches online origin destination controller route e =
     loa_entry_matches online origin destination controller route (e\<lparr>require_next_sector_online := False\<rparr>)"
  by (simp add: tag_entry_matches_def loa_entry_matches_def)


text \<open>
  C32: Apart from the next-sector gates, the renderers' rule predicate is the engine's: for an
  entry without next sectors or online requirement and names without NUL characters, the \<open>matches\<close> lambda
  (\<open>_stricmp\<close>) accepts exactly the entries \<open>MatchLoaEntry\<close> (\<open>EqualsIgnoreCase\<close>)
  accepts.
\<close>

theorem renderer_matches_engine:
  assumes "\<forall>x \<in> set (waypoints e) \<union> set route. CHR 0x00 \<notin> set x"
    and "next_sectors e = []" and "\<not> require_next_sector_online e"
  shows "tag_entry_matches online origin destination route e =
         loa_entry_matches online origin destination controller route e"
  using assms waypoints_match_stricmp [of "waypoints e" route]
  by (auto simp: tag_entry_matches_def loa_entry_matches_def)

end
