(* ===== verification/Tag_XFL.thy ===== *)
theory Tag_XFL
  imports Tag_Common
begin

text \<open>
  The two exit-level renderers of TagXFL.cpp. Both first record a live altitude negotiation
  in the tracker, then show (in this order) an accepted negotiation, a live one (from me, to
  me, refused), and otherwise a level from the rules.
  \<^item> \<open>RenderXFLTagItem\<close> (item 1996): only for assumed IFR flights; it refreshes the
    online-controller and route caches itself; its \<open>tryLOA\<close> scan goes through the
    departure, destination, LOR-departure and LOR-arrival lists and never the fallback list;
    the accepted level is written without a colour.
  \<^item> \<open>RenderXFLDetailedTagItem\<close> (item 2000): for every LOA-relevant IFR flight, reading
    the per-frame online set and route; only the first matching entry of a list decides.
\<close>

text \<open>The coordination part shared by both: \<open>acc\<close> is the colour of an accepted level.\<close>

definition altitude_coord_out :: "plugin \<Rightarrow> callsign \<Rightarrow> int \<Rightarrow> coord_state \<Rightarrow> tag_color option \<Rightarrow> tag_out option" where
  "altitude_coord_out p cs v st acc =
     (if altitude_accepted p cs v st
      then Some \<lparr>out_text = Some (tag_copy (fmt_03d (cdiv v 100))), out_color = acc\<rparr>
      else if 500 \<le> v \<and> st = RequestedByMe then Some (show_colored (fmt_03d (cdiv v 100)) ColorRequestFromMe)
      else if 500 \<le> v \<and> st = RequestedByOther then Some (show_colored (fmt_03d (cdiv v 100)) ColorRequestToMe)
      else if 500 \<le> v \<and> st = CoordRefused then Some (show_colored (fmt_03d (cdiv v 100)) ColorRequestRefused)
      else None)"

subsection \<open>RenderXFLTagItem\<close>

text \<open>\<open>tryLOA(list, belowXFL)\<close>: a matching entry for which no branch fires is skipped.\<close>

fun try_loa :: "(loa_entry \<Rightarrow> bool) \<Rightarrow> int \<Rightarrow> int \<Rightarrow> bool \<Rightarrow> loa_entry list \<Rightarrow> string option" where
  "try_loa M cleared final below [] = None"
| "try_loa M cleared final below (e # es) =
     (if \<not> M e then try_loa M cleared final below es
      else if below \<and> cleared < xfl e * 100 \<and> final > xfl e * 100 then Some (int_to_string (xfl e))
      else if \<not> below \<and> cleared > xfl e * 100 then Some (int_to_string (xfl e))
      else if cleared = xfl e * 100 \<or> cleared = final then Some []
      else if cleared \<noteq> final then Some (int_to_string (cdiv final 100))
      else try_loa M cleared final below es)"

definition xfl_simple_rules :: "rule_set \<Rightarrow> (loa_entry \<Rightarrow> bool) \<Rightarrow> int \<Rightarrow> int \<Rightarrow> string" where
  "xfl_simple_rules r M cleared final =
     (case try_loa M cleared final True (departure_loas r) of Some s \<Rightarrow> s | None \<Rightarrow>
      case try_loa M cleared final False (destination_loas r) of Some s \<Rightarrow> s | None \<Rightarrow>
      case try_loa M cleared final True (lor_departures r) of Some s \<Rightarrow> s | None \<Rightarrow>
      case try_loa M cleared final False (lor_arrivals r) of Some s \<Rightarrow> s | None \<Rightarrow>
      (if cleared = final then [] else int_to_string (cdiv final 100)))"

definition render_xfl :: "plugin \<Rightarrow> flight_plan \<Rightarrow> radar_target \<Rightarrow> controller list \<Rightarrow> tick \<Rightarrow> plugin \<times> tag_out" where
  "render_xfl p fp rt roster now =
     (if \<not> rt_valid rt \<or> \<not> rt_correlated_valid rt then (p, untouched)
      else if fp_state fp \<noteq> FpAssumed then (p, untouched)
      else if \<not> is_ifr fp then (p, untouched)
      else
        (let data = last_tag_data p;
             (p1, online) = get_online_controllers_cached p roster now;
             (p2, route) = get_cached_route_points p1 fp now;
             cs = fp_callsign fp; v = exit_coord_altitude fp; st = exit_coord_altitude_state fp;
             p3 = track_altitude p2 cs v st
         in (p3,
             case altitude_coord_out p3 cs v st None of
               Some out \<Rightarrow> out
             | None \<Rightarrow> show_text (xfl_simple_rules (rules p3)
                          (tag_entry_matches online (ctd_origin data) (ctd_destination data) route)
                          (ctd_cleared_altitude data) (ctd_final_altitude data)))))"

subsection \<open>RenderXFLDetailedTagItem\<close>

definition departure_xfl :: "int \<Rightarrow> int \<Rightarrow> loa_entry \<Rightarrow> string" where
  "departure_xfl cleared final e =
     (if cleared \<le> xfl e * 100 \<and> final > xfl e * 100 then int_to_string (xfl e)
      else int_to_string (cdiv final 100))"

definition arrival_xfl :: "int \<Rightarrow> loa_entry \<Rightarrow> string" where
  "arrival_xfl cleared e = (if cleared < xfl e * 100 then ''XFL'' else int_to_string (xfl e))"

definition xfl_detailed_rules ::
  "rule_set \<Rightarrow> (loa_entry \<Rightarrow> bool) \<Rightarrow> (loa_entry \<Rightarrow> bool) \<Rightarrow> int \<Rightarrow> int \<Rightarrow> string" where
  "xfl_detailed_rules r M F cleared final =
     (case List.find M (departure_loas r) of Some e \<Rightarrow> departure_xfl cleared final e | None \<Rightarrow>
      case List.find M (destination_loas r) of Some e \<Rightarrow> arrival_xfl cleared e | None \<Rightarrow>
      case List.find M (lor_departures r) of Some e \<Rightarrow> departure_xfl cleared final e | None \<Rightarrow>
      case List.find M (lor_arrivals r) of Some e \<Rightarrow> arrival_xfl cleared e | None \<Rightarrow>
      case List.find F (fallback_loas r) of Some e \<Rightarrow> int_to_string (cdiv final 100) | None \<Rightarrow>
      int_to_string (cdiv final 100))"

definition render_xfl_detailed :: "plugin \<Rightarrow> flight_plan \<Rightarrow> radar_target \<Rightarrow> plugin \<times> tag_out" where
  "render_xfl_detailed p fp rt =
     (if \<not> rt_valid rt \<or> \<not> rt_correlated_valid rt then (p, untouched)
      else if \<not> fp_valid fp \<or> \<not> is_loa_relevant_state (fp_state fp) then (p, show_text ''XFL'')
      else if \<not> is_ifr fp then (p, show_text ''XFL'')
      else
        (let data = last_tag_data p; cs = ctd_callsign data;
             cleared = ctd_cleared_altitude data; final = ctd_final_altitude data;
             online = frame_online p; route = frame_route p;
             v = exit_coord_altitude fp; st = exit_coord_altitude_state fp;
             p1 = track_altitude p cs v st
         in (p1,
             case altitude_coord_out p1 cs v st (Some ColorRequestAccepted) of
               Some out \<Rightarrow> out
             | None \<Rightarrow> show_text (xfl_detailed_rules (rules p1)
                          (tag_entry_matches online (ctd_origin data) (ctd_destination data) route)
                          (tag_fallback_matches cleared (ctd_destination data) route) cleared final))))"

lemmas [loa_defs] = altitude_coord_out_def xfl_simple_rules_def render_xfl_def departure_xfl_def
  arrival_xfl_def xfl_detailed_rules_def render_xfl_detailed_def


subsection \<open>Lemmas\<close>

lemma altitude_coord_out_frame_match [simp]:
  "altitude_coord_out (p\<lparr>frame_match := m\<rparr>) = altitude_coord_out p"
  by (simp add: altitude_coord_out_def fun_eq_iff)

lemma try_loa_find:
  "List.find M es = Some e \<Longrightarrow> try_loa M cleared final below es = try_loa M cleared final below [e]"
  by (induction es) (auto split: if_splits)

lemma altitude_coord_out_fits: "altitude_coord_out p cs v st acc = Some out \<Longrightarrow> text_fits out"
  by (auto simp: altitude_coord_out_def split: if_splits)

lemma render_xfl_fits: "text_fits (snd (render_xfl p fp rt roster now))"
  by (auto simp: render_xfl_def Let_def altitude_coord_out_fits split: prod.split option.split)

lemma render_xfl_detailed_fits: "text_fits (snd (render_xfl_detailed p fp rt))"
  by (auto simp: render_xfl_detailed_def Let_def altitude_coord_out_fits split: option.split)

lemma render_xfl_guarded:
  assumes "rt_valid rt" "rt_correlated_valid rt" "fp_state fp = FpAssumed" "is_ifr fp"
  shows "coordination_states (fst (render_xfl p fp rt roster now)) =
           coordination_states (track_altitude p (fp_callsign fp) (exit_coord_altitude fp) (exit_coord_altitude_state fp))"
    and "altitude_coord_out (fst (render_xfl p fp rt roster now)) (fp_callsign fp) (exit_coord_altitude fp)
           (exit_coord_altitude_state fp) None = Some out \<Longrightarrow> snd (render_xfl p fp rt roster now) = out"
  using assms
  by (simp_all add: render_xfl_def Let_def case_prod_beta track_altitude_def update_coord_def
      coord_info_def)

lemma render_xfl_detailed_tracker:
  "rt_valid rt \<Longrightarrow> rt_correlated_valid rt \<Longrightarrow> fp_valid fp \<Longrightarrow> is_loa_relevant_state (fp_state fp) \<Longrightarrow>
   is_ifr fp \<Longrightarrow>
   fst (render_xfl_detailed p fp rt) =
     track_altitude p (ctd_callsign (last_tag_data p)) (exit_coord_altitude fp) (exit_coord_altitude_state fp)"
  by (simp add: render_xfl_detailed_def Let_def)

text \<open>
  C30: The departure branch of the detailed XFL item writes the entry's level with
  \<open>std::to_string\<close> into the 16-byte buffer; for a level in \<open>[0, 2^31)\<close> the text reads
  back as that level.
\<close>

theorem departure_xfl_roundtrip:
  assumes "0 \<le> xfl e" "xfl e < 2 ^ 31" "cleared \<le> xfl e * 100" "xfl e * 100 < final"
  shows "int (digits_value (tag_copy (departure_xfl cleared final e))) = xfl e"
  using assms int_to_string_roundtrip [of "xfl e"] by (simp add: departure_xfl_def)

text \<open>
  C12: \<open>tryLOA\<close> returns a value (and the simple renderer stops) exactly when some entry of
  the list matches: the \<open>continue\<close> after a matching entry is never reached, so only the
  first matching entry of a list decides.
\<close>

theorem try_loa_None_iff:
  "try_loa M cleared final below es = None \<longleftrightarrow> \<not> list_ex M es"
  by (induction es) auto

text \<open>
  C21: The fallback list has no effect on the detailed XFL: with or without fallback entries
  the rules give the same text.
\<close>

theorem xfl_detailed_ignores_fallback:
  "xfl_detailed_rules (r\<lparr>fallback_loas := fs\<rparr>) M F cleared final = xfl_detailed_rules r M F cleared final"
  by (simp add: xfl_detailed_rules_def split: option.split)

text \<open>
  C7: Acceptance in the detailed XFL item: a live altitude negotiation of at least 500 ft is
  drawn once, and when the next frame reports the negotiation over (state none, same level),
  the item shows the level as three digits in the accepted colour.
\<close>

theorem xfl_detailed_acceptance:
  assumes rt: "rt_valid rt" "rt_correlated_valid rt"
    and fp: "fp_valid fp" "is_loa_relevant_state (fp_state fp)" "is_ifr fp"
    and v: "exit_coord_altitude fp = v" "500 \<le> v"
    and live: "exit_coord_altitude_state fp = RequestedByMe \<or> exit_coord_altitude_state fp = RequestedByOther"
  shows "snd (render_xfl_detailed (fst (render_xfl_detailed p fp rt))
                (fp\<lparr>exit_coord_altitude_state := CoordNone\<rparr>) rt) =
         show_colored (fmt_03d (cdiv v 100)) ColorRequestAccepted"
proof -
  let ?cs = "ctd_callsign (last_tag_data p)"
  let ?p1 = "fst (render_xfl_detailed p fp rt)"
  have p1: "?p1 = track_altitude p ?cs v (exit_coord_altitude_state fp)"
    using render_xfl_detailed_tracker [OF rt fp] v by simp
  have acc: "altitude_accepted ?p1 ?cs v CoordNone"
    using live v by (auto simp: p1 track_altitude_def altitude_accepted_def)
  have tag: "last_tag_data ?p1 = last_tag_data p" by (simp add: p1 track_altitude_def)
  have ifr': "is_ifr (fp\<lparr>exit_coord_altitude_state := CoordNone\<rparr>)" using fp(3) by (simp add: is_ifr_def)
  show ?thesis
    using rt fp ifr' acc tag v
    by (simp add: render_xfl_detailed_def Let_def altitude_coord_out_def show_colored_def)
qed

text \<open>
  C20: The same sequence on the simple XFL item (item 1996, assumed flights) shows the accepted
  level without any colour: the item writes no colour code on that branch.
\<close>

theorem xfl_simple_acceptance_uncoloured:
  assumes rt: "rt_valid rt" "rt_correlated_valid rt"
    and fp: "fp_state fp = FpAssumed" "is_ifr fp"
    and v: "exit_coord_altitude fp = v" "500 \<le> v"
    and live: "exit_coord_altitude_state fp = RequestedByMe \<or> exit_coord_altitude_state fp = RequestedByOther"
  shows "snd (render_xfl (fst (render_xfl p fp rt roster now)) (fp\<lparr>exit_coord_altitude_state := CoordNone\<rparr>)
                rt roster now') = show_text (fmt_03d (cdiv v 100))"
proof -
  let ?cs = "fp_callsign fp"
  let ?fp = "fp\<lparr>exit_coord_altitude_state := CoordNone\<rparr>"
  let ?p1 = "fst (render_xfl p fp rt roster now)"
  have fp': "fp_state ?fp = FpAssumed" "is_ifr ?fp" using fp by (simp_all add: is_ifr_def)
  have c1: "coordination_states ?p1 = coordination_states (track_altitude p ?cs v (exit_coord_altitude_state fp))"
    using render_xfl_guarded(1) [OF rt fp] v by simp
  have c2: "coordination_states (fst (render_xfl ?p1 ?fp rt roster now')) = coordination_states ?p1"
    using render_xfl_guarded(1) [OF rt fp'] by simp
  have acc: "altitude_accepted (fst (render_xfl ?p1 ?fp rt roster now')) ?cs v CoordNone"
    using live v by (auto simp: altitude_accepted_cong [OF c2] altitude_accepted_cong [OF c1]
                               track_altitude_def altitude_accepted_def)
  show ?thesis
    using render_xfl_guarded(2) [OF rt fp'] acc v
    by (simp add: altitude_coord_out_def show_text_def)
qed

text \<open>
  C10: Interleaving with the host callback: if, between the two frames, EuroScope reports the
  altitude coordination with a state other than requested-by-me (as it does when the
  negotiation ends), the tracker entry is overwritten and the detailed item, drawn with the
  negotiation over, no longer shows the accepted colour.
\<close>

theorem coordination_callback_defeats_acceptance:
  assumes rt: "rt_valid rt" "rt_correlated_valid rt"
    and fp: "fp_valid fp" "is_loa_relevant_state (fp_state fp)" "is_ifr fp"
    and cs: "ctd_callsign (last_tag_data p) = fp_callsign fp"
    and s: "s \<noteq> RequestedByMe"
  shows "out_color (snd (render_xfl_detailed
           (on_coordination_state_change (fst (render_xfl_detailed p fp rt)) fp CoordTypeAltitude s)
           (fp\<lparr>exit_coord_altitude_state := CoordNone\<rparr>) rt)) = None"
proof -
  let ?fp = "fp\<lparr>exit_coord_altitude_state := CoordNone\<rparr>"
  let ?q = "on_coordination_state_change (fst (render_xfl_detailed p fp rt)) fp CoordTypeAltitude s"
  have tag: "last_tag_data ?q = last_tag_data p"
    using render_xfl_detailed_tracker [OF rt fp]
    by (simp add: on_coordination_state_change_altitude(2) track_altitude_def)
  have na: "\<not> altitude_accepted ?q (fp_callsign fp) v CoordNone" for v
    using on_coordination_state_change_altitude(1) [OF fp(1)] s by (simp add: altitude_accepted_def)
  have fp': "fp_valid ?fp" "is_loa_relevant_state (fp_state ?fp)" "is_ifr ?fp"
    using fp by (simp_all add: is_ifr_def)
  show ?thesis
    using rt fp' tag cs na
    by (simp add: render_xfl_detailed_def Let_def altitude_coord_out_def show_text_def)
qed


text \<open>
  C33: The two XFL items disagree at the boundary: when the first matching departure entry's
  level equals the cleared level and the final level is above it, the simple item (strict
  \<open><\<close>) leaves the tag blank while the detailed item (\<open><=\<close>, as the specification
  requires) shows the entry's level.
\<close>

theorem xfl_departure_boundary_divergence:
  assumes first: "List.find M (departure_loas r) = Some e"
    and at: "cleared = xfl e * 100" and above: "cleared < final"
  shows "xfl_simple_rules r M cleared final = [] \<and>
         xfl_detailed_rules r M F cleared final = int_to_string (xfl e)"
proof -
  have m: "M e" using first by (auto simp: find_Some_iff)
  have "try_loa M cleared final True (departure_loas r) = Some []"
    using try_loa_find [OF first] m at by simp
  then show ?thesis
    using first at above by (simp add: xfl_simple_rules_def xfl_detailed_rules_def departure_xfl_def)
qed

end
