(* ===== verification/Tag_COP.thy ===== *)
theory Tag_COP
  imports Tag_Common
begin

text \<open>
  \<open>RenderCOPTagItem\<close> (TagCOP.cpp, item 1997): the coordination point. It records a live
  point negotiation, promotes a held request to manually accepted when the negotiation is
  over with the same point, and shows (in this order) an accepted point, a live one, a refusal
  as \<open>COPX\<close>, and otherwise the \<open>copText\<close> of the rules. In each primary list only the
  first matching entry is looked at: its altitude condition gives its \<open>copText\<close> or ends
  the list (\<open>break\<close>). Departure lists want the cleared level at or below the entry's XFL,
  arrival lists at or above it.
\<close>

definition cop_first :: "(loa_entry \<Rightarrow> bool) \<Rightarrow> (loa_entry \<Rightarrow> bool) \<Rightarrow> loa_entry list \<Rightarrow> string option" where
  "cop_first M cond entries =
     (case List.find M entries of
        None \<Rightarrow> None
      | Some e \<Rightarrow> (if cond e then Some (cop_text e) else None))"

definition cop_rules :: "rule_set \<Rightarrow> (loa_entry \<Rightarrow> bool) \<Rightarrow> (loa_entry \<Rightarrow> bool) \<Rightarrow> int \<Rightarrow> string" where
  "cop_rules r M F cleared =
     (case cop_first M (\<lambda>e. cleared \<le> xfl e * 100) (departure_loas r) of Some s \<Rightarrow> s | None \<Rightarrow>
      case cop_first M (\<lambda>e. cleared \<ge> xfl e * 100) (destination_loas r) of Some s \<Rightarrow> s | None \<Rightarrow>
      case cop_first M (\<lambda>e. cleared \<le> xfl e * 100) (lor_departures r) of Some s \<Rightarrow> s | None \<Rightarrow>
      case cop_first M (\<lambda>e. cleared \<ge> xfl e * 100) (lor_arrivals r) of Some s \<Rightarrow> s | None \<Rightarrow>
      case List.find F (fallback_loas r) of Some e \<Rightarrow> cop_text e | None \<Rightarrow> ''COPX'')"

definition render_cop :: "plugin \<Rightarrow> flight_plan \<Rightarrow> radar_target \<Rightarrow> plugin \<times> tag_out" where
  "render_cop p fp rt =
     (if \<not> rt_valid rt \<or> \<not> rt_correlated_valid rt then (p, untouched)
      else if \<not> is_loa_relevant_state (fp_state fp) then (p, show_text ''COPX'')
      else if \<not> is_ifr fp then (p, show_text ''COPX'')
      else
        (let data = last_tag_data p; cs = ctd_callsign data;
             cleared = ctd_cleared_altitude data;
             online = frame_online p; route = frame_route p;
             cop = exit_coord_point_name fp; st = exit_coord_name_state fp;
             p1 = track_point p cs cop st
         in (p1,
             case point_accepted p1 cs of
               Some pt \<Rightarrow> show_colored pt ColorRequestAccepted
             | None \<Rightarrow>
                 (if cop \<noteq> [] \<and> st = RequestedByMe then show_colored cop ColorRequestFromMe
                  else if cop \<noteq> [] \<and> st = RequestedByOther then show_colored cop ColorRequestToMe
                  else if cop \<noteq> [] \<and> st = CoordRefused then show_colored ''COPX'' ColorRequestRefused
                  else show_text (cop_rules (rules p1)
                         (tag_entry_matches online (ctd_origin data) (ctd_destination data) route)
                         (tag_fallback_matches cleared (ctd_destination data) route) cleared)))))"

lemmas [loa_defs] = cop_first_def cop_rules_def render_cop_def


subsection \<open>Lemmas\<close>

lemma render_cop_fits: "text_fits (snd (render_cop p fp rt))"
  by (auto simp: render_cop_def Let_def split: option.split)

lemma render_cop_tracker:
  "rt_valid rt \<Longrightarrow> rt_correlated_valid rt \<Longrightarrow> is_loa_relevant_state (fp_state fp) \<Longrightarrow> is_ifr fp \<Longrightarrow>
   fst (render_cop p fp rt) =
     track_point p (ctd_callsign (last_tag_data p)) (exit_coord_point_name fp) (exit_coord_name_state fp)"
  by (simp add: render_cop_def Let_def)

text \<open>
  C6: Promotion of a point negotiation: a live request for a point is drawn once, and when the
  next frame reports the negotiation over with the same point, the COP item shows that point
  in the accepted colour.
\<close>

theorem cop_promotion:
  assumes rt: "rt_valid rt" "rt_correlated_valid rt"
    and fp: "is_loa_relevant_state (fp_state fp)" "is_ifr fp"
    and pt: "exit_coord_point_name fp = pt" "pt \<noteq> []"
    and live: "exit_coord_name_state fp = RequestedByMe \<or> exit_coord_name_state fp = RequestedByOther"
  shows "snd (render_cop (fst (render_cop p fp rt)) (fp\<lparr>exit_coord_name_state := CoordNone\<rparr>) rt) =
         show_colored pt ColorRequestAccepted"
proof -
  let ?cs = "ctd_callsign (last_tag_data p)"
  let ?fp = "fp\<lparr>exit_coord_name_state := CoordNone\<rparr>"
  let ?p1 = "fst (render_cop p fp rt)"
  have p1: "?p1 = update_coord p ?cs (\<lambda>i. i\<lparr>exit_point := pt, exit_point_state := RequestedByMe\<rparr>)"
    using render_cop_tracker [OF rt fp] pt live track_point_live by simp
  have tag: "last_tag_data ?p1 = last_tag_data p" by (simp add: p1)
  have fp': "is_loa_relevant_state (fp_state ?fp)" "is_ifr ?fp"
    using fp by (simp_all add: is_ifr_def)
  have p2: "fst (render_cop ?p1 ?fp rt) = track_point ?p1 ?cs pt CoordNone"
    using render_cop_tracker [OF rt fp'] tag pt by simp
  have acc: "point_accepted (fst (render_cop ?p1 ?fp rt)) ?cs = Some pt"
    unfolding p2 track_point_over using pt by (simp add: p1 point_accepted_def)
  show ?thesis
    using rt fp' tag acc by (simp add: render_cop_def Let_def)
qed

text \<open>
  C11: The \<open>break\<close> of the COP loops: when the first matching departure entry fails its
  altitude condition, the whole departure list is passed over, as if it were empty, even if a
  later departure entry matches and satisfies it.
\<close>

theorem cop_break:
  "List.find M (departure_loas r) = Some e \<Longrightarrow> \<not> cleared \<le> xfl e * 100 \<Longrightarrow>
   cop_rules r M F cleared = cop_rules (r\<lparr>departure_loas := []\<rparr>) M F cleared"
  by (simp add: cop_rules_def cop_first_def split: option.split)


text \<open>
  C5: The destination list of the COP item (the specification's LENDY scenario): when no
  departure entry matches, the first matching destination entry decides: its \<open>copText\<close>
  when the cleared level is at or above its XFL, and otherwise the destination list is passed
  over (\<open>break\<close>) and the LOR lists, the fallback list and \<open>COPX\<close> follow.
\<close>

theorem cop_destination_decides:
  "List.find M (departure_loas r) = None \<Longrightarrow> List.find M (destination_loas r) = Some e \<Longrightarrow>
   cop_rules r M F cleared =
     (if xfl e * 100 \<le> cleared then cop_text e else cop_rules (r\<lparr>destination_loas := []\<rparr>) M F cleared)"
  by (simp add: cop_rules_def cop_first_def split: option.split)

text \<open>
  C13: The fallback list of the COP item (the specification's minimum-altitude scenario): when no
  primary entry matches, a fallback entry without waypoints or destinations is taken exactly
  when the cleared level is at or above its \<open>minAltitudeFt\<close>; below it the loop goes on
  with the next fallback entry.
\<close>

theorem cop_fallback_min_altitude:
  assumes "\<not> list_ex M (departure_loas r)" "\<not> list_ex M (destination_loas r)"
    "\<not> list_ex M (lor_departures r)" "\<not> list_ex M (lor_arrivals r)"
    and "fallback_loas r = e # es" "waypoints e = []" "destination_airports e = []"
  shows "cop_rules r M (tag_fallback_matches cleared destination route) cleared =
     (if min_altitude_ft e \<le> cleared then cop_text e
      else cop_rules (r\<lparr>fallback_loas := es\<rparr>) M (tag_fallback_matches cleared destination route) cleared)"
proof -
  have "List.find M (departure_loas r) = None" "List.find M (destination_loas r) = None"
    "List.find M (lor_departures r) = None" "List.find M (lor_arrivals r) = None"
    using assms(1-4) by (simp_all add: find_None_iff list_ex_iff)
  then show ?thesis
    using assms(5-7)
    by (simp add: cop_rules_def cop_first_def tag_fallback_matches_def waypoints_match_def not_less)
qed

end
