(* ===== verification/Loader.thy ===== *)
theory Loader
  imports Airport_Match
begin

text \<open>
  Loading the rule configuration, \<open>LOAPlugin::LoadLOAsFromJSON\<close> (LOAPlugin.cpp).
  The JSON text parser is outside the repository: the file for the sector is given as a
  \<open>json_source\<close> (missing, malformed, or a parsed value), found by a file system at the
  path the code builds beside the DLL (\<open>config_file_path\<close>). What the
  code does with a parsed value is modelled: \<open>contains\<close>, \<open>operator[]\<close>, range-for
  iteration and \<open>get<T>()\<close> of nlohmann::json, where \<open>get\<close> of the wrong type throws
  \<open>type_error\<close>, here \<open>Inl\<close>. That exception is not caught in \<open>LoadLOAsFromJSON\<close>
  (only the parse is inside \<open>try\<close>), so it leaves the function with the state as it was
  at the throw: the sector recorded, the five collections cleared, the lists parsed before
  the failing one installed.
\<close>

datatype json =
    JNull | JBool bool | JInt int | JString string | JArray "json list" | JObject "(string \<times> json) list"

datatype json_source = NoFile | Malformed | Parsed json

datatype json_error = TypeMustBe string

datatype load_outcome =
    LoadSkipped | LoadOpenError | LoadParseError | LoadTypeError json_error | LoadSuccess

subsection \<open>nlohmann::json accessors\<close>

definition sum_bind :: "'e + 'a \<Rightarrow> ('a \<Rightarrow> 'e + 'b) \<Rightarrow> 'e + 'b" where
  "sum_bind m f = (case m of Inl e \<Rightarrow> Inl e | Inr a \<Rightarrow> f a)"

fun json_contains :: "json \<Rightarrow> string \<Rightarrow> bool" where
  "json_contains (JObject kvs) k = (map_of kvs k \<noteq> None)"
| "json_contains _ k = False"

fun json_at :: "json \<Rightarrow> string \<Rightarrow> json" where
  "json_at (JObject kvs) k = (case map_of kvs k of Some v \<Rightarrow> v | None \<Rightarrow> JNull)"
| "json_at _ k = JNull"

text \<open>Range-for over a value: the elements of an array, the values of an object, nothing for
  null, and the value itself for a primitive.\<close>

fun json_items :: "json \<Rightarrow> json list" where
  "json_items (JArray xs) = xs"
| "json_items (JObject kvs) = map snd kvs"
| "json_items JNull = []"
| "json_items v = [v]"

fun json_get_string :: "json \<Rightarrow> json_error + string" where
  "json_get_string (JString s) = Inr s"
| "json_get_string _ = Inl (TypeMustBe ''string'')"

fun json_get_bool :: "json \<Rightarrow> json_error + bool" where
  "json_get_bool (JBool b) = Inr b"
| "json_get_bool _ = Inl (TypeMustBe ''boolean'')"

text \<open>\<open>get<int>()\<close> accepts numbers and booleans and converts with \<open>static_cast<int>\<close>.\<close>

fun json_get_int :: "json \<Rightarrow> json_error + int" where
  "json_get_int (JInt i) = Inr (sint (word_of_int i :: 32 word))"
| "json_get_int (JBool b) = Inr (if b then 1 else 0)"
| "json_get_int _ = Inl (TypeMustBe ''number'')"

fun json_get_strings :: "json list \<Rightarrow> json_error + string list" where
  "json_get_strings [] = Inr []"
| "json_get_strings (x # xs) =
     sum_bind (json_get_string x) (\<lambda>s. sum_bind (json_get_strings xs) (\<lambda>ss. Inr (s # ss)))"

fun json_get_string_list :: "json \<Rightarrow> json_error + string list" where
  "json_get_string_list (JArray xs) = json_get_strings xs"
| "json_get_string_list _ = Inl (TypeMustBe ''array'')"

subsection \<open>parseLOAList\<close>

text \<open>\<open>if (item.contains(key)) loa.field = item[key].get<T>();\<close>\<close>

definition opt_field ::
  "json \<Rightarrow> string \<Rightarrow> (json \<Rightarrow> json_error + 'a) \<Rightarrow> ('a \<Rightarrow> loa_entry \<Rightarrow> loa_entry) \<Rightarrow>
   loa_entry \<Rightarrow> json_error + loa_entry" where
  "opt_field item key get upd e =
     (if json_contains item key then sum_bind (get (json_at item key)) (\<lambda>v. Inr (upd v e)) else Inr e)"

definition set_origins :: "string list \<Rightarrow> loa_entry \<Rightarrow> loa_entry" where
  "set_origins l e =
     (let (s, ps) = process_airport_list l (origin_airport_set e) (origin_airport_prefixes e)
      in e\<lparr>origin_airports := l, origin_airport_set := s, origin_airport_prefixes := ps\<rparr>)"

definition set_destinations :: "string list \<Rightarrow> loa_entry \<Rightarrow> loa_entry" where
  "set_destinations l e =
     (let (s, ps) = process_airport_list l (destination_airport_set e) (destination_airport_prefixes e)
      in e\<lparr>destination_airports := l, destination_airport_set := s, destination_airport_prefixes := ps\<rparr>)"

definition parse_loa_entry :: "json \<Rightarrow> json_error + loa_entry" where
  "parse_loa_entry item =
     sum_bind (opt_field item ''origins'' json_get_string_list set_origins default_loa_entry) (\<lambda>e1.
     sum_bind (opt_field item ''destinations'' json_get_string_list set_destinations e1) (\<lambda>e2.
     sum_bind (opt_field item ''waypoints'' json_get_string_list (\<lambda>v e. e\<lparr>waypoints := v\<rparr>) e2) (\<lambda>e3.
     sum_bind (opt_field item ''nextSectors'' json_get_string_list (\<lambda>v e. e\<lparr>next_sectors := v\<rparr>) e3) (\<lambda>e4.
     sum_bind (opt_field item ''copText'' json_get_string (\<lambda>v e. e\<lparr>cop_text := v\<rparr>) e4) (\<lambda>e5.
     sum_bind (opt_field item ''requireNextSectorOnline'' json_get_bool
                 (\<lambda>v e. e\<lparr>require_next_sector_online := v\<rparr>) e5) (\<lambda>e6.
     sum_bind (opt_field item ''xfl'' json_get_int (\<lambda>v e. e\<lparr>xfl := v\<rparr>) e6) (\<lambda>e7.
     opt_field item ''minAltitudeFt'' json_get_int (\<lambda>v e. e\<lparr>min_altitude_ft := v\<rparr>) e7)))))))"

fun parse_loa_items :: "json list \<Rightarrow> json_error + loa_entry list" where
  "parse_loa_items [] = Inr []"
| "parse_loa_items (i # is) =
     sum_bind (parse_loa_entry i) (\<lambda>e. sum_bind (parse_loa_items is) (\<lambda>es. Inr (e # es)))"

definition parse_loa_list :: "json \<Rightarrow> json_error + loa_entry list" where
  "parse_loa_list arr = parse_loa_items (json_items arr)"

subsection \<open>LoadLOAsFromJSON\<close>

text \<open>\<open>if (config.contains(key)) coll = parseLOAList(config[key]);\<close> with the throw
  leaving the collections as they are.\<close>

definition load_category ::
  "json \<Rightarrow> string \<Rightarrow> (loa_entry list \<Rightarrow> rule_set \<Rightarrow> rule_set) \<Rightarrow> rule_set \<Rightarrow> rule_set \<times> json_error option" where
  "load_category cfg key upd r =
     (if json_contains cfg key
      then (case parse_loa_list (json_at cfg key) of
              Inl err \<Rightarrow> (r, Some err)
            | Inr l \<Rightarrow> (upd l r, None))
      else (r, None))"

fun load_categories ::
  "json \<Rightarrow> (string \<times> (loa_entry list \<Rightarrow> rule_set \<Rightarrow> rule_set)) list \<Rightarrow> rule_set \<Rightarrow> rule_set \<times> json_error option" where
  "load_categories cfg [] r = (r, None)"
| "load_categories cfg ((key, upd) # ks) r =
     (case load_category cfg key upd r of
        (r1, Some err) \<Rightarrow> (r1, Some err)
      | (r1, None) \<Rightarrow> load_categories cfg ks r1)"

definition config_keys :: "(string \<times> (loa_entry list \<Rightarrow> rule_set \<Rightarrow> rule_set)) list" where
  "config_keys =
     [(''destinationLoas'', \<lambda>l r. r\<lparr>destination_loas := l\<rparr>),
      (''departureLoas'', \<lambda>l r. r\<lparr>departure_loas := l\<rparr>),
      (''lorArrivals'', \<lambda>l r. r\<lparr>lor_arrivals := l\<rparr>),
      (''lorDepartures'', \<lambda>l r. r\<lparr>lor_departures := l\<rparr>),
      (''fallbackLoas'', \<lambda>l r. r\<lparr>fallback_loas := l\<rparr>)]"

text \<open>
  The whole function for the controller's own sector \<open>my_sector\<close> and the content of
  \<open>loa_configs_json/<sector>.json\<close>. \<open>clear()\<close> destroys every element, so the storage
  generation moves on there.
\<close>

definition load_loas_from_json :: "plugin \<Rightarrow> string \<Rightarrow> json_source \<Rightarrow> plugin \<times> load_outcome" where
  "load_loas_from_json p my_sector src =
     (if my_sector = [] \<or> my_sector = loaded_sector p then (p, LoadSkipped)
      else
        (let p1 = p\<lparr>loaded_sector := my_sector\<rparr> in
         case src of
           NoFile \<Rightarrow> (p1, LoadOpenError)
         | Malformed \<Rightarrow> (p1, LoadParseError)
         | Parsed cfg \<Rightarrow>
             (let p2 = p1\<lparr>rules := empty_rules, rules_gen := Suc (rules_gen p1)\<rparr>;
                  (r, err) = load_categories cfg config_keys (rules p2)
              in (p2\<lparr>rules := r\<rparr>, case err of None \<Rightarrow> LoadSuccess | Some e \<Rightarrow> LoadTypeError e))))"

text \<open>
  The file of a sector: the directory of the plugin DLL (\<open>GetModuleFileNameA\<close>, cut at
  the last backslash or slash by \<open>find_last_of\<close> and \<open>substr\<close>, or \<open>"."\<close> when
  there is none), then the directory \<open>loa_configs_json\<close> and the file named after the
  sector with the extension \<open>.json\<close>, joined with backslashes.
\<close>

definition is_path_sep :: "char \<Rightarrow> bool" where
  "is_path_sep c \<longleftrightarrow> c = CHR 0x5C \<or> c = CHR ''/''"

fun find_last_sep :: "string \<Rightarrow> nat option" where
  "find_last_sep [] = None"
| "find_last_sep (c # cs) =
     (case find_last_sep cs of
        Some i \<Rightarrow> Some (Suc i)
      | None \<Rightarrow> (if is_path_sep c then Some 0 else None))"

definition base_path :: "string \<Rightarrow> string" where
  "base_path dll = (case find_last_sep dll of Some i \<Rightarrow> take i dll | None \<Rightarrow> ''.'')"

definition config_file_path :: "string \<Rightarrow> string \<Rightarrow> string" where
  "config_file_path dll sector =
     base_path dll @ [CHR 0x5C] @ ''loa_configs_json'' @ [CHR 0x5C] @ sector @ ''.json''"

text \<open>The load as the code performs it: the content of the sector's file, read through the
  file system \<open>fs\<close> (a missing file, a malformed one, or the parsed value).\<close>

definition load_loas_from_fs ::
  "string \<Rightarrow> (string \<Rightarrow> json_source) \<Rightarrow> plugin \<Rightarrow> string \<Rightarrow> plugin \<times> load_outcome" where
  "load_loas_from_fs dll fs p my_sector =
     load_loas_from_json p my_sector (fs (config_file_path dll my_sector))"

text \<open>\<open>OnControllerPositionUpdate\<close>: a non-empty position id other than the loaded sector
  triggers \<open>LoadLOAsFromJSON\<close>, which loads the plugin's own sector.\<close>

definition on_controller_position_update ::
  "plugin \<Rightarrow> string \<Rightarrow> string \<Rightarrow> json_source \<Rightarrow> plugin \<times> load_outcome" where
  "on_controller_position_update p sector my_sector src =
     (if sector \<noteq> [] \<and> sector \<noteq> loaded_sector p then load_loas_from_json p my_sector src
      else (p, LoadSkipped))"

text \<open>Every rule entry carries the airport index of its raw lists.\<close>

definition rules_index_ok :: "rule_set \<Rightarrow> bool" where
  "rules_index_ok r =
     list_all entry_index_ok (destination_loas r @ departure_loas r @ lor_arrivals r @
                              lor_departures r @ fallback_loas r)"

definition origins_empty_ok :: "loa_entry \<Rightarrow> bool" where
  "origins_empty_ok e \<longleftrightarrow> entry_index_ok e \<and> origin_airports e = [] \<and> destination_airports e = []"

definition dest_empty_ok :: "loa_entry \<Rightarrow> bool" where
  "dest_empty_ok e \<longleftrightarrow> entry_index_ok e \<and> destination_airports e = []"

lemmas [loa_defs] = sum_bind_def opt_field_def set_origins_def set_destinations_def
  parse_loa_entry_def parse_loa_list_def load_category_def config_keys_def load_loas_from_json_def
  on_controller_position_update_def is_path_sep_def base_path_def config_file_path_def
  load_loas_from_fs_def

subsection \<open>Loading keeps the airport index\<close>

lemma sum_bind_Inr: "sum_bind m f = Inr b \<longleftrightarrow> (\<exists>a. m = Inr a \<and> f a = Inr b)"
  by (simp add: sum_bind_def split: sum.splits)

lemma opt_field_pres:
  "opt_field item k g upd e = Inr e' \<Longrightarrow> Q e \<Longrightarrow> (\<And>v. Q e \<Longrightarrow> Q (upd v e)) \<Longrightarrow> Q e'"
  by (auto simp: opt_field_def sum_bind_Inr split: if_splits)

lemma set_origins_ok: "origins_empty_ok e \<Longrightarrow> dest_empty_ok (set_origins l e)"
  by (auto simp: origins_empty_ok_def dest_empty_ok_def entry_index_ok_def set_origins_def
      split: prod.splits)

lemma set_destinations_ok: "dest_empty_ok e \<Longrightarrow> entry_index_ok (set_destinations l e)"
  by (auto simp: dest_empty_ok_def entry_index_ok_def set_destinations_def split: prod.splits)

lemma entry_index_ok_upd [simp]:
  "entry_index_ok (e\<lparr>waypoints := w\<rparr>) = entry_index_ok e"
  "entry_index_ok (e\<lparr>next_sectors := n\<rparr>) = entry_index_ok e"
  "entry_index_ok (e\<lparr>cop_text := c\<rparr>) = entry_index_ok e"
  "entry_index_ok (e\<lparr>require_next_sector_online := b\<rparr>) = entry_index_ok e"
  "entry_index_ok (e\<lparr>xfl := x\<rparr>) = entry_index_ok e"
  "entry_index_ok (e\<lparr>min_altitude_ft := m\<rparr>) = entry_index_ok e"
  by (simp_all add: entry_index_ok_def)

lemma parse_loa_entry_ok: "parse_loa_entry item = Inr e \<Longrightarrow> entry_index_ok e"
proof -
  assume "parse_loa_entry item = Inr e"
  then obtain e1 e2 e3 e4 e5 e6 e7 where
    s1: "opt_field item ''origins'' json_get_string_list set_origins default_loa_entry = Inr e1" and
    s2: "opt_field item ''destinations'' json_get_string_list set_destinations e1 = Inr e2" and
    s3: "opt_field item ''waypoints'' json_get_string_list (\<lambda>v e. e\<lparr>waypoints := v\<rparr>) e2 = Inr e3" and
    s4: "opt_field item ''nextSectors'' json_get_string_list (\<lambda>v e. e\<lparr>next_sectors := v\<rparr>) e3 = Inr e4" and
    s5: "opt_field item ''copText'' json_get_string (\<lambda>v e. e\<lparr>cop_text := v\<rparr>) e4 = Inr e5" and
    s6: "opt_field item ''requireNextSectorOnline'' json_get_bool
           (\<lambda>v e. e\<lparr>require_next_sector_online := v\<rparr>) e5 = Inr e6" and
    s7: "opt_field item ''xfl'' json_get_int (\<lambda>v e. e\<lparr>xfl := v\<rparr>) e6 = Inr e7" and
    s8: "opt_field item ''minAltitudeFt'' json_get_int (\<lambda>v e. e\<lparr>min_altitude_ft := v\<rparr>) e7 = Inr e"
    unfolding parse_loa_entry_def sum_bind_Inr by blast
  have "origins_empty_ok default_loa_entry"
    by (simp add: origins_empty_ok_def default_loa_entry_def entry_index_ok_def)
  then have "dest_empty_ok e1 \<or> origins_empty_ok e1"
    using opt_field_pres [OF s1, where Q = "\<lambda>x. dest_empty_ok x \<or> origins_empty_ok x"] set_origins_ok
    by blast
  then have "dest_empty_ok e1" by (auto simp: origins_empty_ok_def dest_empty_ok_def)
  then have "entry_index_ok e2 \<or> dest_empty_ok e2"
    using opt_field_pres [OF s2, where Q = "\<lambda>x. entry_index_ok x \<or> dest_empty_ok x"] set_destinations_ok
    by blast
  then have "entry_index_ok e2" by (auto simp: dest_empty_ok_def)
  then have "entry_index_ok e3" by (rule opt_field_pres [OF s3, where Q = entry_index_ok]) simp
  then have "entry_index_ok e4" by (rule opt_field_pres [OF s4, where Q = entry_index_ok]) simp
  then have "entry_index_ok e5" by (rule opt_field_pres [OF s5, where Q = entry_index_ok]) simp
  then have "entry_index_ok e6" by (rule opt_field_pres [OF s6, where Q = entry_index_ok]) simp
  then have "entry_index_ok e7" by (rule opt_field_pres [OF s7, where Q = entry_index_ok]) simp
  then show "entry_index_ok e" by (rule opt_field_pres [OF s8, where Q = entry_index_ok]) simp
qed

lemma parse_loa_items_ok: "parse_loa_items items = Inr es \<Longrightarrow> list_all entry_index_ok es"
proof (induction items arbitrary: es)
  case Nil
  then show ?case by simp
next
  case (Cons i rest)
  then show ?case by (auto simp: sum_bind_Inr dest: parse_loa_entry_ok)
qed

lemma load_category_ok:
  "load_category cfg key upd r = (r', err) \<Longrightarrow> rules_index_ok r \<Longrightarrow>
   (\<And>l. list_all entry_index_ok l \<Longrightarrow> rules_index_ok (upd l r)) \<Longrightarrow> rules_index_ok r'"
  by (auto simp: load_category_def parse_loa_list_def dest!: parse_loa_items_ok
      split: if_splits sum.splits)

lemma load_categories_ok:
  "load_categories cfg ks r = (r', err) \<Longrightarrow> rules_index_ok r \<Longrightarrow>
   (\<And>k u l r. (k, u) \<in> set ks \<Longrightarrow> list_all entry_index_ok l \<Longrightarrow> rules_index_ok r \<Longrightarrow>
      rules_index_ok (u l r)) \<Longrightarrow> rules_index_ok r'"
proof (induction cfg ks r arbitrary: r' err rule: load_categories.induct)
  case (1 cfg r)
  then show ?case by simp
next
  case (2 cfg key upd ks r)
  obtain r1 e1 where lc: "load_category cfg key upd r = (r1, e1)" by fastforce
  have ok1: "rules_index_ok r1"
  proof (rule load_category_ok [OF lc "2.prems"(2)])
    fix l
    assume "list_all entry_index_ok l"
    then show "rules_index_ok (upd l r)"
      using "2.prems"(3) [of key upd l r] "2.prems"(2) by simp
  qed
  show ?case
  proof (cases e1)
    case None
    with lc have lc': "load_category cfg key upd r = (r1, None)" by simp
    from lc' "2.prems"(1) have rest: "load_categories cfg ks r1 = (r', err)" by simp
    show ?thesis
    proof (rule "2.IH" [OF lc' [symmetric] refl rest ok1])
      fix k u l r0
      assume "(k, u) \<in> set ks" "list_all entry_index_ok l" "rules_index_ok r0"
      then show "rules_index_ok (u l r0)" using "2.prems"(3) [of k u l r0] by simp
    qed
  next
    case (Some x)
    with lc "2.prems"(1) ok1 show ?thesis by simp
  qed
qed

lemma config_keys_ok:
  "(k, u) \<in> set config_keys \<Longrightarrow> list_all entry_index_ok l \<Longrightarrow> rules_index_ok r \<Longrightarrow>
   rules_index_ok (u l r)"
  by (auto simp: config_keys_def rules_index_ok_def)


lemma load_loas_from_json_parsed:
  "my_sector \<noteq> [] \<Longrightarrow> my_sector \<noteq> loaded_sector p \<Longrightarrow>
   load_loas_from_json p my_sector (Parsed cfg) = (p', out) \<Longrightarrow>
   rules_gen p' = Suc (rules_gen p) \<and> matched_cache p' = matched_cache p \<and>
   match_timestamps p' = match_timestamps p"
  by (auto simp: load_loas_from_json_def Let_def split: prod.splits)

lemma json_get_int_range:
  "json_get_int (JInt i) = Inr v \<Longrightarrow> - (2 ^ 31) \<le> v \<and> v < 2 ^ 31 \<and> v mod 2 ^ 32 = i mod 2 ^ 32"
proof -
  assume "json_get_int (JInt i) = Inr v"
  then have v: "v = sint (word_of_int i :: 32 word)" by simp
  have "- (2 ^ 31) \<le> v \<and> v < 2 ^ 31" unfolding v using sint_ge [where 'a=32] sint_lt [where 'a=32]
    by simp
  moreover have "v mod 2 ^ 32 = i mod 2 ^ 32"
    unfolding v by (simp add: sint_uint uint_word_of_int_eq signed_take_bit_eq_take_bit_shift take_bit_eq_mod
      mod_diff_left_eq)
  ultimately show ?thesis by simp
qed

lemma json_at_contains: "json_at j k \<noteq> JNull \<Longrightarrow> json_contains j k"
  by (cases j) (auto split: option.splits)

lemma parse_loa_entry_xfl:
  assumes p: "parse_loa_entry item = Inr e" and c: "json_contains item ''xfl''"
  shows "json_get_int (json_at item ''xfl'') = Inr (xfl e)"
proof -
  from p obtain e6 e7 where
    e7: "opt_field item ''xfl'' json_get_int (\<lambda>v e. e\<lparr>xfl := v\<rparr>) e6 = Inr e7" and
    e: "opt_field item ''minAltitudeFt'' json_get_int (\<lambda>v e. e\<lparr>min_altitude_ft := v\<rparr>) e7 = Inr e"
    by (auto simp: parse_loa_entry_def sum_bind_Inr)
  from e7 c obtain v where v: "json_get_int (json_at item ''xfl'') = Inr v" "e7 = e6\<lparr>xfl := v\<rparr>"
    by (auto simp: opt_field_def sum_bind_Inr)
  have "xfl e = xfl e7" using opt_field_pres [OF e, of "\<lambda>x. xfl x = xfl e7"] by simp
  with v show ?thesis by simp
qed

subsection \<open>Error paths\<close>

text \<open>
  C29: \<open>loa.xfl = item["xfl"].get<int>()\<close>: the level of a parsed entry is the 32-bit value
  congruent to the configured number modulo \<open>2^32\<close>; a number out of range is wrapped,
  not rejected.
\<close>

theorem parse_loa_entry_xfl_wraps:
  assumes "parse_loa_entry item = Inr e" and "json_at item ''xfl'' = JInt i"
  shows "- (2 ^ 31) \<le> xfl e \<and> xfl e < 2 ^ 31 \<and> xfl e mod 2 ^ 32 = i mod 2 ^ 32"
proof -
  have "json_contains item ''xfl''" using assms(2) by (simp add: json_at_contains)
  with assms have "json_get_int (JInt i) = Inr (xfl e)" using parse_loa_entry_xfl by metis
  then show ?thesis by (rule json_get_int_range)
qed


text \<open>
  C23: When the sector's file cannot be opened, \<open>LoadLOAsFromJSON\<close> keeps the rules but has
  already recorded the sector as loaded, so no later position update retries the load.
\<close>

theorem load_open_error_no_retry:
  assumes "my_sector \<noteq> []" "my_sector \<noteq> loaded_sector p"
  shows "load_loas_from_json p my_sector NoFile = (p\<lparr>loaded_sector := my_sector\<rparr>, LoadOpenError) \<and>
         on_controller_position_update (p\<lparr>loaded_sector := my_sector\<rparr>) sector my_sector src =
           (p\<lparr>loaded_sector := my_sector\<rparr>, LoadSkipped)"
  using assms by (simp add: load_loas_from_json_def on_controller_position_update_def)

text \<open>
  C24: A malformed file leaves the rules and their generation as they were; the call either
  skips or reports the parse error.
\<close>

theorem load_parse_error_keeps_rules:
  "load_loas_from_json p my_sector Malformed = (p', out) \<Longrightarrow>
   rules p' = rules p \<and> rules_gen p' = rules_gen p \<and> (out = LoadSkipped \<or> out = LoadParseError)"
  by (auto simp: load_loas_from_json_def split: if_splits)

lemma load_categories_error:
  "load_categories cfg ks r = (r', Some err) \<Longrightarrow>
   \<exists>pre k upd post. ks = pre @ (k, upd) # post \<and> load_categories cfg pre r = (r', None) \<and>
     json_contains cfg k \<and> parse_loa_list (json_at cfg k) = Inl err"
proof (induction ks arbitrary: r)
  case Nil
  then show ?case by simp
next
  case (Cons ku ks)
  obtain k upd where ku: "ku = (k, upd)" by fastforce
  obtain r1 e1 where lc: "load_category cfg k upd r = (r1, e1)" by fastforce
  show ?case
  proof (cases e1)
    case (Some e)
    with Cons.prems ku lc have "r' = r" "e = err" "json_contains cfg k" "parse_loa_list (json_at cfg k) = Inl err"
      by (auto simp: load_category_def split: if_splits sum.splits)
    then have "ku # ks = [] @ (k, upd) # ks \<and> load_categories cfg [] r = (r', None) \<and>
        json_contains cfg k \<and> parse_loa_list (json_at cfg k) = Inl err"
      using ku by simp
    then show ?thesis by blast
  next
    case None
    with Cons.prems ku lc have "load_categories cfg ks r1 = (r', Some err)" by simp
    from Cons.IH [OF this] obtain pre k' u' post where
      "ks = pre @ (k', u') # post" "load_categories cfg pre r1 = (r', None)"
      "json_contains cfg k'" "parse_loa_list (json_at cfg k') = Inl err" by blast
    with ku lc None have "ku # ks = ((k, upd) # pre) @ (k', u') # post \<and>
        load_categories cfg ((k, upd) # pre) r = (r', None) \<and>
        json_contains cfg k' \<and> parse_loa_list (json_at cfg k') = Inl err"
      by simp
    then show ?thesis by blast
  qed
qed

text \<open>
  C22: A value of the wrong type is not caught: when \<open>LoadLOAsFromJSON\<close> ends with a
  \<open>type_error\<close>, the configuration splits at the first key whose list fails to parse; the
  rules hold exactly the lists of the keys before it, parsed without error, into cleared
  storage (a new generation), and the sector is recorded as loaded.
\<close>

theorem load_type_error_partial:
  assumes "load_loas_from_json p my_sector (Parsed cfg) = (p', LoadTypeError err)"
  shows "\<exists>pre k upd post. config_keys = pre @ (k, upd) # post \<and>
           json_contains cfg k \<and> parse_loa_list (json_at cfg k) = Inl err \<and>
           load_categories cfg pre empty_rules = (rules p', None) \<and>
           rules_gen p' = Suc (rules_gen p) \<and> loaded_sector p' = my_sector"
proof -
  obtain r e where lc: "load_categories cfg config_keys empty_rules = (r, e)" by fastforce
  from assms lc have p': "rules p' = r" "rules_gen p' = Suc (rules_gen p)" "loaded_sector p' = my_sector"
    and e: "e = Some err"
    by (auto simp: load_loas_from_json_def Let_def split: if_splits option.splits)
  from lc e have "load_categories cfg config_keys empty_rules = (r, Some err)" by simp
  from load_categories_error [OF this] p' show ?thesis by blast
qed


subsection \<open>Parsed entries and the configuration file\<close>

lemma parse_loa_items_length: "parse_loa_items items = Inr es \<Longrightarrow> length es = length items"
proof (induction items arbitrary: es)
  case Nil
  then show ?case by simp
next
  case (Cons i rest)
  then show ?case by (auto simp: sum_bind_Inr)
qed

text \<open>
  C34: \<open>parseLOAList\<close> either throws or returns one entry per item, in order, each of them
  well-formed: its exact airport set and prefix list are the split of its raw airport lists.
\<close>

theorem parse_loa_list_wellformed:
  "parse_loa_list arr = Inr es \<Longrightarrow> length es = length (json_items arr) \<and> list_all entry_index_ok es"
  by (simp add: parse_loa_list_def parse_loa_items_length parse_loa_items_ok)

lemma find_last_sep_None: "\<not> list_ex is_path_sep f \<Longrightarrow> find_last_sep f = None"
  by (induction f) auto

lemma find_last_sep_last:
  "\<not> list_ex is_path_sep f \<Longrightarrow> is_path_sep c \<Longrightarrow> find_last_sep (d @ c # f) = Some (length d)"
  by (induction d) (simp_all add: find_last_sep_None)

text \<open>
  C36: For a DLL at \<open>d\<close> followed by a separator and a file name without separators, the
  sector's configuration is read from the directory \<open>loa_configs_json\<close> beside it: the directory of
  the DLL, whichever separator it uses.
\<close>

theorem config_file_path_next_to_dll:
  "\<not> list_ex is_path_sep f \<Longrightarrow> is_path_sep c \<Longrightarrow>
   config_file_path (d @ c # f) sector =
     d @ [CHR 0x5C] @ ''loa_configs_json'' @ [CHR 0x5C] @ sector @ ''.json''"
  by (simp add: config_file_path_def base_path_def find_last_sep_last)

end
