(* ===== verification/Plugin.thy ===== *)
theory Plugin
  imports Tag_XFL Tag_COP Loader
begin

text \<open>
  The plugin as the host drives it: \<open>OnGetTagItem\<close> (LOAPlugin.cpp) records the tag data,
  refreshes the per-frame snapshot (online set, route, match) when the callsign changes or
  more than 100 ticks have passed, and dispatches to a renderer by item code; the
  constructor loads the own sector; the callbacks \<open>OnFlightPlanStateChange\<close>,
  \<open>OnFlightPlanCoordinationStateChange\<close> and \<open>OnControllerPositionUpdate\<close> change the
  state too. \<open>plugin_step\<close> applies one host event; \<open>reachable\<close> is every state a run
  of events can produce from construction, and \<open>plugin_inv\<close> the invariant they keep.
\<close>

text \<open>The per-frame snapshot taken in \<open>OnGetTagItem\<close>.\<close>

definition refresh_frame :: "plugin \<Rightarrow> flight_plan \<Rightarrow> controller list \<Rightarrow> tick \<Rightarrow> plugin" where
  "refresh_frame p fp roster now =
     (let pa = p\<lparr>frame_callsign := fp_callsign fp, frame_timestamp := now\<rparr>;
          (pb, online) = get_online_controllers_cached pa roster now;
          pc = pb\<lparr>frame_online := online\<rparr>;
          (pd, route) = get_cached_route_points pc fp now;
          pe = pd\<lparr>frame_route := route\<rparr>;
          (pf, m) = match_loa_entry pe fp (frame_online pe) now
      in pf\<lparr>frame_match := m\<rparr>)"

definition on_get_tag_item ::
  "plugin \<Rightarrow> flight_plan \<Rightarrow> radar_target \<Rightarrow> int \<Rightarrow> controller list \<Rightarrow> tick \<Rightarrow> plugin \<times> tag_out" where
  "on_get_tag_item p fp rt item_code roster now =
     (let cs = fp_callsign fp;
          p0 = p\<lparr>last_tag_data :=
                  \<lparr>ctd_callsign = cs, ctd_cleared_altitude = cleared_altitude fp,
                   ctd_final_altitude = final_altitude fp, ctd_origin = fp_origin fp,
                   ctd_destination = fp_destination fp\<rparr>\<rparr>;
          p1 = (if cs \<noteq> frame_callsign p0 \<or> now - frame_timestamp p0 > 100
                then refresh_frame p0 fp roster now else p0)
      in if item_code = custom_tag_id then render_xfl p1 fp rt roster now
         else if item_code = custom_tag_xfl_detailed then render_xfl_detailed p1 fp rt
         else if item_code = custom_tag_id_cop then render_cop p1 fp rt
         else (p1, untouched))"

text \<open>\<open>LOAPlugin::LOAPlugin()\<close>: load the own sector if it is known.\<close>

definition construct_plugin :: "string \<Rightarrow> json_source \<Rightarrow> plugin" where
  "construct_plugin my_sector src =
     (if my_sector \<noteq> [] then fst (load_loas_from_json init_plugin my_sector src) else init_plugin)"

datatype event =
    EvTagItem flight_plan radar_target int "controller list" tick
  | EvStateChange flight_plan
  | EvCoordChange flight_plan coord_type coord_state
  | EvPositionUpdate string string json_source

fun plugin_step :: "plugin \<Rightarrow> event \<Rightarrow> plugin" where
  "plugin_step p (EvTagItem fp rt code roster now) = fst (on_get_tag_item p fp rt code roster now)"
| "plugin_step p (EvStateChange fp) = on_flight_plan_state_change p fp"
| "plugin_step p (EvCoordChange fp ct st) = on_coordination_state_change p fp ct st"
| "plugin_step p (EvPositionUpdate sector my_sector src) =
     fst (on_controller_position_update p sector my_sector src)"

fun run_events :: "plugin \<Rightarrow> event list \<Rightarrow> plugin" where
  "run_events p [] = p"
| "run_events p (ev # evs) = run_events (plugin_step p ev) evs"

inductive reachable :: "plugin \<Rightarrow> bool" where
  start: "reachable (construct_plugin my_sector src)"
| step: "reachable p \<Longrightarrow> reachable (plugin_step p ev)"

text \<open>A rule reference is current if it was taken from the live storage; a current one names
  an existing entry.\<close>

definition ref_ok :: "plugin \<Rightarrow> loa_ref \<Rightarrow> bool" where
  "ref_ok p r = (ref_gen r \<le> rules_gen p \<and> (ref_gen r = rules_gen p \<longrightarrow> deref (rules p) (rules_gen p) r \<noteq> None))"

definition refs_ok :: "plugin \<Rightarrow> bool" where
  "refs_ok p =
     ((\<forall>cs r. matched_cache p cs = Some (Some r) \<longrightarrow> ref_ok p r) \<and>
      (\<forall>r. frame_match p = Some r \<longrightarrow> ref_ok p r))"

definition plugin_inv :: "plugin \<Rightarrow> bool" where
  "plugin_inv p = (route_cache_ok p \<and> rules_index_ok (rules p) \<and> refs_ok p)"

text \<open>The fields the invariant reads.\<close>

definition inv_fields where
  "inv_fields p = (route_cache p, route_cache_time p, rules p, rules_gen p, matched_cache p, frame_match p)"

text \<open>The tables a step can only add keys to.\<close>

definition keys_grow :: "plugin \<Rightarrow> plugin \<Rightarrow> bool" where
  "keys_grow p q \<longleftrightarrow> dom (coordination_states p) \<subseteq> dom (coordination_states q) \<and>
                      dom (match_timestamps p) \<subseteq> dom (match_timestamps q)"

lemmas [loa_defs] = refresh_frame_def on_get_tag_item_def construct_plugin_def custom_tag_id_def
  custom_tag_id_cop_def custom_tag_xfl_detailed_def

subsection \<open>The invariant of reachable states\<close>

lemma plugin_inv_cong: "inv_fields p = inv_fields q \<Longrightarrow> plugin_inv p = plugin_inv q"
  by (simp add: inv_fields_def plugin_inv_def route_cache_ok_def refs_ok_def ref_ok_def)

lemma inv_fields_simps [simp]:
  "inv_fields (fst (get_online_controllers_cached p roster now)) = inv_fields p"
  "inv_fields (update_coord p cs f) = inv_fields p"
  "inv_fields (track_altitude p cs v st) = inv_fields p"
  "inv_fields (track_point p cs pt st) = inv_fields p"
  "inv_fields (on_coordination_state_change p fp ct st) = inv_fields p"
  "inv_fields (p\<lparr>last_tag_data := d\<rparr>) = inv_fields p"
  "inv_fields (p\<lparr>frame_callsign := c, frame_timestamp := t\<rparr>) = inv_fields p"
  "inv_fields (p\<lparr>frame_online := ol\<rparr>) = inv_fields p"
  "inv_fields (p\<lparr>frame_route := rt\<rparr>) = inv_fields p"
  by (simp_all add: inv_fields_def get_online_controllers_cached_def track_altitude_def
      track_point_def on_coordination_state_change_def Let_def)

lemma ref_ok_scan:
  "loa_scan (rules p) (rules_gen p) P F = Some ref \<Longrightarrow> ref_ok p ref"
  using loa_scan_Some_idx [of "rules p" "rules_gen p" P F ref]
  by (simp add: ref_ok_def deref_def)

lemma ref_ok_cong:
  "rules q = rules p \<Longrightarrow> rules_gen q = rules_gen p \<Longrightarrow> ref_ok q r = ref_ok p r"
  by (simp add: ref_ok_def)

lemma get_cached_route_points_inv:
  "plugin_inv p \<Longrightarrow> plugin_inv (fst (get_cached_route_points p fp now))"
  using get_cached_route_points_ok [of p fp now]
  by (simp add: plugin_inv_def refs_ok_def ref_ok_def)

lemma match_loa_entry_inv:
  assumes inv: "plugin_inv p" and m: "match_loa_entry p fp online now = (p', res)"
  shows "plugin_inv p' \<and> (\<forall>r. res = Some r \<longrightarrow> ref_ok p' r)"
proof (cases "fp_valid fp \<and> is_loa_relevant_state (fp_state fp) \<and> is_ifr fp")
  case False
  with m inv show ?thesis by (auto simp: match_loa_entry_rejected)
next
  case True
  show ?thesis
  proof (cases "cached_match p (fp_callsign fp) (dword_tick now)")
    case (Some r0)
    with True m have "p' = p" "res = r0" by (simp_all add: match_loa_entry_hit)
    moreover from Some have "matched_cache p (fp_callsign fp) = Some r0"
      by (auto simp: cached_match_def split: option.splits if_splits)
    ultimately show ?thesis using inv by (auto simp: plugin_inv_def refs_ok_def)
  next
    case None
    obtain p1 route where gr: "get_cached_route_points p fp now = (p1, route)" by fastforce
    let ?res = "loa_scan (rules p) (rules_gen p)
        (loa_entry_matches online (fp_origin fp) (fp_destination fp) (tracking_controller_id fp) route)
        (fallback_matches (cleared_altitude fp) (fp_destination fp) route)"
    from True None gr m have p': "p' = store_match p1 (fp_callsign fp) ?res (dword_tick now)"
      and res: "res = ?res"
      by (auto simp: match_loa_entry_miss Let_def)
    from gr get_cached_route_points_inv [OF inv, of fp now] have inv1: "plugin_inv p1" by simp
    from gr have same: "rules p1 = rules p" "rules_gen p1 = rules_gen p"
      using get_cached_route_points_rules [of p fp now] by simp_all
    have ok: "\<forall>r. ?res = Some r \<longrightarrow> ref_ok p1 r"
      using ref_ok_scan ref_ok_cong [OF same] by blast
    have "plugin_inv p'"
      using inv1 ok unfolding p' plugin_inv_def route_cache_ok_def refs_ok_def store_match_def
      by (auto simp: ref_ok_def)
    moreover have "\<forall>r. res = Some r \<longrightarrow> ref_ok p' r"
      using ok by (simp add: res p' store_match_def ref_ok_def)
    ultimately show ?thesis by blast
  qed
qed

lemma plugin_inv_frame [simp]:
  "plugin_inv (fst (get_online_controllers_cached p roster now)) = plugin_inv p"
  "plugin_inv (track_altitude p cs v st) = plugin_inv p"
  "plugin_inv (track_point p cs pt st) = plugin_inv p"
  "plugin_inv (on_coordination_state_change p fp ct st) = plugin_inv p"
  "plugin_inv (p\<lparr>last_tag_data := d\<rparr>) = plugin_inv p"
  "plugin_inv (p\<lparr>frame_callsign := c, frame_timestamp := t\<rparr>) = plugin_inv p"
  "plugin_inv (p\<lparr>frame_online := ol\<rparr>) = plugin_inv p"
  "plugin_inv (p\<lparr>frame_route := rt\<rparr>) = plugin_inv p"
  by (rule plugin_inv_cong, simp)+

lemma render_xfl_inv: "plugin_inv p \<Longrightarrow> plugin_inv (fst (render_xfl p fp rt roster now))"
proof -
  assume inv: "plugin_inv p"
  obtain p1 ol where g1: "get_online_controllers_cached p roster now = (p1, ol)" by fastforce
  obtain p2 rte where g2: "get_cached_route_points p1 fp now = (p2, rte)" by fastforce
  from inv g1 have i1: "plugin_inv p1" using plugin_inv_frame(1) [of p roster now] by simp
  from g2 get_cached_route_points_inv [OF i1, of fp now] have i2: "plugin_inv p2" by simp
  with inv show ?thesis by (simp add: render_xfl_def Let_def g1 g2)
qed

lemma render_xfl_detailed_inv: "plugin_inv p \<Longrightarrow> plugin_inv (fst (render_xfl_detailed p fp rt))"
  by (simp add: render_xfl_detailed_def Let_def)

lemma render_cop_inv: "plugin_inv p \<Longrightarrow> plugin_inv (fst (render_cop p fp rt))"
  by (simp add: render_cop_def Let_def)

lemma plugin_inv_frame_match:
  "plugin_inv p \<Longrightarrow> (\<forall>r. m = Some r \<longrightarrow> ref_ok p r) \<Longrightarrow> plugin_inv (p\<lparr>frame_match := m\<rparr>)"
  by (simp add: plugin_inv_def route_cache_ok_def refs_ok_def ref_ok_def)

lemma refresh_frame_inv:
  assumes inv: "plugin_inv p"
  shows "plugin_inv (refresh_frame p fp roster now)"
proof -
  let ?pa = "p\<lparr>frame_callsign := fp_callsign fp, frame_timestamp := now\<rparr>"
  obtain pb ol where gb: "get_online_controllers_cached ?pa roster now = (pb, ol)" by fastforce
  have ib: "plugin_inv pb" using inv gb plugin_inv_frame(1) [of ?pa roster now] by simp
  obtain pd rte where gd: "get_cached_route_points (pb\<lparr>frame_online := ol\<rparr>) fp now = (pd, rte)"
    by fastforce
  have id: "plugin_inv pd"
    using get_cached_route_points_inv [of "pb\<lparr>frame_online := ol\<rparr>" fp now] ib gd by simp
  obtain pf m where gf: "match_loa_entry (pd\<lparr>frame_route := rte\<rparr>) fp (frame_online pd) now = (pf, m)"
    by fastforce
  have "plugin_inv pf \<and> (\<forall>r. m = Some r \<longrightarrow> ref_ok pf r)"
    using match_loa_entry_inv [OF _ gf] id by simp
  then have "plugin_inv (pf\<lparr>frame_match := m\<rparr>)" by (blast intro: plugin_inv_frame_match)
  then show ?thesis by (simp add: refresh_frame_def gb gd gf)
qed

lemma on_get_tag_item_inv:
  assumes inv: "plugin_inv p"
  shows "plugin_inv (fst (on_get_tag_item p fp rt code roster now))"
proof -
  let ?p0 = "p\<lparr>last_tag_data :=
                  \<lparr>ctd_callsign = fp_callsign fp, ctd_cleared_altitude = cleared_altitude fp,
                   ctd_final_altitude = final_altitude fp, ctd_origin = fp_origin fp,
                   ctd_destination = fp_destination fp\<rparr>\<rparr>"
  let ?p1 = "if fp_callsign fp \<noteq> frame_callsign ?p0 \<or> now - frame_timestamp ?p0 > 100
             then refresh_frame ?p0 fp roster now else ?p0"
  have i0: "plugin_inv ?p0" using inv by simp
  have i1: "plugin_inv ?p1" using refresh_frame_inv [OF i0] i0 by simp
  show ?thesis
    unfolding on_get_tag_item_def Let_def
    using i1 render_xfl_inv render_xfl_detailed_inv render_cop_inv by simp
qed

lemma on_flight_plan_state_change_inv:
  "plugin_inv p \<Longrightarrow> plugin_inv (on_flight_plan_state_change p fp)"
  by (auto simp: plugin_inv_def on_flight_plan_state_change_def cleanup_cache_def route_cache_ok_def
      refs_ok_def ref_ok_def)

lemma ref_ok_new_generation: "ref_ok p r \<Longrightarrow> rules_gen q = Suc (rules_gen p) \<Longrightarrow> ref_ok q r"
  by (simp add: ref_ok_def)

lemma refs_ok_new_generation:
  assumes "refs_ok p" "matched_cache q = matched_cache p" "frame_match q = frame_match p"
    and g: "rules_gen q = Suc (rules_gen p)"
  shows "refs_ok q"
  using assms(1-3) ref_ok_new_generation [OF _ g] unfolding refs_ok_def by simp

lemma load_loas_from_json_inv:
  assumes inv: "plugin_inv p"
  shows "plugin_inv (fst (load_loas_from_json p my_sector src))"
proof (cases "my_sector = [] \<or> my_sector = loaded_sector p")
  case True
  with inv show ?thesis by (simp add: load_loas_from_json_def)
next
  case False
  show ?thesis
  proof (cases src)
    case (Parsed cfg)
    obtain r err where lc: "load_categories cfg config_keys empty_rules = (r, err)" by fastforce
    have "rules_index_ok empty_rules" by (simp add: rules_index_ok_def empty_rules_def)
    with lc config_keys_ok have "rules_index_ok r" by (blast intro: load_categories_ok)
    let ?q = "fst (load_loas_from_json p my_sector src)"
    from False Parsed lc have q: "route_cache ?q = route_cache p" "route_cache_time ?q = route_cache_time p"
      "rules ?q = r" "matched_cache ?q = matched_cache p" "frame_match ?q = frame_match p"
      "rules_gen ?q = Suc (rules_gen p)"
      by (simp_all add: load_loas_from_json_def)
    from inv have "refs_ok p" by (simp add: plugin_inv_def)
    then have "refs_ok ?q" using q by (blast intro: refs_ok_new_generation)
    with inv q \<open>rules_index_ok r\<close> show ?thesis by (simp add: plugin_inv_def route_cache_ok_def)
  qed (use inv False in \<open>simp_all add: load_loas_from_json_def plugin_inv_def route_cache_ok_def
          refs_ok_def ref_ok_def\<close>)
qed

lemma init_plugin_inv: "plugin_inv init_plugin"
  by (simp add: plugin_inv_def init_plugin_def route_cache_ok_def rules_index_ok_def empty_rules_def
      refs_ok_def)

text \<open>
  C2: Every state the host can drive the plugin into satisfies the invariant: the route cache
  holds a time for exactly the callsigns it holds a route for, every rule entry carries the
  airport index of its raw lists, and every cached rule reference (the per-callsign match
  cache and the frame's match) is at most the live storage generation and, when it is of the
  live generation, names an existing entry.
\<close>

theorem reachable_plugin_inv: "reachable p \<Longrightarrow> plugin_inv p"
proof (induction rule: reachable.induct)
  case (start my_sector src)
  show ?case
    using init_plugin_inv load_loas_from_json_inv by (simp add: construct_plugin_def)
next
  case (step p ev)
  then show ?case
  proof (cases ev)
    case (EvTagItem fp rt code roster now)
    with step show ?thesis by (simp add: on_get_tag_item_inv)
  next
    case (EvStateChange fp)
    with step show ?thesis by (simp add: on_flight_plan_state_change_inv)
  next
    case (EvCoordChange fp ct st)
    with step show ?thesis by simp
  next
    case (EvPositionUpdate sector my_sector src)
    with step show ?thesis by (simp add: on_controller_position_update_def load_loas_from_json_inv)
  qed
qed


subsection \<open>Reload and stale references\<close>

text \<open>
  C4: A reload does not clear the match cache: a reference cached for a flight less than 5000
  ticks before a successful or failed parse of a new file is still served by
  \<open>MatchLoaEntry\<close> afterwards, although it names no entry of the new rules (the raw
  pointer of the code dangles).
\<close>

theorem reload_serves_stale_reference:
  assumes fp: "fp_valid fp" "is_loa_relevant_state (fp_state fp)" "is_ifr fp"
    and cached: "matched_cache p (fp_callsign fp) = Some (Some r)" "ref_gen r \<le> rules_gen p"
    and ts: "match_timestamps p (fp_callsign fp) = Some t" and win: "dword_tick now - t < 5000"
    and sector: "my_sector \<noteq> []" "my_sector \<noteq> loaded_sector p"
    and load: "load_loas_from_json p my_sector (Parsed cfg) = (p', out)"
  shows "match_loa_entry p' fp online now = (p', Some r) \<and> deref (rules p') (rules_gen p') r = None"
proof -
  have p': "rules_gen p' = Suc (rules_gen p)" "matched_cache p' = matched_cache p"
    "match_timestamps p' = match_timestamps p"
    using load_loas_from_json_parsed [OF sector load] by simp_all
  have "cached_match p' (fp_callsign fp) (dword_tick now) = Some (Some r)"
    using cached ts win by (simp add: cached_match_def p')
  then have "match_loa_entry p' fp online now = (p', Some r)"
    using fp by (simp add: match_loa_entry_hit)
  moreover have "deref (rules p') (rules_gen p') r = None"
    using cached(2) by (simp add: deref_def p')
  ultimately show ?thesis by simp
qed

subsection \<open>The tag text\<close>

text \<open>
  C15: Whatever the item code and the state, the text \<open>OnGetTagItem\<close> writes has at most 15
  characters, so it fits the 16-byte item buffer with its terminator.
\<close>

theorem tag_text_fits:
  "out_text (snd (on_get_tag_item p fp rt code roster now)) = Some t \<Longrightarrow> length t \<le> 15"
proof -
  assume t: "out_text (snd (on_get_tag_item p fp rt code roster now)) = Some t"
  have "text_fits (snd (on_get_tag_item p fp rt code roster now))"
    by (simp add: on_get_tag_item_def Let_def render_xfl_fits render_xfl_detailed_fits render_cop_fits)
  with t show ?thesis by (simp add: text_fits_def)
qed

subsection \<open>Tables that only grow\<close>

lemma keys_grow_refl [simp]: "keys_grow p p"
  by (simp add: keys_grow_def)

lemma keys_grow_trans: "keys_grow p q \<Longrightarrow> keys_grow q r \<Longrightarrow> keys_grow p r"
  unfolding keys_grow_def by blast

lemma keys_grow_ops:
  "keys_grow p (fst (get_online_controllers_cached p roster now))"
  "keys_grow p (fst (get_cached_route_points p fp now))"
  "keys_grow p (track_altitude p cs v st)"
  "keys_grow p (track_point p cs pt st)"
  "keys_grow p (on_coordination_state_change p fp ct st)"
  "keys_grow p (on_flight_plan_state_change p fp)"
  "keys_grow p (fst (load_loas_from_json p my_sector src))"
  "keys_grow p (fst (on_controller_position_update p sector my_sector src))"
  by (auto simp: keys_grow_def get_online_controllers_cached_def Let_def track_altitude_def
      track_point_def on_coordination_state_change_def on_flight_plan_state_change_def
      cleanup_cache_def load_loas_from_json_def on_controller_position_update_def
      split: json_source.split prod.split)

lemma keys_grow_match: "keys_grow p (fst (match_loa_entry p fp online now))"
  by (auto simp: keys_grow_def match_loa_entry_def Let_def store_match_def case_prod_beta
      split: option.split)

lemma keys_grow_fields:
  "keys_grow p (p\<lparr>frame_callsign := c, frame_timestamp := t\<rparr>)"
  "keys_grow p (p\<lparr>frame_online := ol\<rparr>)" "keys_grow p (p\<lparr>frame_route := rte\<rparr>)"
  "keys_grow p (p\<lparr>frame_match := m\<rparr>)" "keys_grow p (p\<lparr>last_tag_data := d\<rparr>)"
  by (simp_all add: keys_grow_def)

lemma keys_grow_refresh_frame: "keys_grow p (refresh_frame p fp roster now)"
proof -
  let ?pa = "p\<lparr>frame_callsign := fp_callsign fp, frame_timestamp := now\<rparr>"
  obtain pb ol where gb: "get_online_controllers_cached ?pa roster now = (pb, ol)" by fastforce
  obtain pd rte where gd: "get_cached_route_points (pb\<lparr>frame_online := ol\<rparr>) fp now = (pd, rte)"
    by fastforce
  obtain pf m where gf: "match_loa_entry (pd\<lparr>frame_route := rte\<rparr>) fp (frame_online pd) now = (pf, m)"
    by fastforce
  have "keys_grow p pb" using keys_grow_ops(1) [of ?pa roster now] gb keys_grow_fields(1)
    by (auto intro: keys_grow_trans)
  moreover have "keys_grow pb pd" using keys_grow_ops(2) [of "pb\<lparr>frame_online := ol\<rparr>" fp now] gd
    keys_grow_fields(2) by (auto intro: keys_grow_trans)
  moreover have "keys_grow pd pf" using keys_grow_match [of "pd\<lparr>frame_route := rte\<rparr>" fp "frame_online pd" now]
    gf keys_grow_fields(3) by (auto intro: keys_grow_trans)
  ultimately have "keys_grow p (pf\<lparr>frame_match := m\<rparr>)"
    using keys_grow_fields(4) by (blast intro: keys_grow_trans)
  then show ?thesis by (simp add: refresh_frame_def gb gd gf)
qed

lemma keys_grow_renderers:
  "keys_grow p (fst (render_xfl p fp rt roster now))"
  "keys_grow p (fst (render_xfl_detailed p fp rt))"
  "keys_grow p (fst (render_cop p fp rt))"
proof -
  have "keys_grow p (fst (get_cached_route_points (fst (get_online_controllers_cached p roster now)) fp now))"
    using keys_grow_ops(1,2) by (blast intro: keys_grow_trans)
  then show "keys_grow p (fst (render_xfl p fp rt roster now))"
    using keys_grow_ops(3) by (auto simp: render_xfl_def Let_def case_prod_beta intro: keys_grow_trans)
  show "keys_grow p (fst (render_xfl_detailed p fp rt))"
    using keys_grow_ops(3) by (simp add: render_xfl_detailed_def Let_def)
  show "keys_grow p (fst (render_cop p fp rt))"
    using keys_grow_ops(4) by (simp add: render_cop_def Let_def)
qed

lemma keys_grow_tag_item: "keys_grow p (fst (on_get_tag_item p fp rt code roster now))"
proof -
  let ?p0 = "p\<lparr>last_tag_data :=
                  \<lparr>ctd_callsign = fp_callsign fp, ctd_cleared_altitude = cleared_altitude fp,
                   ctd_final_altitude = final_altitude fp, ctd_origin = fp_origin fp,
                   ctd_destination = fp_destination fp\<rparr>\<rparr>"
  let ?p1 = "if fp_callsign fp \<noteq> frame_callsign ?p0 \<or> now - frame_timestamp ?p0 > 100
             then refresh_frame ?p0 fp roster now else ?p0"
  have a: "keys_grow p ?p0" by (rule keys_grow_fields(5))
  have "keys_grow p ?p1"
  proof (cases "fp_callsign fp \<noteq> frame_callsign ?p0 \<or> now - frame_timestamp ?p0 > 100")
    case True
    show ?thesis by (subst if_P [OF True]) (rule keys_grow_trans [OF a keys_grow_refresh_frame])
  next
    case False
    show ?thesis by (subst if_not_P [OF False]) (rule a)
  qed
  then show ?thesis
    unfolding on_get_tag_item_def Let_def
    using keys_grow_renderers by (auto intro: keys_grow_trans)
qed

text \<open>
  C25: No host event removes a callsign from the coordination tracker or from the match
  timestamps: \<open>CleanupCache\<close> erases neither, so both tables grow with every flight the
  plugin has seen.
\<close>

theorem coordination_keys_never_removed:
  "dom (coordination_states p) \<subseteq> dom (coordination_states (plugin_step p ev)) \<and>
   dom (match_timestamps p) \<subseteq> dom (match_timestamps (plugin_step p ev))"
proof -
  have "keys_grow p (plugin_step p ev)"
    by (cases ev) (simp_all add: keys_grow_tag_item keys_grow_ops)
  then show ?thesis by (simp add: keys_grow_def)
qed


subsection \<open>The frame's match\<close>

text \<open>
  C35: \<open>currentFrameMatchedLOA\<close>, computed by \<open>OnGetTagItem\<close> for every new frame, is never
  read: the detailed XFL and COP items, which run on the frame snapshot, write the same text
  and colour whatever the frame's match is; each applies its own rule predicate instead.
\<close>

theorem frame_match_unused:
  "snd (render_xfl_detailed (p\<lparr>frame_match := m\<rparr>) fp rt) = snd (render_xfl_detailed p fp rt) \<and>
   snd (render_cop (p\<lparr>frame_match := m\<rparr>) fp rt) = snd (render_cop p fp rt)"
proof (intro conjI)
  show "snd (render_xfl_detailed (p\<lparr>frame_match := m\<rparr>) fp rt) = snd (render_xfl_detailed p fp rt)"
    by (simp add: render_xfl_detailed_def Let_def split: option.split)
  show "snd (render_cop (p\<lparr>frame_match := m\<rparr>) fp rt) = snd (render_cop p fp rt)"
    by (simp add: render_cop_def Let_def split: option.split)
qed

end
