(* ===== verification/Spec2Isabelle.thy ===== *)
theory Spec2Isabelle
  imports Plugin
begin

text \<open>
  \<^bold>\<open>A verified model of the LOA plugin (Chross2996/LOA-Plugin).\<close>

  The EuroScope plugin matches a flight plan (origin, destination, filed route, tracking
  controller, altitudes) against five prioritised lists of Letter-of-Agreement rules loaded
  from \<open>loa_configs_json/<sector>.json\<close>, caches the governing rule per callsign, tracks
  exit-level and exit-point coordinations, and renders three tag items: the XFL (1996), the
  detailed XFL (2000) and the coordination point (1997). The host calls the plugin through
  \<open>OnGetTagItem\<close>, \<open>OnFlightPlanStateChange\<close>,
  \<open>OnFlightPlanCoordinationStateChange\<close> and \<open>OnControllerPositionUpdate\<close>; the
  renderers read the rule vectors, the per-frame snapshot and the coordination tracker the
  plugin object holds. The development is a shallow embedding of the C++ sources under
  \<open>src/\<close>, one theory per part, in import order:

  \<^item> \<open>Prelude\<close>: strings as the code compares and prints them (\<open>tolower\<close>,
    \<open>EqualsIgnoreCase\<close>, \<open>_stricmp\<close>, \<open>compare\<close>, \<open>find\<close>, \<open>c_str\<close>,
    \<open>%d\<close>/\<open>%03d\<close>/\<open>std::to_string\<close>, the 16-byte tag buffer), C's truncating
    division, the 64-bit tick, and \<open>first_match\<close>, the first-hit scan the loops share.
  \<^item> \<open>LOA_Types\<close>: \<open>LOAPlugin.h\<close>: \<open>LOAEntry\<close>, the five rule vectors,
    \<open>CoordinationInfo\<close>, \<open>CachedTagData\<close>, the members of \<open>LOAPlugin\<close> as the
    record \<open>plugin\<close>, the tag item codes of \<open>ItemCodes\<close>, and the EuroScope values the code reads (flight-plan and
    coordination states, tag colours, flight plans, radar targets, controllers), modelled
    from the EuroScope interface as the code uses it.
  \<^item> \<open>Airport_Match\<close>: \<open>processAirportList\<close> and \<open>MatchesAirport\<close>
    (LOAPlugin.cpp), refined against the contract \<open>airport_listed\<close> on the raw list.
  \<^item> \<open>Caches\<close>: \<open>GetCachedRoutePoints\<close> (3000-tick window),
    \<open>GetOnlineControllersCached\<close> (5000 ticks, with \<open>HashSetOfStrings\<close> and
    \<open>HashVectorOfStrings\<close> on 64-bit words), the roster loop as a fold over the host's
    list of sessions, \<open>IsControllerOnlineCached\<close>,
    \<open>CleanupCache\<close> and \<open>OnFlightPlanStateChange\<close>.
  \<^item> \<open>Match_Engine\<close>: \<open>MatchLoaEntry\<close> (LoaMatcher.cpp): preconditions, the
    5000-tick result cache keyed by callsign with its 32-bit truncated tick, the scan of the
    four primary lists and the fallback list; \<open>is_governing\<close> is the declarative
    priority specification the scan refines.
  \<^item> \<open>Coordination\<close>: the tracker \<open>coordinationStates\<close>: the host callback
    \<open>OnFlightPlanCoordinationStateChange\<close> and the updates the renderers make.
  \<^item> \<open>Tag_Common\<close>, \<open>Tag_XFL\<close>, \<open>Tag_COP\<close>: the renderers of TagXFL.cpp and
    TagCOP.cpp, each returning the new state and the written text and colour; their
    \<open>matches\<close> lambda, \<open>tryLOA\<close>, and the list loops with their \<open>break\<close>.
  \<^item> \<open>Loader\<close>: \<open>LoadLOAsFromJSON\<close> and \<open>OnControllerPositionUpdate\<close> from
    the parsed configuration on: \<open>parseLOAList\<close> with the nlohmann::json accessors it
    uses, the uncaught \<open>type_error\<close> as a value of \<open>json_error + _\<close>, and the path
    of the sector's file beside the DLL (\<open>config_file_path\<close>, \<open>load_loas_from_fs\<close>).
  \<^item> \<open>Plugin\<close>: \<open>OnGetTagItem\<close> (the per-frame snapshot and the dispatch), the
    constructor, the host events as the datatype \<open>event\<close> with the step function
    \<open>plugin_step\<close>, the reachable states as an inductive predicate, and their invariant.
  \<^item> This theory: the example rules, flight and plugin the witnesses evaluate on; the
    specification's scenarios (LENDY, the minimum-altitude fallback, a type error in the second
    list) are witnesses of the general theorems they instantiate.

  Every operation that changes the plugin's state takes the state record and returns the
  new one with its result; the tick of \<open>GetTickCount64\<close> is an argument, one value per
  handler call (the code reads it up to three times within a call, a few ticks apart).
  Rule pointers are modelled as (generation, category, index): a reload destroys the
  vectors, and the generation records which storage a pointer was taken from, so a pointer
  taken before a reload is told apart from one into the live rules. Every loop over the
  plugin's own data is over a finite list and every recursion is structural, so no fuel is
  needed and those operations are total, executable functions; the witnesses evaluate them
  with \<open>simp\<close>. The one loop the host drives, the roster walk with
  \<open>ControllerSelectNext\<close>, is taken over the host's finite list of sessions: nothing in
  the code bounds it, so its termination is the host's.

  The lemmas show: the scan returns exactly the governing rule and the match cache is
  idempotent within its window (\<open>Match_Engine\<close>); the states the host can reach keep the
  route cache consistent, the airport index of every rule, and every live-generation
  reference in range (\<open>Plugin\<close>); the cache window on the truncated tick; a match is rescanned over the current route once its
  windows have run out; the renderers' predicate equals the engine's away from the
  next-sector gates; the coordination scenarios of the renderers
  (acceptance, promotion, the interleaving with the host callback); the \<open>break\<close> and
  \<open>tryLOA\<close> semantics; the error paths of the loader; and where the code departs from
  its specification (the stale reference after a reload, the DWORD-truncated tick, the
  empty airport code, the gates the renderers and the engine apply differently, the
  tables that are never cleaned).

  Not modelled: the JSON text parser (nlohmann's; the file system maps a path to a missing,
  malformed or parsed file), \<open>GetModuleFileNameA\<close> (the DLL path is a parameter),
  \<open>DisplayUserMessage\<close>, \<open>RegisterTagItemType\<close>, and the colour and font outputs
  \<open>pRGB\<close>/\<open>pFontSize\<close> (never written); the iteration order of an \<open>unordered_set\<close> is taken as insertion order, which no
  result depends on. The overflow of \<open>entry.xfl * 100\<close> for configured levels above
  21474836 is undefined behaviour in C++ and is computed here on unbounded integers.
\<close>

definition ex_entry :: loa_entry where
  "ex_entry =
     default_loa_entry\<lparr>destination_airports := [''KJFK''], destination_airport_set := {''KJFK''},
       waypoints := [''LENDY''], xfl := 140, cop_text := ''LENDY''\<rparr>"

definition ex_fp :: flight_plan where
  "ex_fp =
     \<lparr>fp_valid = True, fp_callsign = ''DAL1'', fp_state = FpAssumed, plan_type = ''I'',
      fp_origin = ''KBOS'', fp_destination = ''KJFK'', cleared_altitude = 16000,
      final_altitude = 16000, extracted_route = [''BOS'', ''lendy'', ''KJFK''],
      tracking_controller_id = ''NY'', exit_coord_altitude = 0, exit_coord_altitude_state = CoordNone,
      exit_coord_point_name = [], exit_coord_name_state = CoordNone\<rparr>"

definition ex_plugin :: plugin where
  "ex_plugin = init_plugin\<lparr>rules := empty_rules\<lparr>destination_loas := [ex_entry]\<rparr>\<rparr>"

definition ex_rt :: radar_target where
  "ex_rt = \<lparr>rt_valid = True, rt_correlated_valid = True\<rparr>"

definition ex_fallback :: loa_entry where
  "ex_fallback = default_loa_entry\<lparr>min_altitude_ft := 24500, cop_text := ''FBK''\<rparr>"

lemmas ex_defs = ex_entry_def ex_fp_def ex_plugin_def ex_rt_def ex_fallback_def

theorem loa_scan_governing_witness:
  "loa_scan (rules ex_plugin) 0 (\<lambda>e. waypoints e \<noteq> []) (\<lambda>_. False) = Some (mk_ref 0 DestinationLoas 0) \<and>
   is_governing (rules ex_plugin) (\<lambda>e. waypoints e \<noteq> []) (\<lambda>_. False) DestinationLoas 0"
proof -
  have s: "loa_scan (rules ex_plugin) 0 (\<lambda>e. waypoints e \<noteq> []) (\<lambda>_. False) = Some (mk_ref 0 DestinationLoas 0)"
    by (simp add: loa_defs ex_defs)
  then have "ref_gen (mk_ref 0 DestinationLoas 0) = 0 \<and>
      is_governing (rules ex_plugin) (\<lambda>e. waypoints e \<noteq> []) (\<lambda>_. False)
        (ref_cat (mk_ref 0 DestinationLoas 0)) (ref_idx (mk_ref 0 DestinationLoas 0))"
    by (rule loa_scan_governing [THEN iffD1])
  with s show ?thesis by (simp add: mk_ref_def)
qed

theorem match_loa_entry_idempotent_witness:
  "match_loa_entry (fst (match_loa_entry ex_plugin ex_fp [] 1000)) ex_fp [''EGTT''] 3000 =
     match_loa_entry ex_plugin ex_fp [] 1000 \<and>
   snd (match_loa_entry ex_plugin ex_fp [] 1000) = Some (mk_ref 0 DestinationLoas 0)"
proof -
  have ts: "match_timestamps (fst (match_loa_entry ex_plugin ex_fp [] 1000)) (fp_callsign ex_fp) = Some 1000"
    by (simp add: loa_defs ex_defs)
  have w: "dword_tick 3000 - 1000 < 5000"
    by (simp add: dword_tick_def)
  have r: "snd (match_loa_entry ex_plugin ex_fp [] 1000) = Some (mk_ref 0 DestinationLoas 0)"
    by (simp add: loa_defs ex_defs)
  have "match_loa_entry (fst (match_loa_entry ex_plugin ex_fp [] 1000)) ex_fp [''EGTT''] 3000 =
      (fst (match_loa_entry ex_plugin ex_fp [] 1000), snd (match_loa_entry ex_plugin ex_fp [] 1000))"
    by (rule match_loa_entry_idempotent [OF prod.collapse [symmetric] ts w])
  then have "match_loa_entry (fst (match_loa_entry ex_plugin ex_fp [] 1000)) ex_fp [''EGTT''] 3000 =
      match_loa_entry ex_plugin ex_fp [] 1000"
    by (simp only: prod.collapse)
  with r show ?thesis by blast
qed

theorem airport_index_partition_witness:
  "process_airport_list [''KJFK'', ''EG'', ''LFPG''] {} [] = ({''KJFK'', ''LFPG''}, [''EG'']) \<and>
   {''KJFK'', ''LFPG''} \<inter> set [''EG''] = {} \<and> [''EG''] = filter (\<lambda>a. length a \<noteq> 4) [''KJFK'', ''EG'', ''LFPG'']"
proof -
  have h: "process_airport_list [''KJFK'', ''EG'', ''LFPG''] {} [] = ({''KJFK'', ''LFPG''}, [''EG''])"
    by (simp add: insert_commute)
  from airport_index_partition [OF h] h show ?thesis by simp
qed

theorem empty_code_matches_any_airport_witness:
  "[] \<in> set [''KJFK'', []] \<and>
   matches_airport (fst (process_airport_list [''KJFK'', []] {} [])) (snd (process_airport_list [''KJFK'', []] {} []))
     ''LFPG''"
proof -
  have h: "[] \<in> set [''KJFK'', []]" by simp
  from h empty_code_matches_any_airport [OF h, of "''LFPG''"] show ?thesis by blast
qed

theorem waypoints_match_iff_witness:
  "waypoints_match equals_ignore_case [''LENDY''] [''BOS'', ''lendy''] \<and>
   (\<exists>r. r \<in> set [''BOS'', ''lendy''] \<and> lower r = lower ''LENDY'') \<and>
   \<not> waypoints_match equals_ignore_case [''LENDY'', ''MERIT''] [''BOS'', ''lendy'']"
proof -
  have h: "waypoints_match equals_ignore_case [''LENDY''] [''BOS'', ''lendy'']"
    by (simp add: loa_defs)
  have n: "\<not> (\<exists>r \<in> set [''BOS'', ''lendy'']. lower r = lower ''MERIT'')"
    by (simp add: loa_defs)
  have "\<not> waypoints_match equals_ignore_case [''LENDY'', ''MERIT''] [''BOS'', ''lendy'']"
    using n by (simp only: waypoints_match_iff) simp
  with h waypoints_match_iff [THEN iffD1, OF h] show ?thesis by auto
qed

theorem tag_text_fits_witness:
  "out_text (snd (on_get_tag_item ex_plugin ex_fp ex_rt 2000 [] 500)) = Some ''140'' \<and> length ''140'' \<le> (15::nat)"
proof -
  have h: "out_text (snd (on_get_tag_item ex_plugin ex_fp ex_rt 2000 [] 500)) = Some ''140''"
    by (simp add: loa_defs ex_defs nat_digits.simps char_of_def bit_0)
  from h tag_text_fits [OF h] show ?thesis by blast
qed

theorem parse_loa_entry_xfl_wraps_witness:
  "parse_loa_entry (JObject [(''xfl'', JInt (2 ^ 32 + 140))]) = Inr (default_loa_entry\<lparr>xfl := 140\<rparr>) \<and>
   json_at (JObject [(''xfl'', JInt (2 ^ 32 + 140))]) ''xfl'' = JInt (2 ^ 32 + 140) \<and>
   xfl (default_loa_entry\<lparr>xfl := 140\<rparr>) mod 2 ^ 32 = (2 ^ 32 + 140) mod 2 ^ 32"
proof -
  have h: "parse_loa_entry (JObject [(''xfl'', JInt (2 ^ 32 + 140))]) = Inr (default_loa_entry\<lparr>xfl := 140\<rparr>)"
    "json_at (JObject [(''xfl'', JInt (2 ^ 32 + 140))]) ''xfl'' = JInt (2 ^ 32 + 140)"
    by (simp_all add: parse_loa_entry_def opt_field_def sum_bind_def)
  from h parse_loa_entry_xfl_wraps [OF h] show ?thesis by blast
qed

theorem reachable_plugin_inv_witness:
  "reachable (plugin_step (construct_plugin ''EDMM'' NoFile) (EvTagItem ex_fp ex_rt 2000 [] 500)) \<and>
   plugin_inv (plugin_step (construct_plugin ''EDMM'' NoFile) (EvTagItem ex_fp ex_rt 2000 [] 500))"
proof -
  have h: "reachable (plugin_step (construct_plugin ''EDMM'' NoFile) (EvTagItem ex_fp ex_rt 2000 [] 500))"
    by (rule reachable.step [OF reachable.start])
  from h reachable_plugin_inv [OF h] show ?thesis by blast
qed

theorem departure_xfl_roundtrip_witness:
  "0 \<le> xfl ex_entry \<and> xfl ex_entry < 2 ^ 31 \<and> (12000::int) \<le> xfl ex_entry * 100 \<and>
   xfl ex_entry * 100 < (35000::int) \<and>
   int (digits_value (tag_copy (departure_xfl 12000 35000 ex_entry))) = xfl ex_entry"
proof -
  have h: "0 \<le> xfl ex_entry" "xfl ex_entry < 2 ^ 31" "(12000::int) \<le> xfl ex_entry * 100"
    "xfl ex_entry * 100 < (35000::int)"
    by (simp_all add: ex_defs)
  from h departure_xfl_roundtrip [OF h] show ?thesis by blast
qed

theorem tracking_controller_gate_witness:
  "next_sectors (ex_entry\<lparr>next_sectors := [''EDMM'']\<rparr>) \<noteq> [] \<and>
   \<not> list_ex (\<lambda>ns. equals_ignore_case ns ''EDGG'') (next_sectors (ex_entry\<lparr>next_sectors := [''EDMM'']\<rparr>)) \<and>
   \<not> loa_entry_matches [''EDMM''] ''KBOS'' ''KJFK'' ''EDGG'' [''LENDY''] (ex_entry\<lparr>next_sectors := [''EDMM'']\<rparr>)"
proof -
  have h1: "next_sectors (ex_entry\<lparr>next_sectors := [''EDMM'']\<rparr>) \<noteq> []" by simp
  have h2: "\<not> list_ex (\<lambda>ns. equals_ignore_case ns ''EDGG'') (next_sectors (ex_entry\<lparr>next_sectors := [''EDMM'']\<rparr>))"
    by (simp add: loa_defs)
  from h1 h2 tracking_controller_gate [OF h1 h2] show ?thesis by blast
qed

theorem cleanup_forces_rescan_witness:
  "fp_valid (ex_fp\<lparr>fp_state := FpNonConcerned\<rparr>) \<and>
   (fp_state (ex_fp\<lparr>fp_state := FpNonConcerned\<rparr>) = FpNonConcerned \<or> fp_state (ex_fp\<lparr>fp_state := FpNonConcerned\<rparr>) = FpRedundant) \<and>
   fp_callsign ex_fp = fp_callsign (ex_fp\<lparr>fp_state := FpNonConcerned\<rparr>) \<and> fp_valid ex_fp \<and>
   is_loa_relevant_state (fp_state ex_fp) \<and> is_ifr ex_fp \<and>
   snd (match_loa_entry (on_flight_plan_state_change (fst (match_loa_entry ex_plugin ex_fp [] 1000))
          (ex_fp\<lparr>fp_state := FpNonConcerned\<rparr>)) ex_fp [] 1200) =
     loa_scan (rules ex_plugin) (rules_gen ex_plugin)
       (loa_entry_matches [] (fp_origin ex_fp) (fp_destination ex_fp) (tracking_controller_id ex_fp) (extracted_route ex_fp))
       (fallback_matches (cleared_altitude ex_fp) (fp_destination ex_fp) (extracted_route ex_fp))"
proof -
  let ?p = "fst (match_loa_entry ex_plugin ex_fp [] 1000)"
  let ?fp = "ex_fp\<lparr>fp_state := FpNonConcerned\<rparr>"
  have h: "fp_valid ?fp" "fp_state ?fp = FpNonConcerned \<or> fp_state ?fp = FpRedundant"
    "fp_callsign ex_fp = fp_callsign ?fp" "fp_valid ex_fp" "is_loa_relevant_state (fp_state ex_fp)" "is_ifr ex_fp"
    by (simp_all add: loa_defs ex_defs)
  have r: "rules ?p = rules ex_plugin" "rules_gen ?p = rules_gen ex_plugin"
    by (simp_all add: loa_defs ex_defs)
  from h cleanup_forces_rescan [OF h, of ?p "[]" 1200] r show ?thesis by simp
qed

theorem load_open_error_no_retry_witness:
  "''EDMM'' \<noteq> [] \<and> ''EDMM'' \<noteq> loaded_sector init_plugin \<and>
   load_loas_from_json init_plugin ''EDMM'' NoFile = (init_plugin\<lparr>loaded_sector := ''EDMM''\<rparr>, LoadOpenError) \<and>
   on_controller_position_update (init_plugin\<lparr>loaded_sector := ''EDMM''\<rparr>) ''EDGG'' ''EDMM''
     (Parsed (JObject [])) = (init_plugin\<lparr>loaded_sector := ''EDMM''\<rparr>, LoadSkipped)"
proof -
  have h: "''EDMM'' \<noteq> []" "''EDMM'' \<noteq> loaded_sector init_plugin" by (simp_all add: init_plugin_def)
  from h load_open_error_no_retry [OF h, of "''EDGG''" "Parsed (JObject [])"] show ?thesis by blast
qed

theorem load_parse_error_keeps_rules_witness:
  "load_loas_from_json ex_plugin ''EDMM'' Malformed = (ex_plugin\<lparr>loaded_sector := ''EDMM''\<rparr>, LoadParseError) \<and>
   rules (ex_plugin\<lparr>loaded_sector := ''EDMM''\<rparr>) = rules ex_plugin"
proof -
  have h: "load_loas_from_json ex_plugin ''EDMM'' Malformed = (ex_plugin\<lparr>loaded_sector := ''EDMM''\<rparr>, LoadParseError)"
    by (simp add: load_loas_from_json_def ex_defs init_plugin_def)
  from h load_parse_error_keeps_rules [OF h] show ?thesis by blast
qed

theorem renderer_gate_divergence_witness:
  "require_next_sector_online (ex_entry\<lparr>require_next_sector_online := True\<rparr>) \<and>
   next_sectors (ex_entry\<lparr>require_next_sector_online := True\<rparr>) = [] \<and>
   \<not> tag_entry_matches [] ''KBOS'' ''KJFK'' [''LENDY''] (ex_entry\<lparr>require_next_sector_online := True\<rparr>) \<and>
   loa_entry_matches [] ''KBOS'' ''KJFK'' ''NY'' [''LENDY''] (ex_entry\<lparr>require_next_sector_online := True\<rparr>)"
proof -
  let ?e = "ex_entry\<lparr>require_next_sector_online := True\<rparr>"
  have h: "require_next_sector_online ?e" "next_sectors ?e = []" by (simp_all add: ex_defs loa_defs)
  have m: "loa_entry_matches [] ''KBOS'' ''KJFK'' ''NY'' [''LENDY''] (?e\<lparr>require_next_sector_online := False\<rparr>)"
    by (simp add: ex_defs loa_defs)
  from h m renderer_gate_divergence [OF h, of "[]" "''KBOS''" "''KJFK''" "[''LENDY'']" "''NY''"]
  show ?thesis by blast
qed

theorem try_loa_None_iff_witness:
  "try_loa (\<lambda>e. xfl e = 140) 16000 16000 False [default_loa_entry, ex_entry] = Some ''140'' \<and>
   list_ex (\<lambda>e. xfl e = 140) [default_loa_entry, ex_entry]"
proof -
  have s: "try_loa (\<lambda>e. xfl e = 140) 16000 16000 False [default_loa_entry, ex_entry] = Some ''140''"
    by (simp add: loa_defs ex_defs nat_digits.simps char_of_def bit_0)
  have "\<not> \<not> list_ex (\<lambda>e. xfl e = 140) [default_loa_entry, ex_entry]"
  proof
    assume "\<not> list_ex (\<lambda>e. xfl e = 140) [default_loa_entry, ex_entry]"
    then have "try_loa (\<lambda>e. xfl e = 140) 16000 16000 False [default_loa_entry, ex_entry] = None"
      by (rule try_loa_None_iff [THEN iffD2])
    with s show False by simp
  qed
  with s show ?thesis by blast
qed


theorem cop_promotion_witness:
  "snd (render_cop (fst (render_cop ex_plugin
          (ex_fp\<lparr>exit_coord_point_name := ''ROBUC'', exit_coord_name_state := RequestedByOther\<rparr>) ex_rt))
        (ex_fp\<lparr>exit_coord_point_name := ''ROBUC'', exit_coord_name_state := RequestedByOther,
               exit_coord_name_state := CoordNone\<rparr>) ex_rt) =
   show_colored ''ROBUC'' ColorRequestAccepted"
proof -
  let ?fp = "ex_fp\<lparr>exit_coord_point_name := ''ROBUC'', exit_coord_name_state := RequestedByOther\<rparr>"
  have h: "rt_valid ex_rt" "rt_correlated_valid ex_rt" "is_loa_relevant_state (fp_state ?fp)" "is_ifr ?fp"
    "exit_coord_point_name ?fp = ''ROBUC''" "''ROBUC'' \<noteq> []"
    "exit_coord_name_state ?fp = RequestedByMe \<or> exit_coord_name_state ?fp = RequestedByOther"
    by (simp_all add: ex_defs loa_defs)
  show ?thesis by (rule cop_promotion [OF h])
qed

theorem cop_break_witness:
  "List.find (\<lambda>_. True) (departure_loas (empty_rules\<lparr>departure_loas := [ex_entry, ex_entry\<lparr>xfl := 400, cop_text := ''ROBUC''\<rparr>]\<rparr>)) = Some ex_entry \<and>
   \<not> (16000::int) \<le> xfl ex_entry * 100 \<and>
   cop_rules (empty_rules\<lparr>departure_loas := [ex_entry, ex_entry\<lparr>xfl := 400, cop_text := ''ROBUC''\<rparr>]\<rparr>) (\<lambda>_. True) (\<lambda>_. False) 16000 = ''COPX''"
proof -
  let ?r = "empty_rules\<lparr>departure_loas := [ex_entry, ex_entry\<lparr>xfl := 400, cop_text := ''ROBUC''\<rparr>]\<rparr>"
  have h: "List.find (\<lambda>_. True) (departure_loas ?r) = Some ex_entry" "\<not> (16000::int) \<le> xfl ex_entry * 100"
    by (simp_all add: ex_defs)
  have "cop_rules (?r\<lparr>departure_loas := []\<rparr>) (\<lambda>_. True) (\<lambda>_. False) 16000 = ''COPX''"
    by (simp add: cop_rules_def cop_first_def empty_rules_def)
  with h cop_break [OF h, of "\<lambda>_. False"] show ?thesis by simp
qed

theorem xfl_detailed_acceptance_witness:
  "snd (render_xfl_detailed (fst (render_xfl_detailed ex_plugin
          (ex_fp\<lparr>exit_coord_altitude := 35000, exit_coord_altitude_state := RequestedByMe\<rparr>) ex_rt))
        (ex_fp\<lparr>exit_coord_altitude := 35000, exit_coord_altitude_state := RequestedByMe,
               exit_coord_altitude_state := CoordNone\<rparr>) ex_rt) =
   show_colored (fmt_03d (cdiv 35000 100)) ColorRequestAccepted"
proof -
  let ?fp = "ex_fp\<lparr>exit_coord_altitude := 35000, exit_coord_altitude_state := RequestedByMe\<rparr>"
  have h: "rt_valid ex_rt" "rt_correlated_valid ex_rt" "fp_valid ?fp" "is_loa_relevant_state (fp_state ?fp)"
    "is_ifr ?fp" "exit_coord_altitude ?fp = 35000" "500 \<le> (35000::int)"
    "exit_coord_altitude_state ?fp = RequestedByMe \<or> exit_coord_altitude_state ?fp = RequestedByOther"
    by (simp_all add: ex_defs loa_defs)
  show ?thesis by (rule xfl_detailed_acceptance [OF h])
qed

theorem xfl_simple_acceptance_uncoloured_witness:
  "snd (render_xfl (fst (render_xfl ex_plugin
          (ex_fp\<lparr>exit_coord_altitude := 35000, exit_coord_altitude_state := RequestedByOther\<rparr>) ex_rt [] 500))
        (ex_fp\<lparr>exit_coord_altitude := 35000, exit_coord_altitude_state := RequestedByOther,
               exit_coord_altitude_state := CoordNone\<rparr>) ex_rt [] 600) =
   show_text (fmt_03d (cdiv 35000 100))"
proof -
  let ?fp = "ex_fp\<lparr>exit_coord_altitude := 35000, exit_coord_altitude_state := RequestedByOther\<rparr>"
  have h: "rt_valid ex_rt" "rt_correlated_valid ex_rt" "fp_state ?fp = FpAssumed"
    "is_ifr ?fp" "exit_coord_altitude ?fp = 35000" "500 \<le> (35000::int)"
    "exit_coord_altitude_state ?fp = RequestedByMe \<or> exit_coord_altitude_state ?fp = RequestedByOther"
    by (simp_all add: ex_defs loa_defs)
  show ?thesis by (rule xfl_simple_acceptance_uncoloured [OF h])
qed

theorem coordination_callback_defeats_acceptance_witness:
  "out_color (snd (render_xfl_detailed
     (on_coordination_state_change
        (fst (render_xfl_detailed (ex_plugin\<lparr>last_tag_data := default_tag_data\<lparr>ctd_callsign := ''DAL1''\<rparr>\<rparr>)
           (ex_fp\<lparr>exit_coord_altitude := 35000, exit_coord_altitude_state := RequestedByMe\<rparr>) ex_rt))
        (ex_fp\<lparr>exit_coord_altitude := 35000, exit_coord_altitude_state := RequestedByMe\<rparr>) CoordTypeAltitude CoordNone)
     (ex_fp\<lparr>exit_coord_altitude := 35000, exit_coord_altitude_state := RequestedByMe,
            exit_coord_altitude_state := CoordNone\<rparr>) ex_rt)) = None"
proof -
  let ?fp = "ex_fp\<lparr>exit_coord_altitude := 35000, exit_coord_altitude_state := RequestedByMe\<rparr>"
  let ?p = "ex_plugin\<lparr>last_tag_data := default_tag_data\<lparr>ctd_callsign := ''DAL1''\<rparr>\<rparr>"
  have h: "rt_valid ex_rt" "rt_correlated_valid ex_rt" "fp_valid ?fp" "is_loa_relevant_state (fp_state ?fp)"
    "is_ifr ?fp" "ctd_callsign (last_tag_data ?p) = fp_callsign ?fp" "CoordNone \<noteq> RequestedByMe"
    by (simp_all add: ex_defs loa_defs)
  show ?thesis by (rule coordination_callback_defeats_acceptance [OF h])
qed

theorem reload_serves_stale_reference_witness:
  "match_loa_entry (fst (load_loas_from_json (fst (match_loa_entry ex_plugin ex_fp [] 1000)) ''EDGG''
        (Parsed (JObject [])))) ex_fp [] 2000 =
     (fst (load_loas_from_json (fst (match_loa_entry ex_plugin ex_fp [] 1000)) ''EDGG'' (Parsed (JObject []))),
      Some (mk_ref 0 DestinationLoas 0)) \<and>
   deref (rules (fst (load_loas_from_json (fst (match_loa_entry ex_plugin ex_fp [] 1000)) ''EDGG'' (Parsed (JObject [])))))
     (rules_gen (fst (load_loas_from_json (fst (match_loa_entry ex_plugin ex_fp [] 1000)) ''EDGG'' (Parsed (JObject [])))))
     (mk_ref 0 DestinationLoas 0) = None"
proof -
  let ?p = "fst (match_loa_entry ex_plugin ex_fp [] 1000)"
  have h1: "fp_valid ex_fp" "is_loa_relevant_state (fp_state ex_fp)" "is_ifr ex_fp"
    by (simp_all add: ex_defs loa_defs)
  have h2: "matched_cache ?p (fp_callsign ex_fp) = Some (Some (mk_ref 0 DestinationLoas 0))"
    "ref_gen (mk_ref 0 DestinationLoas 0) \<le> rules_gen ?p"
    "match_timestamps ?p (fp_callsign ex_fp) = Some 1000" "dword_tick 2000 - 1000 < 5000"
    "''EDGG'' \<noteq> []" "''EDGG'' \<noteq> loaded_sector ?p"
    by (simp_all add: ex_defs loa_defs init_plugin_def)
  show ?thesis
    by (rule reload_serves_stale_reference [OF h1 h2 prod.collapse [symmetric]])
qed

theorem renderer_matches_engine_witness:
  "waypoints ex_entry = [''LENDY''] \<and> CHR 0x00 \<notin> set ''LENDY'' \<and> CHR 0x00 \<notin> set ''BOS'' \<and>
   CHR 0x00 \<notin> set ''lendy'' \<and> next_sectors ex_entry = [] \<and> \<not> require_next_sector_online ex_entry \<and>
   tag_entry_matches [] ''KBOS'' ''KJFK'' [''BOS'', ''lendy''] ex_entry \<and>
   loa_entry_matches [] ''KBOS'' ''KJFK'' ''NY'' [''BOS'', ''lendy''] ex_entry"
proof -
  have h: "\<forall>x \<in> set (waypoints ex_entry) \<union> set [''BOS'', ''lendy'']. CHR 0x00 \<notin> set x"
    "next_sectors ex_entry = []" "\<not> require_next_sector_online ex_entry" by (simp_all add: ex_defs loa_defs)
  have t: "tag_entry_matches [] ''KBOS'' ''KJFK'' [''BOS'', ''lendy''] ex_entry"
    by (simp add: loa_defs ex_defs)
  have l: "loa_entry_matches [] ''KBOS'' ''KJFK'' ''NY'' [''BOS'', ''lendy''] ex_entry"
    using renderer_matches_engine [OF h, of "[]" "''KBOS''" "''KJFK''" "''NY''"] t by simp
  from h t l show ?thesis by (simp add: ex_defs)
qed

theorem match_refreshes_after_windows_witness:
  "fp_valid ex_fp \<and> is_loa_relevant_state (fp_state ex_fp) \<and> is_ifr ex_fp \<and>
   match_timestamps (fst (match_loa_entry ex_plugin ex_fp [] 1000)) (fp_callsign ex_fp) = Some 1000 \<and>
   5000 \<le> dword_tick 7000 - 1000 \<and>
   route_cache_time (fst (match_loa_entry ex_plugin ex_fp [] 1000)) (fp_callsign ex_fp) = Some 1000 \<and>
   3000 \<le> (7000::tick) - 1000 \<and>
   snd (match_loa_entry (fst (match_loa_entry ex_plugin ex_fp [] 1000)) (ex_fp\<lparr>extracted_route := [''BOS'']\<rparr>) [] 7000) =
     loa_scan (rules ex_plugin) (rules_gen ex_plugin)
       (loa_entry_matches [] (fp_origin ex_fp) (fp_destination ex_fp) (tracking_controller_id ex_fp) [''BOS''])
       (fallback_matches (cleared_altitude ex_fp) (fp_destination ex_fp) [''BOS''])"
proof -
  let ?p = "fst (match_loa_entry ex_plugin ex_fp [] 1000)"
  let ?fp = "ex_fp\<lparr>extracted_route := [''BOS'']\<rparr>"
  have h1: "fp_valid ?fp" "is_loa_relevant_state (fp_state ?fp)" "is_ifr ?fp"
    by (simp_all add: ex_defs loa_defs)
  have h2: "match_timestamps ?p (fp_callsign ?fp) = Some 1000" "5000 \<le> dword_tick 7000 - 1000"
    "route_cache_time ?p (fp_callsign ?fp) = Some 1000" "3000 \<le> (7000::tick) - 1000"
    by (simp_all add: ex_defs loa_defs)
  have r: "rules ?p = rules ex_plugin" "rules_gen ?p = rules_gen ex_plugin"
    by (simp_all add: loa_defs ex_defs)
  from h1 h2 r match_refreshes_after_windows [OF h1 h2, of "[]"] show ?thesis
    by (simp add: ex_defs loa_defs)
qed

theorem parse_loa_list_wellformed_witness:
  "parse_loa_list (JArray [JObject [(''destinations'', JArray [JString ''KJFK'', JString ''EG''])]]) =
     Inr [default_loa_entry\<lparr>destination_airports := [''KJFK'', ''EG''], destination_airport_set := {''KJFK''},
            destination_airport_prefixes := [''EG'']\<rparr>] \<and>
   length [default_loa_entry\<lparr>destination_airports := [''KJFK'', ''EG''], destination_airport_set := {''KJFK''},
            destination_airport_prefixes := [''EG'']\<rparr>] = 1 \<and>
   list_all entry_index_ok [default_loa_entry\<lparr>destination_airports := [''KJFK'', ''EG''], destination_airport_set := {''KJFK''},
            destination_airport_prefixes := [''EG'']\<rparr>]"
proof -
  have h: "parse_loa_list (JArray [JObject [(''destinations'', JArray [JString ''KJFK'', JString ''EG''])]]) =
     Inr [default_loa_entry\<lparr>destination_airports := [''KJFK'', ''EG''], destination_airport_set := {''KJFK''},
            destination_airport_prefixes := [''EG'']\<rparr>]"
    by (simp add: parse_loa_list_def parse_loa_entry_def opt_field_def sum_bind_def set_destinations_def
        default_loa_entry_def)
  from h parse_loa_list_wellformed [OF h] show ?thesis by simp
qed

theorem config_file_path_next_to_dll_witness:
  "\<not> list_ex is_path_sep ''LOA.dll'' \<and> is_path_sep (CHR 0x5C) \<and>
   config_file_path (''C:'' @ [CHR 0x5C] @ ''ES'' @ CHR 0x5C # ''LOA.dll'') ''EDMM'' =
     (''C:'' @ [CHR 0x5C] @ ''ES'') @ [CHR 0x5C] @ ''loa_configs_json'' @ [CHR 0x5C] @ ''EDMM'' @ ''.json''"
proof -
  have h: "\<not> list_ex is_path_sep ''LOA.dll''" "is_path_sep (CHR 0x5C)" by (simp_all add: is_path_sep_def)
  from h config_file_path_next_to_dll [OF h, of "''C:'' @ [CHR 0x5C] @ ''ES''" "''EDMM''"] show ?thesis by simp
qed

theorem xfl_departure_boundary_divergence_witness:
  "List.find (\<lambda>_. True) (departure_loas (empty_rules\<lparr>departure_loas := [ex_entry]\<rparr>)) = Some ex_entry \<and>
   (14000::int) = xfl ex_entry * 100 \<and> (14000::int) < 35000 \<and>
   xfl_simple_rules (empty_rules\<lparr>departure_loas := [ex_entry]\<rparr>) (\<lambda>_. True) 14000 35000 = [] \<and>
   xfl_detailed_rules (empty_rules\<lparr>departure_loas := [ex_entry]\<rparr>) (\<lambda>_. True) (\<lambda>_. False) 14000 35000 =
     int_to_string 140"
proof -
  have h: "List.find (\<lambda>_. True) (departure_loas (empty_rules\<lparr>departure_loas := [ex_entry]\<rparr>)) = Some ex_entry"
    "(14000::int) = xfl ex_entry * 100" "(14000::int) < 35000" by (simp_all add: ex_defs)
  from h xfl_departure_boundary_divergence [OF h, of "\<lambda>_. False"] show ?thesis by (simp add: ex_defs)
qed



theorem match_cache_window_iff_witness:
  "match_loa_entry (fst (match_loa_entry ex_plugin ex_fp [] 1000)) ex_fp [] 3000 =
     (fst (match_loa_entry ex_plugin ex_fp [] 1000), Some (mk_ref 0 DestinationLoas 0)) \<and>
   match_loa_entry (fst (match_loa_entry ex_plugin ex_fp [] 1000)) ex_fp [] 7000 \<noteq>
     (fst (match_loa_entry ex_plugin ex_fp [] 1000), Some (mk_ref 0 DestinationLoas 0))"
proof -
  let ?p = "fst (match_loa_entry ex_plugin ex_fp [] 1000)"
  have fp: "fp_valid ex_fp" "is_loa_relevant_state (fp_state ex_fp)" "is_ifr ex_fp"
    by (simp_all add: ex_defs loa_defs)
  have ts: "match_timestamps ?p (fp_callsign ex_fp) = Some (dword_tick 1000)"
    and m: "matched_cache ?p (fp_callsign ex_fp) = Some (Some (mk_ref 0 DestinationLoas 0))"
    by (simp_all add: ex_defs loa_defs)
  have in3: "unat (1000::tick) mod 2 ^ 32 \<le> unat (3000::tick) mod 2 ^ 32 \<and>
      unat (3000::tick) mod 2 ^ 32 - unat (1000::tick) mod 2 ^ 32 < 5000" by simp
  have out7: "\<not> (unat (1000::tick) mod 2 ^ 32 \<le> unat (7000::tick) mod 2 ^ 32 \<and>
      unat (7000::tick) mod 2 ^ 32 - unat (1000::tick) mod 2 ^ 32 < 5000)" by simp
  from in3 out7 match_cache_window_iff [OF fp ts m, of "[]" 3000] match_cache_window_iff [OF fp ts m, of "[]" 7000]
  show ?thesis by blast
qed

theorem online_refresh_content_witness:
  "(0 - last_online_fetch init_plugin > 5000 \<or> cached_online init_plugin = []) \<and>
   snd (get_online_controllers_cached init_plugin
      [\<lparr>ctrl_callsign = ''EDMM_CTR'', ctrl_position_id = ''EDMM''\<rparr>,
       \<lparr>ctrl_callsign = ''EDDM_TWR'', ctrl_position_id = ''T''\<rparr>,
       \<lparr>ctrl_callsign = ''EDMM_APP'', ctrl_position_id = []\<rparr>] 0) = [[], ''EDMM''] \<and>
   set [[], ''EDMM''] =
     ctrl_position_id ` {c \<in> set [\<lparr>ctrl_callsign = ''EDMM_CTR'', ctrl_position_id = ''EDMM''\<rparr>,
       \<lparr>ctrl_callsign = ''EDDM_TWR'', ctrl_position_id = ''T''\<rparr>,
       \<lparr>ctrl_callsign = ''EDMM_APP'', ctrl_position_id = []\<rparr>]. ctrl_callsign c \<noteq> [] \<and>
       (sublist ''_CTR'' (ctrl_callsign c) \<or> sublist ''_APP'' (ctrl_callsign c))}"
proof -
  let ?roster = "[\<lparr>ctrl_callsign = ''EDMM_CTR'', ctrl_position_id = ''EDMM''\<rparr>,
       \<lparr>ctrl_callsign = ''EDDM_TWR'', ctrl_position_id = ''T''\<rparr>,
       \<lparr>ctrl_callsign = ''EDMM_APP'', ctrl_position_id = []\<rparr>]"
  have h: "0 - last_online_fetch init_plugin > 5000 \<or> cached_online init_plugin = []"
    by (simp add: init_plugin_def)
  have v: "snd (get_online_controllers_cached init_plugin ?roster 0) = [[], ''EDMM'']"
    by (simp add: loa_defs init_plugin_def)
  from h v online_refresh_content [OF h, of ?roster] show ?thesis by simp
qed


theorem load_type_error_partial_witness:
  "load_loas_from_json init_plugin ''EDMM''
     (Parsed (JObject [(''destinationLoas'', JArray [JObject [(''xfl'', JInt 140)]]),
                       (''departureLoas'', JArray [JObject [(''xfl'', JString ''140'')]]),
                       (''fallbackLoas'', JArray [JObject []])])) =
   (init_plugin\<lparr>loaded_sector := ''EDMM'', rules := empty_rules\<lparr>destination_loas := [default_loa_entry\<lparr>xfl := 140\<rparr>]\<rparr>,
       rules_gen := 1\<rparr>, LoadTypeError (TypeMustBe ''number'')) \<and>
   (\<exists>pre k upd post. config_keys = pre @ (k, upd) # post \<and>
      json_contains (JObject [(''destinationLoas'', JArray [JObject [(''xfl'', JInt 140)]]),
                       (''departureLoas'', JArray [JObject [(''xfl'', JString ''140'')]]),
                       (''fallbackLoas'', JArray [JObject []])]) k \<and>
      load_categories (JObject [(''destinationLoas'', JArray [JObject [(''xfl'', JInt 140)]]),
                       (''departureLoas'', JArray [JObject [(''xfl'', JString ''140'')]]),
                       (''fallbackLoas'', JArray [JObject []])]) pre empty_rules =
        (empty_rules\<lparr>destination_loas := [default_loa_entry\<lparr>xfl := 140\<rparr>]\<rparr>, None))"
proof -
  have h: "load_loas_from_json init_plugin ''EDMM''
     (Parsed (JObject [(''destinationLoas'', JArray [JObject [(''xfl'', JInt 140)]]),
                       (''departureLoas'', JArray [JObject [(''xfl'', JString ''140'')]]),
                       (''fallbackLoas'', JArray [JObject []])])) =
   (init_plugin\<lparr>loaded_sector := ''EDMM'', rules := empty_rules\<lparr>destination_loas := [default_loa_entry\<lparr>xfl := 140\<rparr>]\<rparr>,
       rules_gen := 1\<rparr>, LoadTypeError (TypeMustBe ''number''))"
    by (simp add: load_loas_from_json_def config_keys_def load_category_def parse_loa_list_def
        parse_loa_entry_def opt_field_def sum_bind_def init_plugin_def empty_rules_def)
  let ?cfg = "JObject [(''destinationLoas'', JArray [JObject [(''xfl'', JInt 140)]]),
                       (''departureLoas'', JArray [JObject [(''xfl'', JString ''140'')]]),
                       (''fallbackLoas'', JArray [JObject []])]"
  let ?q = "init_plugin\<lparr>loaded_sector := ''EDMM'', rules := empty_rules\<lparr>destination_loas := [default_loa_entry\<lparr>xfl := 140\<rparr>]\<rparr>,
       rules_gen := 1\<rparr>"
  from load_type_error_partial [OF h] obtain pre k upd post where
    d: "config_keys = pre @ (k, upd) # post" "json_contains ?cfg k"
    and l: "load_categories ?cfg pre empty_rules = (rules ?q, None)"
    by blast
  have "rules ?q = empty_rules\<lparr>destination_loas := [default_loa_entry\<lparr>xfl := 140\<rparr>]\<rparr>" by simp
  with l have "load_categories ?cfg pre empty_rules =
      (empty_rules\<lparr>destination_loas := [default_loa_entry\<lparr>xfl := 140\<rparr>]\<rparr>, None)" by simp
  with d h show ?thesis by blast
qed


theorem cop_destination_decides_witness:
  "List.find (\<lambda>_. True) (departure_loas (empty_rules\<lparr>destination_loas := [ex_entry]\<rparr>)) = None \<and>
   List.find (\<lambda>_. True) (destination_loas (empty_rules\<lparr>destination_loas := [ex_entry]\<rparr>)) = Some ex_entry \<and>
   cop_rules (empty_rules\<lparr>destination_loas := [ex_entry]\<rparr>) (\<lambda>_. True) (\<lambda>_. False) 16000 = ''LENDY'' \<and>
   cop_rules (empty_rules\<lparr>destination_loas := [ex_entry]\<rparr>) (\<lambda>_. True) (\<lambda>_. False) 12000 = ''COPX''"
proof -
  let ?r = "empty_rules\<lparr>destination_loas := [ex_entry]\<rparr>"
  have h: "List.find (\<lambda>_. True) (departure_loas ?r) = None"
    "List.find (\<lambda>_. True) (destination_loas ?r) = Some ex_entry"
    by (simp_all add: empty_rules_def)
  have e: "cop_rules (?r\<lparr>destination_loas := []\<rparr>) (\<lambda>_. True) (\<lambda>_. False) 12000 = ''COPX''"
    by (simp add: cop_rules_def cop_first_def empty_rules_def)
  from h e cop_destination_decides [OF h, of "\<lambda>_. False" 16000]
    cop_destination_decides [OF h, of "\<lambda>_. False" 12000]
  show ?thesis by (simp add: ex_defs)
qed

theorem cop_fallback_min_altitude_witness:
  "cop_rules (empty_rules\<lparr>fallback_loas := [ex_fallback]\<rparr>) (\<lambda>_. False)
      (tag_fallback_matches 23000 ''KJFK'' [''LENDY'']) 23000 = ''COPX'' \<and>
   cop_rules (empty_rules\<lparr>fallback_loas := [ex_fallback]\<rparr>) (\<lambda>_. False)
      (tag_fallback_matches 25000 ''KJFK'' [''LENDY'']) 25000 = ''FBK''"
proof -
  let ?r = "empty_rules\<lparr>fallback_loas := [ex_fallback]\<rparr>"
  have h: "\<not> list_ex (\<lambda>_. False) (departure_loas ?r)" "\<not> list_ex (\<lambda>_. False) (destination_loas ?r)"
    "\<not> list_ex (\<lambda>_. False) (lor_departures ?r)" "\<not> list_ex (\<lambda>_. False) (lor_arrivals ?r)"
    "fallback_loas ?r = ex_fallback # []" "waypoints ex_fallback = []" "destination_airports ex_fallback = []"
    by (simp_all add: empty_rules_def ex_defs loa_defs)
  have e: "cop_rules (?r\<lparr>fallback_loas := []\<rparr>) (\<lambda>_. False) (tag_fallback_matches 23000 ''KJFK'' [''LENDY''])
      23000 = ''COPX''"
    by (simp add: cop_rules_def cop_first_def empty_rules_def)
  from h e cop_fallback_min_altitude [OF h, of 23000 "''KJFK''" "[''LENDY'']"]
    cop_fallback_min_altitude [OF h, of 25000 "''KJFK''" "[''LENDY'']"]
  show ?thesis by (simp add: ex_defs loa_defs)
qed

end
